theory Spec2Isabelle
  imports Complex_Main
begin

section \<open>LazyDP: the DP-SGD optimizer of \<^verbatim>\<open>opacus/optimizers/optimizer.py\<close>\<close>

text \<open>
  The development embeds \<^verbatim>\<open>DPOptimizer\<close> and its module-level helpers. Conventions:
  \<^item> Python exceptions are values of \<open>error\<close>; every function that can raise returns
    \<open>error + 'a\<close> with \<open>Inl\<close> for the exception.
  \<^item> Floating-point tensors are tensors of real numbers: no rounding and no overflow.
    Where the float computation would produce NaN or an infinity and carry on (the square
    root of a negative number, a tensor division by zero), no real number exists for the
    result, and the model stops with \<open>NonFinite\<close>.
  \<^item> The history table has dtype \<^verbatim>\<open>torch.int\<close> (32 bits, signed); \<open>cnt_iter\<close> is a Python
    integer. The wrap-around of a scalar combined with an int32 tensor is written out.
  \<^item> A dense tensor is a matrix, a list of rows; a one-dimensional parameter is one row.
    Row indices of embedding tables are natural numbers.
  \<^item> Calls of \<^verbatim>\<open>config.profiler\<close> only measure time and are left out.
\<close>

subsection \<open>Errors and configuration\<close>

datatype error =
    ValueError string
  | AssertionError string
  | IndexError
  | TypeError
  | AttributeError
  | RuntimeError string
  | NonFinite

fun mapE :: "('a \<Rightarrow> error + 'b) \<Rightarrow> 'a list \<Rightarrow> error + 'b list" where
  "mapE f [] = Inr []"
| "mapE f (x # xs) =
     (case f x of Inl e \<Rightarrow> Inl e
      | Inr y \<Rightarrow> (case mapE f xs of Inl e \<Rightarrow> Inl e | Inr ys \<Rightarrow> Inr (y # ys)))"

text \<open>
  A loop that changes the elements of a list in place and stops at the first exception.
  The exception comes with the list as the loop leaves it: the elements before the failing
  one changed, the failing one as the body left it, the others untouched.
\<close>

fun mapES :: "('a \<Rightarrow> (error \<times> 'a) + 'a) \<Rightarrow> 'a list \<Rightarrow> (error \<times> 'a list) + 'a list" where
  "mapES f [] = Inr []"
| "mapES f (x # xs) =
     (case f x of Inl (e, x') \<Rightarrow> Inl (e, x' # xs)
      | Inr y \<Rightarrow> (case mapES f xs of Inl (e, ys) \<Rightarrow> Inl (e, y # ys) | Inr ys \<Rightarrow> Inr (y # ys)))"

text \<open>The mode constants of \<^verbatim>\<open>config.py\<close>.\<close>

definition MODE_DPSGD_B :: nat where "MODE_DPSGD_B = 1"
definition MODE_DPSGD_R :: nat where "MODE_DPSGD_R = 2"
definition MODE_DPSGD_F :: nat where "MODE_DPSGD_F = 3"
definition MODE_SGD :: nat where "MODE_SGD = 4"
definition MODE_LAZYDP :: nat where "MODE_LAZYDP = 5"
definition MODE_EANA :: nat where "MODE_EANA = 6"

datatype device = Cpu | Cuda

text \<open>The module-level variables of \<^verbatim>\<open>config.py\<close> that the optimizer reads.\<close>

record config =
  dpsgd_mode :: nat
  cfg_device :: device
  coalesce_nthreads :: nat
  coalesce_optimize :: string
  noise_base_nthreads :: nat
  noise_base_optimize :: string
  noise_final_nthreads :: nat
  is_debugging :: bool
  debugging_type :: string
  unique_optimize :: string
  cur_batch_size :: nat
  num_gathers_list :: "nat list option"

subsection \<open>Tensors\<close>

type_synonym matrix = "real list list"

text \<open>
  A sparse COO tensor with one sparse dimension (the row) and one dense dimension: the
  stored entries, each a row index with its vector, in storage order, the size, and the
  flag \<^verbatim>\<open>is_coalesced()\<close> that the tensor library keeps. \<open>sp_indices\<close> is
  \<^verbatim>\<open>_indices()[0]\<close> and \<open>sp_values\<close> is \<^verbatim>\<open>_values()\<close>. Indices may repeat until the
  tensor is coalesced.
\<close>

record sparse =
  sp_elems :: "(nat \<times> real list) list"
  sp_size :: "nat \<times> nat"
  sp_coalesced :: bool

definition sp_indices :: "sparse \<Rightarrow> nat list" where
  "sp_indices t = map fst (sp_elems t)"

definition sp_values :: "sparse \<Rightarrow> matrix" where
  "sp_values t = map snd (sp_elems t)"

datatype tensor = Dense matrix | Sparse sparse

text \<open>A gradient tensor with the attribute \<^verbatim>\<open>_processed\<close> that \<^verbatim>\<open>_mark_as_processed\<close> sets.\<close>

datatype grad = Grad (g_tensor: tensor) (g_processed: bool)

text \<open>
  A per-sample gradient tensor: one matrix per sample of the batch. For an embedding
  bag the matrix of a sample has one row of length \<open>embed_dim\<close> per gathered index.
\<close>

datatype gs_tensor = GS (gs_data: "matrix list") (gs_processed: bool)

text \<open>
  What \<^verbatim>\<open>p.grad_sample\<close> can be: the attribute may be missing, \<^verbatim>\<open>None\<close>, one tensor
  (one batch), a list of tensors (several accumulated batches), or something else.
\<close>

datatype grad_sample = GS_Missing | GS_None | GS_Tensor gs_tensor | GS_List "gs_tensor list" | GS_Other

text \<open>
  A parameter with the attributes the optimizer and the instrumentation attach to it.
  Of \<^verbatim>\<open>p.inputs = (index, activation, offset)\<close> only the flattened \<open>index\<close> is read.
\<close>

record param =
  p_shape :: "nat \<times> nat"
  p_device :: device
  p_grad_sample :: grad_sample
  p_grad_sample_norms :: "real list list option"
  p_summed_grad :: "grad option"
  p_grad :: "grad option"
  p_inputs :: "nat list option"

subsection \<open>The optimizer state\<close>

text \<open>
  The attributes of a \<^verbatim>\<open>DPOptimizer\<close>. \<open>emb_l\<close> holds the weight shapes of
  \<^verbatim>\<open>self.module.emb_l\<close>; the weights of the embedding tables are the first parameters of
  \<open>params\<close>, as \<^verbatim>\<open>do_delayed_noise_update\<close> takes them. \<open>cnt_iter\<close>, \<open>HT\<close>,
  \<open>stds_for_delayed_noise\<close> and \<open>lS_i_nxt\<close> are created by the constructor in LazyDP
  mode only, and read only by functions that run in that mode. \<open>generator\<close> counts the
  draws taken from the random source, so that two draws are never the same call.
\<close>

record dp_optimizer =
  noise_multiplier :: real
  max_grad_norm :: real
  loss_reduction :: string
  expected_batch_size :: "nat option"
  secure_mode :: bool
  step_skip_queue :: "bool list"
  is_last_step_skipped :: bool
  params :: "param list"
  emb_l :: "(nat \<times> nat) list"
  cnt_iter :: int
  HT :: "int list list"
  stds_for_delayed_noise :: "real list list"
  lS_i_nxt :: "nat list list option"
  generator :: nat

text \<open>
  The constructor, lines 253 to 287: the two configuration checks, \<open>summed_grad\<close> reset,
  and the LazyDP bookkeeping. \<^verbatim>\<open>list(torch.arange(n))\<close> is a list of the scalars
  \<open>0 .. n-1\<close>, each modelled as a sequence of one element.
\<close>

definition DPOptimizer_init ::
  "real \<Rightarrow> real \<Rightarrow> nat option \<Rightarrow> string \<Rightarrow> bool \<Rightarrow> param list \<Rightarrow> (nat \<times> nat) list
     \<Rightarrow> error + dp_optimizer" where
  "DPOptimizer_init nm mgn ebs lr sec ps embs =
     (if lr \<noteq> ''mean'' \<and> lr \<noteq> ''sum'' then Inl (ValueError ''Unexpected value for loss_reduction'')
      else if lr = ''mean'' \<and> ebs = None
        then Inl (ValueError ''You must provide expected batch size of the loss reduction is mean'')
      else Inr \<lparr> noise_multiplier = nm, max_grad_norm = mgn, loss_reduction = lr,
          expected_batch_size = ebs, secure_mode = sec, step_skip_queue = [],
          is_last_step_skipped = False,
          params = map (\<lambda>p. p\<lparr>p_summed_grad := None\<rparr>) ps,
          emb_l = embs, cnt_iter = 0,
          HT = map (\<lambda>sh. replicate (fst sh) 0) embs,
          stds_for_delayed_noise = map (\<lambda>i. [real i]) [0..<length embs],
          lS_i_nxt = Some (map (\<lambda>i. [i]) [0..<length embs]),
          generator = 0 \<rparr>)"

subsection \<open>The history table and the delayed-noise standard deviations\<close>

text \<open>The value an int32 tensor holds for the mathematical integer \<open>x\<close>.\<close>

definition to_int32 :: "int \<Rightarrow> int" where
  "to_int32 x = (x + 2 ^ 31) mod 2 ^ 32 - 2 ^ 31"

definition in_int32 :: "int \<Rightarrow> bool" where
  "in_int32 x \<longleftrightarrow> - (2 ^ 31) \<le> x \<and> x < 2 ^ 31"

text \<open>\<^verbatim>\<open>t[idx]\<close> with an index tensor: every index must be in range.\<close>

definition index_select :: "'a list \<Rightarrow> nat list \<Rightarrow> error + 'a list" where
  "index_select xs rs =
     (if \<forall>r \<in> set rs. r < length xs then Inr (map (\<lambda>r. xs ! r) rs) else Inl IndexError)"

text \<open>\<^verbatim>\<open>t[idx] = v\<close> with an index tensor and a scalar, the indices being in range.\<close>

definition index_fill :: "'a list \<Rightarrow> nat list \<Rightarrow> 'a \<Rightarrow> 'a list" where
  "index_fill xs rs v = fold (\<lambda>r ys. ys[r := v]) rs xs"

text \<open>\<^verbatim>\<open>x ** (1/2)\<close> on an integer tensor entry: a float, NaN below zero.\<close>

definition pow_half :: "int \<Rightarrow> error + real" where
  "pow_half e = (if e < 0 then Inl NonFinite else Inr (sqrt (real_of_int e)))"

text \<open>
  \<^verbatim>\<open>set_emb_to_noise_update\<close>, lines 726 to 733. The loop body evaluates
  \<^verbatim>\<open>((cnt_iter - HT[i][lS_i_nxt[i]])**(1/2)) * noise_multiplier * max_grad_norm\<close> and stores
  it in \<^verbatim>\<open>stds_for_delayed_noise[i]\<close>.
\<close>

fun set_emb_loop :: "nat list list \<Rightarrow> nat list \<Rightarrow> dp_optimizer \<Rightarrow> error + dp_optimizer" where
  "set_emb_loop ls [] s = Inr s"
| "set_emb_loop ls (i # is) s =
     (if length (HT s) \<le> i then Inl IndexError
      else case index_select (HT s ! i) (ls ! i) of Inl e \<Rightarrow> Inl e
      | Inr hs \<Rightarrow>
         (case mapE pow_half (map (\<lambda>h. to_int32 (cnt_iter s - h)) hs) of Inl e \<Rightarrow> Inl e
          | Inr roots \<Rightarrow>
             if length (stds_for_delayed_noise s) \<le> i then Inl IndexError
             else set_emb_loop ls is
                (s\<lparr>stds_for_delayed_noise := (stds_for_delayed_noise s)
                     [i := map (\<lambda>x. x * noise_multiplier s * max_grad_norm s) roots]\<rparr>)))"

definition set_emb_to_noise_update :: "dp_optimizer \<Rightarrow> error + dp_optimizer" where
  "set_emb_to_noise_update s =
     (case lS_i_nxt s of None \<Rightarrow> Inr s
      | Some ls \<Rightarrow> set_emb_loop ls [0..<length ls] s)"

text \<open>
  \<^verbatim>\<open>set_HT_increase_cnt_iter\<close>, lines 781 to 786. \<^verbatim>\<open>len(None)\<close> is a TypeError; storing
  a Python integer outside the int32 range into the table is refused by the tensor library.
\<close>

fun set_HT_loop :: "nat list list \<Rightarrow> nat list \<Rightarrow> dp_optimizer \<Rightarrow> error + dp_optimizer" where
  "set_HT_loop ls [] s = Inr s"
| "set_HT_loop ls (i # is) s =
     (if length (HT s) \<le> i then Inl IndexError
      else if \<not> in_int32 (cnt_iter s)
        then Inl (RuntimeError ''value cannot be converted to type int without overflow'')
      else if \<not> (\<forall>r \<in> set (ls ! i). r < length (HT s ! i)) then Inl IndexError
      else set_HT_loop ls is
             (s\<lparr>HT := (HT s)[i := index_fill (HT s ! i) (ls ! i) (cnt_iter s)]\<rparr>))"

definition set_HT_increase_cnt_iter :: "dp_optimizer \<Rightarrow> error + dp_optimizer" where
  "set_HT_increase_cnt_iter s =
     (case lS_i_nxt s of None \<Rightarrow> Inl TypeError
      | Some ls \<Rightarrow>
          if length ls \<noteq> length (emb_l s) then Inl (AssertionError [])
          else (case set_HT_loop ls [0..<length ls] s of Inl e \<Rightarrow> Inl e
                | Inr s' \<Rightarrow> Inr (s'\<lparr>cnt_iter := cnt_iter s' + 1\<rparr>)))"


text \<open>The value that the loop body above computes for row \<open>r\<close> of table \<open>i\<close>.\<close>

definition row_std :: "dp_optimizer \<Rightarrow> nat \<Rightarrow> nat \<Rightarrow> real" where
  "row_std s i r = sqrt (real_of_int (to_int32 (cnt_iter s - HT s ! i ! r))) * noise_multiplier s * max_grad_norm s"

text \<open>The history invariant of the data model: every entry is between 0 and \<open>cnt_iter\<close>.\<close>

definition HT_bounded :: "dp_optimizer \<Rightarrow> bool" where
  "HT_bounded s \<longleftrightarrow> (\<forall>row \<in> set (HT s). \<forall>h \<in> set row. 0 \<le> h \<and> h \<le> cnt_iter s)"


text \<open>A state for concrete runs: one table of four rows, in iteration 9.\<close>

definition lazy_example :: dp_optimizer where
  "lazy_example = \<lparr> noise_multiplier = 2, max_grad_norm = 3, loss_reduction = ''sum'',
     expected_batch_size = None, secure_mode = False, step_skip_queue = [],
     is_last_step_skipped = False, params = [], emb_l = [(4, 2)], cnt_iter = 9,
     HT = [[0, 5, 0, 8]], stds_for_delayed_noise = [[0]], lS_i_nxt = Some [[1, 3]],
     generator = 0 \<rparr>"


subsection \<open>Sparse tensors and coalescing\<close>

definition vadd :: "real list \<Rightarrow> real list \<Rightarrow> real list" where
  "vadd u v = map2 (+) u v"

definition vsum :: "nat \<Rightarrow> matrix \<Rightarrow> real list" where
  "vsum d vs = foldr vadd vs (replicate d 0)"

text \<open>The stored vectors of row \<open>r\<close>, and their sum: row \<open>r\<close> of the dense tensor.\<close>

definition sp_entries :: "sparse \<Rightarrow> nat \<Rightarrow> matrix" where
  "sp_entries t r = map snd (filter (\<lambda>e. fst e = r) (sp_elems t))"

definition sp_row :: "sparse \<Rightarrow> nat \<Rightarrow> real list" where
  "sp_row t r = vsum (snd (sp_size t)) (sp_entries t r)"

text \<open>
  \<^verbatim>\<open>torch.sparse_coo_tensor(indices, values, size)\<close>: as many indices as value rows, each
  row of the dense width, each index inside the table.
\<close>

definition sparse_coo_tensor :: "nat list \<Rightarrow> matrix \<Rightarrow> nat \<times> nat \<Rightarrow> error + sparse" where
  "sparse_coo_tensor idx vals sz =
     (if length idx \<noteq> length vals then Inl (RuntimeError ''shape'')
      else if \<not> (\<forall>v \<in> set vals. length v = snd sz) then Inl (RuntimeError ''shape'')
      else if \<not> (\<forall>k \<in> set idx. k < fst sz) then Inl (RuntimeError ''size is inconsistent with indices'')
      else Inr \<lparr> sp_elems = zip idx vals, sp_size = sz, sp_coalesced = False \<rparr>)"

text \<open>
  \<^verbatim>\<open>Tensor.coalesce()\<close>: a tensor that is flagged as coalesced is returned as it is;
  otherwise the result is a new tensor with the indices sorted and without repetition,
  each with the sum of the vectors stored for it.
\<close>

definition coalesce :: "sparse \<Rightarrow> sparse" where
  "coalesce t =
     (if sp_coalesced t then t
      else let ks = sort (remdups (sp_indices t))
           in t\<lparr> sp_elems := map (\<lambda>k. (k, sp_row t k)) ks, sp_coalesced := True \<rparr>)"

subsection \<open>External collaborators\<close>

text \<open>
  The C++ extension \<^verbatim>\<open>custom_api_cpp\<close>, the random source of the tensor library and the
  automatic differentiation are not part of the optimizer; they are parameters of the
  model. The first argument of a noise function is the number of draws taken before, the
  others are those of the call. \<open>backward\<close> stands for \<^verbatim>\<open>loss.backward()\<close> on the loss
  weighted by the clip factors: given the factors and the parameters it yields the new
  \<^verbatim>\<open>p.grad\<close> of the parameter at a position.
\<close>

record externals =
  normal_multi_thread :: "nat \<Rightarrow> real \<Rightarrow> nat \<Rightarrow> nat \<Rightarrow> nat \<Rightarrow> matrix"
  normal_multi_thread_with_extra :: "nat \<Rightarrow> real list \<Rightarrow> nat \<Rightarrow> nat \<Rightarrow> nat \<Rightarrow> matrix"
  coalesce_multi_thread_openmp :: "sparse \<Rightarrow> nat \<Rightarrow> sparse"
  coalesce_multi_thread_embeddingbag :: "sparse \<Rightarrow> nat \<Rightarrow> sparse"
  unique_multi_thread :: "nat list \<Rightarrow> nat list"
  torch_normal :: "nat \<Rightarrow> real \<Rightarrow> nat \<times> nat \<Rightarrow> matrix"
  backward :: "real list \<Rightarrow> param list \<Rightarrow> nat \<Rightarrow> grad option"

text \<open>
  The choice of the coalescing strategy, as \<^verbatim>\<open>clip_and_accumulate\<close> (lines 480 to 487)
  and \<^verbatim>\<open>do_delayed_noise_update\<close> (lines 771 to 778) write it.
\<close>

definition coalesce_with :: "externals \<Rightarrow> config \<Rightarrow> sparse \<Rightarrow> error + sparse" where
  "coalesce_with ext cfg t =
     (if coalesce_optimize cfg = ''baseline'' then Inr (coalesce t)
      else if coalesce_optimize cfg = ''multi_thread_openmp''
        then Inr (coalesce_multi_thread_openmp ext t (coalesce_nthreads cfg))
      else if coalesce_optimize cfg = ''multi_thread_embeddingbag''
        then Inr (coalesce_multi_thread_embeddingbag ext t (coalesce_nthreads cfg))
      else Inl (AssertionError []))"

subsection \<open>The delayed-noise merge\<close>

text \<open>
  \<^verbatim>\<open>v[lo:hi] = src\<close> on the first dimension: the source has as many rows as the slice,
  or one row that is repeated.
\<close>

definition assign_slice :: "'a list \<Rightarrow> nat \<Rightarrow> nat \<Rightarrow> 'a list \<Rightarrow> error + 'a list" where
  "assign_slice v lo hi src =
     (let k = min hi (length v) - lo
      in if length src = k then Inr (take lo v @ src @ drop (lo + k) v)
         else if length src = 1 then Inr (take lo v @ replicate k (hd src) @ drop (lo + k) v)
         else Inl (RuntimeError ''shape''))"

text \<open>\<^verbatim>\<open>config.cur_batch_size * config.num_gathers_list[i]\<close>.\<close>

definition extra_rows :: "config \<Rightarrow> nat \<Rightarrow> error + nat" where
  "extra_rows cfg i =
     (case num_gathers_list cfg of None \<Rightarrow> Inl TypeError
      | Some ngl \<Rightarrow> if i < length ngl then Inr (cur_batch_size cfg * ngl ! i) else Inl IndexError)"

text \<open>\<^verbatim>\<open>(std / noise_multiplier / max_grad_norm) ** 2\<close>, lines 742 and 745.\<close>

definition delays :: "dp_optimizer \<Rightarrow> real list \<Rightarrow> error + real list" where
  "delays s std =
     (if noise_multiplier s = 0 \<or> max_grad_norm s = 0 then Inl NonFinite
      else Inr (map (\<lambda>x. (x / noise_multiplier s / max_grad_norm s)\<^sup>2) std))"

text \<open>
  Lines 740 to 750: the tensor \<open>v\<close>, first the noise rows for \<open>lS_i_nxt[i]\<close>, then room
  for the rows of the real gradient. The second element of the result tells whether the
  random source was used. The second debugging type of line 741 is spelled as there.
\<close>

definition delayed_noise_rows ::
  "externals \<Rightarrow> config \<Rightarrow> dp_optimizer \<Rightarrow> nat \<Rightarrow> real list \<Rightarrow> nat \<Rightarrow> error + matrix \<times> bool" where
  "delayed_noise_rows ext cfg s edim std i =
     (if is_debugging cfg \<and> debugging_type cfg \<in> {''without_noise'', ''without_nosie_clipping''}
      then (case delays s std of Inl e \<Rightarrow> Inl e
            | Inr ds \<Rightarrow> (case extra_rows cfg i of Inl e \<Rightarrow> Inl e
               | Inr extra \<Rightarrow>
                   Inr (map (\<lambda>d. map (\<lambda>z. z * d) (replicate edim 0)) ds
                         @ replicate extra (replicate edim 0), False)))
      else if is_debugging cfg \<and> debugging_type cfg = ''one_as_noise''
      then (case delays s std of Inl e \<Rightarrow> Inl e
            | Inr ds \<Rightarrow> (case extra_rows cfg i of Inl e \<Rightarrow> Inl e
               | Inr extra \<Rightarrow>
                   Inr (map (\<lambda>d. map (\<lambda>z. z * d) (replicate edim 1)) ds
                         @ replicate extra (replicate edim 0), False)))
      else if is_debugging cfg then Inl (AssertionError [])
      else (case extra_rows cfg i of Inl e \<Rightarrow> Inl e
            | Inr extra \<Rightarrow>
                Inr (normal_multi_thread_with_extra ext (generator s) std edim extra
                       (noise_final_nthreads cfg), True)))"

text \<open>
  Lines 754 to 766: the rows of the real gradient are written behind the noise rows,
  the indices \<open>lS_i_nxt[i]\<close> and those of the real gradient side by side, and the
  three assertions. The assertion on \<^verbatim>\<open>v.shape[1]\<close> is the width check of
  \<open>sparse_coo_tensor\<close>.
\<close>

definition merge_noise_and_grad ::
  "config \<Rightarrow> nat \<Rightarrow> nat \<Rightarrow> nat \<Rightarrow> nat list \<Rightarrow> matrix \<Rightarrow> nat \<Rightarrow> sparse \<Rightarrow> error + sparse" where
  "merge_noise_and_grad cfg edim i n_rows_total rows v n_rows_noise sparse_grad =
     (case assign_slice v n_rows_noise (length v) (sp_values sparse_grad) of Inl e \<Rightarrow> Inl e
      | Inr v' \<Rightarrow>
     (case assign_slice (replicate (length v') 0) 0 n_rows_noise rows of Inl e \<Rightarrow> Inl e
      | Inr idx0 \<Rightarrow>
     (case assign_slice idx0 n_rows_noise (length idx0) (sp_indices sparse_grad) of Inl e \<Rightarrow> Inl e
      | Inr new_indices \<Rightarrow>
     (case sparse_coo_tensor new_indices v' (n_rows_total, edim) of Inl e \<Rightarrow> Inl e
      | Inr noisy_grad \<Rightarrow>
     (case extra_rows cfg i of Inl e \<Rightarrow> Inl e
      | Inr extra \<Rightarrow>
          if extra \<noteq> length (sp_indices sparse_grad) then Inl (AssertionError [])
          else if length v' \<noteq> extra + n_rows_noise then Inl (AssertionError [])
          else Inr noisy_grad)))))"

text \<open>\<^verbatim>\<open>self.params[i].grad\<close> read as a sparse tensor, with its attribute \<^verbatim>\<open>_processed\<close>.\<close>

definition sparse_grad_of :: "dp_optimizer \<Rightarrow> nat \<Rightarrow> error + sparse \<times> bool" where
  "sparse_grad_of s i =
     (if length (params s) \<le> i then Inl IndexError
      else case p_grad (params s ! i) of None \<Rightarrow> Inl AttributeError
        | Some (Grad (Dense m) f) \<Rightarrow> Inl (RuntimeError ''not a sparse tensor'')
        | Some (Grad (Sparse g) f) \<Rightarrow> Inr (g, f))"

text \<open>
  Whether the coalescing step hands back the very tensor it was given, attributes
  included: \<^verbatim>\<open>coalesce()\<close> does so for a tensor flagged as coalesced; the functions of the
  extension build a new tensor.
\<close>

definition returns_self :: "config \<Rightarrow> sparse \<Rightarrow> bool" where
  "returns_self cfg t \<longleftrightarrow> coalesce_optimize cfg = ''baseline'' \<and> sp_coalesced t"

text \<open>
  \<^verbatim>\<open>do_delayed_noise_update\<close>, lines 735 to 779, first the body of the loop for table
  \<open>i\<close>. The merged tensor is a new tensor, without the attribute \<^verbatim>\<open>_processed\<close>.
\<close>

definition delayed_noise_table ::
  "externals \<Rightarrow> config \<Rightarrow> nat \<Rightarrow> nat \<Rightarrow> dp_optimizer \<Rightarrow> error + dp_optimizer" where
  "delayed_noise_table ext cfg edim i s =
     (case (case lS_i_nxt s of
              Some ls \<Rightarrow>
                if length (stds_for_delayed_noise s) \<le> i then Inl IndexError
                else (let std = stds_for_delayed_noise s ! i in
                  case delayed_noise_rows ext cfg s edim std i of Inl e \<Rightarrow> Inl e
                  | Inr (v, drawn) \<Rightarrow>
                  (case sparse_grad_of s i of Inl e \<Rightarrow> Inl e
                   | Inr (sparse_grad, f) \<Rightarrow>
                       if length ls \<le> i then Inl IndexError
                       else (case merge_noise_and_grad cfg edim i (fst (p_shape (params s ! i)))
                                     (ls ! i) v (length std) sparse_grad of Inl e \<Rightarrow> Inl e
                             | Inr noisy_grad \<Rightarrow> Inr (noisy_grad, False, drawn))))
            | None \<Rightarrow>
                (case sparse_grad_of s i of Inl e \<Rightarrow> Inl e
                 | Inr (noisy_grad, f) \<Rightarrow> Inr (noisy_grad, f, False)))
      of Inl e \<Rightarrow> Inl e
      | Inr (noisy_grad, f, drawn) \<Rightarrow>
          (case coalesce_with ext cfg noisy_grad of Inl e \<Rightarrow> Inl e
           | Inr g \<Rightarrow>
               Inr (s\<lparr> params := (params s)[i := (params s ! i)
                          \<lparr>p_grad := Some (Grad (Sparse g) (f \<and> returns_self cfg noisy_grad))\<rparr>],
                       generator := (if drawn then generator s + 1 else generator s) \<rparr>)))"

fun delayed_noise_loop ::
  "externals \<Rightarrow> config \<Rightarrow> nat \<Rightarrow> nat list \<Rightarrow> dp_optimizer \<Rightarrow> error + dp_optimizer" where
  "delayed_noise_loop ext cfg edim [] s = Inr s"
| "delayed_noise_loop ext cfg edim (i # is) s =
     (case delayed_noise_table ext cfg edim i s of Inl e \<Rightarrow> Inl e
      | Inr s' \<Rightarrow> delayed_noise_loop ext cfg edim is s')"

definition do_delayed_noise_update :: "externals \<Rightarrow> config \<Rightarrow> dp_optimizer \<Rightarrow> error + dp_optimizer" where
  "do_delayed_noise_update ext cfg s =
     (case emb_l s of [] \<Rightarrow> Inl IndexError
      | sh # _ \<Rightarrow> delayed_noise_loop ext cfg (snd sh) [0..<length (emb_l s)] s)"

text \<open>
  The vectors that \<open>v\<close> holds for row \<open>r\<close>: the leading rows of \<open>v\<close> belong, one by
  one, to the rows listed in \<open>lS_i_nxt[i]\<close>.
\<close>

definition noise_entries :: "nat list \<Rightarrow> matrix \<Rightarrow> nat \<Rightarrow> matrix" where
  "noise_entries rows v r = map snd (filter (\<lambda>e. fst e = r) (zip rows v))"


text \<open>
  A LazyDP configuration and a state with one table of eight rows: the real gradient has
  the vector \<open>[1, 1]\<close> for row 7, row 7 is accessed next, and the random source returns
  \<open>[2, 2]\<close> for it.
\<close>

definition merge_cfg :: config where
  "merge_cfg = \<lparr> dpsgd_mode = MODE_LAZYDP, cfg_device = Cuda, coalesce_nthreads = 32,
     coalesce_optimize = ''baseline'', noise_base_nthreads = 32,
     noise_base_optimize = ''multi_thread'', noise_final_nthreads = 32, is_debugging = False,
     debugging_type = ''without_noise'', unique_optimize = ''baseline'', cur_batch_size = 1,
     num_gathers_list = Some [1] \<rparr>"

definition merge_ext :: externals where
  "merge_ext = \<lparr> normal_multi_thread = (\<lambda>g std n m nt. replicate n (replicate m 0)),
     normal_multi_thread_with_extra = (\<lambda>g std d extra nt. [[2, 2], [0, 0]]),
     coalesce_multi_thread_openmp = (\<lambda>t nt. coalesce t),
     coalesce_multi_thread_embeddingbag = (\<lambda>t nt. coalesce t),
     unique_multi_thread = (\<lambda>xs. sort (remdups xs)),
     torch_normal = (\<lambda>g std sh. replicate (fst sh) (replicate (snd sh) 0)),
     backward = (\<lambda>w ps i. p_grad (ps ! i)) \<rparr>"

text \<open>
  A random source that shows what it is asked for: every noise row holds, in each column,
  the standard deviation requested for it.
\<close>

definition std_ext :: externals where
  "std_ext = merge_ext \<lparr> normal_multi_thread_with_extra := (\<lambda>g std d extra nt.
     map (\<lambda>x. replicate d x) std @ replicate extra (replicate d 0)) \<rparr>"

definition merge_state :: dp_optimizer where
  "merge_state = \<lparr> noise_multiplier = 1, max_grad_norm = 1, loss_reduction = ''sum'',
     expected_batch_size = None, secure_mode = False, step_skip_queue = [],
     is_last_step_skipped = False,
     params = [\<lparr> p_shape = (8, 2), p_device = Cpu, p_grad_sample = GS_Missing,
                 p_grad_sample_norms = None,
                 p_summed_grad = Some (Grad (Sparse \<lparr> sp_elems = [(7, [1, 1])], sp_size = (8, 2), sp_coalesced = False \<rparr>) True),
                 p_grad = Some (Grad (Sparse \<lparr> sp_elems = [(7, [1, 1])], sp_size = (8, 2), sp_coalesced = False \<rparr>) True),
                 p_inputs = None \<rparr>],
     emb_l = [(8, 2)], cnt_iter = 4, HT = [replicate 8 0], stds_for_delayed_noise = [[2]],
     lS_i_nxt = Some [[7]], generator = 0 \<rparr>"

text \<open>
  A state in which the rows of the next iteration are not known: the real gradient of the
  only table stores row 3 twice.
\<close>

definition none_state :: dp_optimizer where
  "none_state = merge_state \<lparr> lS_i_nxt := None,
     params := [\<lparr> p_shape = (8, 2), p_device = Cpu, p_grad_sample = GS_Missing,
                 p_grad_sample_norms = None,
                 p_summed_grad = Some (Grad (Sparse \<lparr> sp_elems = [(3, [1, 1]), (3, [2, 2])], sp_size = (8, 2), sp_coalesced = False \<rparr>) True),
                 p_grad = Some (Grad (Sparse \<lparr> sp_elems = [(3, [1, 1]), (3, [2, 2])], sp_size = (8, 2), sp_coalesced = False \<rparr>) True),
                 p_inputs = None \<rparr>] \<rparr>"

subsection \<open>Processed flags\<close>

text \<open>\<^verbatim>\<open>_mark_as_processed\<close>, lines 41 to 62, on \<^verbatim>\<open>p.grad_sample\<close> and on \<^verbatim>\<open>p.summed_grad\<close>.\<close>

fun mark_as_processed :: "grad_sample \<Rightarrow> grad_sample" where
  "mark_as_processed (GS_Tensor t) = GS_Tensor (GS (gs_data t) True)"
| "mark_as_processed (GS_List ts) = GS_List (map (\<lambda>t. GS (gs_data t) True) ts)"
| "mark_as_processed x = x"

definition mark_grad_as_processed :: "grad option \<Rightarrow> grad option" where
  "mark_grad_as_processed g = map_option (\<lambda>t. Grad (g_tensor t) True) g"

definition not_cleared :: string where
  "not_cleared = ''Gradients haven't been cleared since the last optimizer step. In order to obtain privacy guarantees you must call optimizer.zero_grad()on each step''"

text \<open>\<^verbatim>\<open>_check_processed_flag_tensor\<close>, lines 65 to 86, given whether the attribute is set.\<close>

definition check_processed_flag_tensor :: "bool \<Rightarrow> error + unit" where
  "check_processed_flag_tensor processed =
     (if processed then Inl (ValueError not_cleared) else Inr ())"

text \<open>\<^verbatim>\<open>_check_processed_flag\<close>, lines 89 to 110, on \<^verbatim>\<open>p.grad_sample\<close> and on \<^verbatim>\<open>p.summed_grad\<close>.\<close>

fun check_processed_flag :: "grad_sample \<Rightarrow> error + unit" where
  "check_processed_flag (GS_Tensor t) = check_processed_flag_tensor (gs_processed t)"
| "check_processed_flag (GS_List ts) =
     (case mapE (\<lambda>t. check_processed_flag_tensor (gs_processed t)) ts of
        Inl e \<Rightarrow> Inl e | Inr us \<Rightarrow> Inr ())"
| "check_processed_flag x = Inr ()"

definition check_grad_processed_flag :: "grad option \<Rightarrow> error + unit" where
  "check_grad_processed_flag g =
     (case g of None \<Rightarrow> Inr () | Some t \<Rightarrow> check_processed_flag_tensor (g_processed t))"

subsection \<open>Noise generation\<close>

definition zeros :: "nat \<times> nat \<Rightarrow> matrix" where
  "zeros sh = replicate (fst sh) (replicate (snd sh) 0)"

definition ones :: "nat \<times> nat \<Rightarrow> matrix" where
  "ones sh = replicate (fst sh) (replicate (snd sh) 1)"

text \<open>The shape of a tensor, and the reference tensor of a noise request: its shape and device.\<close>

definition tensor_shape :: "tensor \<Rightarrow> nat \<times> nat" where
  "tensor_shape t = (case t of Dense m \<Rightarrow> (length m, (case m of [] \<Rightarrow> 0 | r # rs \<Rightarrow> length r))
                     | Sparse sp \<Rightarrow> sp_size sp)"

text \<open>
  \<^verbatim>\<open>_generate_noise\<close>, lines 112 to 192. The reference is \<^verbatim>\<open>None\<close> or has a shape and a
  device, which are read in the branch that needs them. The result tells whether the
  random source was used. The statements behind the two leading assertions are not
  reached. A negative standard deviation is refused by \<^verbatim>\<open>torch.normal\<close>.
\<close>

definition generate_noise ::
  "externals \<Rightarrow> config \<Rightarrow> nat \<Rightarrow> real \<Rightarrow> ((nat \<times> nat) \<times> device) option \<Rightarrow> bool
     \<Rightarrow> error + matrix \<times> bool" where
  "generate_noise ext cfg gen std reference secure =
     (if std = 0 then Inl (AssertionError [])
      else if secure then Inl (AssertionError ''Do not consider secure_mode'')
      else if is_debugging cfg \<and> debugging_type cfg \<in> {''without_noise'', ''without_noise_clipping''}
        then (case reference of None \<Rightarrow> Inl AttributeError
              | Some (shape, dev) \<Rightarrow> Inr (zeros shape, False))
      else if is_debugging cfg \<and> debugging_type cfg = ''one_as_noise''
        then (case reference of None \<Rightarrow> Inl AttributeError
              | Some (shape, dev) \<Rightarrow> Inr (ones shape, False))
      else if is_debugging cfg then Inl (AssertionError [])
      else (case reference of None \<Rightarrow> Inl AttributeError
            | Some (shape, dev) \<Rightarrow>
                if dev = Cpu \<and> noise_base_optimize cfg \<noteq> ''baseline''
                  then (if noise_base_optimize cfg = ''multi_thread''
                        then Inr (normal_multi_thread ext gen std (fst shape) (snd shape)
                                    (noise_base_nthreads cfg), True)
                        else Inl (AssertionError []))
                else if std < 0 then Inl (RuntimeError ''normal expects std >= 0.0'')
                else Inr (torch_normal ext gen std shape, True)))"

subsection \<open>Skipped steps, accumulated iterations, zero_grad\<close>

text \<open>\<^verbatim>\<open>signal_skip_step\<close>, line 353, and \<^verbatim>\<open>_check_skip_next_step\<close>, lines 362 to 368.\<close>

definition signal_skip_step :: "bool \<Rightarrow> dp_optimizer \<Rightarrow> dp_optimizer" where
  "signal_skip_step do_skip s = s\<lparr>step_skip_queue := step_skip_queue s @ [do_skip]\<rparr>"

definition check_skip_next_step :: "bool \<Rightarrow> dp_optimizer \<Rightarrow> bool \<times> dp_optimizer" where
  "check_skip_next_step pop_next s =
     (case step_skip_queue s of [] \<Rightarrow> (False, s)
      | b # rest \<Rightarrow> if pop_next then (b, s\<lparr>step_skip_queue := rest\<rparr>) else (b, s))"

text \<open>
  \<^verbatim>\<open>accumulated_iterations\<close>, lines 387 to 417: the body starts with \<^verbatim>\<open>return 1\<close>. The
  statements behind it, lines 400 to 417, are never run; \<open>accumulated_iterations_tail\<close>
  is what they would compute.
\<close>

definition accumulated_iterations :: "dp_optimizer \<Rightarrow> error + nat" where
  "accumulated_iterations s = Inr 1"

definition accumulated_val :: "param \<Rightarrow> error + nat" where
  "accumulated_val p =
     (case p_grad_sample p of
        GS_Missing \<Rightarrow> Inl (ValueError ''Per sample gradient not found. Are you using GradSampleModule?'')
      | GS_Tensor t \<Rightarrow> Inr 1
      | GS_List ts \<Rightarrow> Inr (length ts)
      | GS_None \<Rightarrow> Inl (ValueError ''Unexpected grad_sample type'')
      | GS_Other \<Rightarrow> Inl (ValueError ''Unexpected grad_sample type''))"

definition accumulated_iterations_tail :: "dp_optimizer \<Rightarrow> error + nat" where
  "accumulated_iterations_tail s =
     (case mapE accumulated_val (params s) of Inl e \<Rightarrow> Inl e
      | Inr vals \<Rightarrow>
          if 1 < length (remdups vals)
            then Inl (ValueError ''Number of accumulated steps is inconsistent across parameters'')
          else (case vals of [] \<Rightarrow> Inl IndexError | v # vs \<Rightarrow> Inr v))"

text \<open>
  \<^verbatim>\<open>zero_grad\<close> of the wrapped \<^verbatim>\<open>torch.optim.Optimizer\<close>, for one parameter: a gradient
  that is present is dropped, or, without \<^verbatim>\<open>set_to_none\<close>, set to zero in place.
\<close>

definition zero_tensor :: "tensor \<Rightarrow> tensor" where
  "zero_tensor t = (case t of Dense m \<Rightarrow> Dense (map (map (\<lambda>x. 0)) m)
                    | Sparse sp \<Rightarrow> Sparse (sp\<lparr>sp_elems := []\<rparr>))"

definition original_zero_grad :: "bool \<Rightarrow> param \<Rightarrow> param" where
  "original_zero_grad set_to_none p =
     (case p_grad p of None \<Rightarrow> p
      | Some g \<Rightarrow> if set_to_none then p\<lparr>p_grad := None\<rparr>
                  else p\<lparr>p_grad := Some (Grad (zero_tensor (g_tensor g)) (g_processed g))\<rparr>)"

text \<open>\<^verbatim>\<open>zero_grad\<close>, lines 630 to 662. The argument is overwritten in line 648.\<close>

definition zero_grad :: "config \<Rightarrow> bool \<Rightarrow> dp_optimizer \<Rightarrow> dp_optimizer" where
  "zero_grad cfg set_to_none_arg s =
     (let set_to_none = True;
          clear = (\<lambda>p.
            let p1 = (if dpsgd_mode cfg = MODE_DPSGD_B then p\<lparr>p_grad_sample := GS_None\<rparr> else p)
            in if \<not> is_last_step_skipped s then p1\<lparr>p_summed_grad := None\<rparr> else p1)
      in s\<lparr>params := map (original_zero_grad set_to_none) (map clear (params s))\<rparr>)"

text \<open>
  A debugging configuration and a state of two parameters, one with one accumulated batch
  and one with two.
\<close>

definition debug_cfg :: config where
  "debug_cfg = merge_cfg \<lparr> dpsgd_mode := MODE_DPSGD_B, is_debugging := True \<rparr>"

definition acc_state :: dp_optimizer where
  "acc_state = merge_state \<lparr> params :=
     [\<lparr> p_shape = (1, 1), p_device = Cuda,
        p_grad_sample = GS_List [GS [[[1]]] False],
        p_grad_sample_norms = None, p_summed_grad = None,
        p_grad = Some (Grad (Dense [[5]]) False), p_inputs = None \<rparr>,
      \<lparr> p_shape = (1, 1), p_device = Cuda,
        p_grad_sample = GS_List [GS [[[1]]] False, GS [[[2]]] False],
        p_grad_sample_norms = None, p_summed_grad = Some (Grad (Dense [[3]]) False),
        p_grad = None, p_inputs = None \<rparr>] \<rparr>"

subsection \<open>Clipping and accumulation\<close>

text \<open>\<^verbatim>\<open>_get_flat_grad_sample\<close>, lines 316 to 331, and the property \<^verbatim>\<open>grad_samples\<close>.\<close>

definition get_flat_grad_sample :: "param \<Rightarrow> error + matrix list" where
  "get_flat_grad_sample p =
     (case p_grad_sample p of
        GS_Missing \<Rightarrow> Inl (ValueError ''Per sample gradient not found. Are you using GradSampleModule?'')
      | GS_None \<Rightarrow> Inl (ValueError ''Per sample gradient is not initialized. Not updated in backward pass?'')
      | GS_Tensor t \<Rightarrow> Inr (gs_data t)
      | GS_List ts \<Rightarrow> if ts = [] then Inl (RuntimeError ''torch.cat(): expected a non-empty list of Tensors'')
                     else Inr (concat (map gs_data ts))
      | GS_Other \<Rightarrow> Inl (ValueError ''Unexpected grad_sample type''))"

definition grad_samples :: "dp_optimizer \<Rightarrow> error + matrix list list" where
  "grad_samples s = mapE get_flat_grad_sample (params s)"

text \<open>The L2 norm of a vector, and \<^verbatim>\<open>g.reshape(len(g), -1).norm(2, dim=-1)\<close>.\<close>

definition l2_norm :: "real list \<Rightarrow> real" where
  "l2_norm xs = sqrt (sum_list (map (\<lambda>x. x\<^sup>2) xs))"

definition sample_norms :: "matrix list \<Rightarrow> real list" where
  "sample_norms g = map (\<lambda>m. l2_norm (concat m)) g"

text \<open>
  \<^verbatim>\<open>torch.stack(per_param_norms, dim=1).norm(2, dim=1)\<close>: the tensors must be of one
  length, and there must be one at least; the result has the norm over the parameters,
  per sample.
\<close>

definition stack_norm :: "real list list \<Rightarrow> error + real list" where
  "stack_norm nss =
     (case nss of [] \<Rightarrow> Inl (RuntimeError ''stack expects a non-empty TensorList'')
      | ns # rest \<Rightarrow>
          if \<exists>ms \<in> set rest. length ms \<noteq> length ns
            then Inl (RuntimeError ''stack expects each tensor to be equal size'')
          else Inr (map (\<lambda>i. l2_norm (map (\<lambda>ms. ms ! i) nss)) [0..<length ns]))"

text \<open>
  Lines 456 to 462 and 511 to 517:
  \<^verbatim>\<open>(max_grad_norm / (per_sample_norms + 1e-6)).clamp(max=1.0)\<close>, replaced by ones for the
  debugging type \<open>without_noise_clipping\<close>.
\<close>

definition per_sample_clip_factor :: "config \<Rightarrow> real \<Rightarrow> real list \<Rightarrow> real list" where
  "per_sample_clip_factor cfg mgn per_sample_norms =
     (let factor = map (\<lambda>n. min (mgn / (n + 1 / 1000000)) 1) per_sample_norms
      in if is_debugging cfg \<and> debugging_type cfg = ''without_noise_clipping''
         then map (\<lambda>x. 1) factor else factor)"

text \<open>Lines 439 to 462: the clip factors of the mode \<open>MODE_DPSGD_B\<close>.\<close>

definition clip_factor_B :: "config \<Rightarrow> dp_optimizer \<Rightarrow> error + real list" where
  "clip_factor_B cfg s =
     (case grad_samples s of Inl e \<Rightarrow> Inl e
      | Inr gs \<Rightarrow>
         (case gs of [] \<Rightarrow> Inl IndexError
          | g0 # rest \<Rightarrow>
              if length g0 = 0 then Inl (AssertionError ''Exclude this exception'')
              else (case stack_norm (map sample_norms gs) of Inl e \<Rightarrow> Inl e
                    | Inr per_sample_norms \<Rightarrow>
                        Inr (per_sample_clip_factor cfg (max_grad_norm s) per_sample_norms))))"

text \<open>
  The clipped gradient of one parameter: \<^verbatim>\<open>contract("i,i...", factor, grad_sample)\<close> for a
  parameter without \<^verbatim>\<open>inputs\<close>, and for an embedding table the scaled rows as a sparse
  tensor at \<open>index\<close>, coalesced (lines 469 to 488).
\<close>

definition scale_sample :: "real \<Rightarrow> matrix \<Rightarrow> matrix" where
  "scale_sample c m = map (map (\<lambda>x. c * x)) m"

definition madd :: "matrix \<Rightarrow> matrix \<Rightarrow> matrix" where
  "madd a b = map2 vadd a b"

fun msum :: "matrix list \<Rightarrow> matrix" where
  "msum [] = []"
| "msum [m] = m"
| "msum (m # ms) = madd m (msum ms)"

definition clipped_grad ::
  "externals \<Rightarrow> config \<Rightarrow> real list \<Rightarrow> param \<Rightarrow> matrix list \<Rightarrow> error + tensor" where
  "clipped_grad ext cfg factor p g =
     (if length factor \<noteq> length g then Inl (RuntimeError ''shape'')
      else case p_inputs p of
        None \<Rightarrow> Inr (Dense (msum (map2 scale_sample factor g)))
      | Some index \<Rightarrow>
          (case sparse_coo_tensor index (concat (map2 scale_sample factor g)) (p_shape p) of
             Inl e \<Rightarrow> Inl e
           | Inr t \<Rightarrow> (case coalesce_with ext cfg t of Inl e \<Rightarrow> Inl e
                       | Inr c \<Rightarrow> Inr (Sparse c))))"

text \<open>\<^verbatim>\<open>a.add_(b)\<close> on dense tensors of one shape.\<close>

definition add_dense :: "matrix \<Rightarrow> matrix \<Rightarrow> error + matrix" where
  "add_dense a b = (if map length a = map length b then Inr (madd a b) else Inl (RuntimeError ''shape''))"

text \<open>
  \<^verbatim>\<open>noise[indices] += values\<close>, line 605: every indexed row of the noise is replaced by its
  sum with the vector of that index. \<^verbatim>\<open>noise.add_(sparse)\<close>, line 608, adds every stored
  vector to its row.
\<close>

definition index_add :: "matrix \<Rightarrow> (nat \<times> real list) list \<Rightarrow> error + matrix" where
  "index_add noise elems =
     (if \<exists>e \<in> set elems. length noise \<le> fst e then Inl IndexError
      else if \<exists>e \<in> set elems. length (snd e) \<noteq> length (noise ! fst e) then Inl (RuntimeError ''shape'')
      else Inr (fold (\<lambda>e m. m[fst e := vadd (noise ! fst e) (snd e)]) elems noise))"

definition add_sparse :: "matrix \<Rightarrow> sparse \<Rightarrow> error + matrix" where
  "add_sparse noise sp =
     (if tensor_shape (Dense noise) \<noteq> sp_size sp then Inl (RuntimeError ''shape'')
      else if \<exists>e \<in> set (sp_elems sp). length noise \<le> fst e \<or> length (snd e) \<noteq> snd (sp_size sp)
        then Inl (RuntimeError ''shape'')
      else Inr (fold (\<lambda>e m. m[fst e := vadd (m ! fst e) (snd e)]) (sp_elems sp) noise))"

text \<open>
  \<^verbatim>\<open>a += b\<close> on gradients, line 492. Two sparse tensors of one size are added by merging
  their entries in the order of the indices, entries of one index added up; the result is
  flagged as coalesced when both operands are. When one of the two stores nothing the
  result is the other. A dense tensor takes a sparse one, a sparse tensor refuses a dense
  one.
\<close>

fun sparse_merge :: "(nat \<times> real list) list \<Rightarrow> (nat \<times> real list) list \<Rightarrow> (nat \<times> real list) list" where
  "sparse_merge [] ys = ys"
| "sparse_merge (x # xs) [] = x # xs"
| "sparse_merge (x # xs) (y # ys) =
     (if fst x = fst y then (fst x, vadd (snd x) (snd y)) # sparse_merge xs ys
      else if fst x < fst y then x # sparse_merge xs (y # ys)
      else y # sparse_merge (x # xs) ys)"

definition iadd :: "tensor \<Rightarrow> tensor \<Rightarrow> error + tensor" where
  "iadd a b =
     (case a of
        Dense x \<Rightarrow>
          (case b of
             Dense y \<Rightarrow> (case add_dense x y of Inl e \<Rightarrow> Inl e | Inr m \<Rightarrow> Inr (Dense m))
           | Sparse u \<Rightarrow> (case add_sparse x u of Inl e \<Rightarrow> Inl e | Inr m \<Rightarrow> Inr (Dense m)))
      | Sparse t \<Rightarrow>
          (case b of
             Dense y \<Rightarrow> Inl (RuntimeError ''add(sparse, dense) is not supported'')
           | Sparse u \<Rightarrow>
               if sp_size t \<noteq> sp_size u then Inl (RuntimeError ''shape'')
               else if sp_elems u = [] then Inr (Sparse t)
               else if sp_elems t = [] then Inr (Sparse u)
               else Inr (Sparse \<lparr> sp_elems = sparse_merge (sp_elems t) (sp_elems u),
                                  sp_size = sp_size t,
                                  sp_coalesced = (sp_coalesced t \<and> sp_coalesced u) \<rparr>)))"

text \<open>
  The body of the loop of lines 465 to 497. An exception comes with the parameter as it
  is left. A parameter that still has a \<open>summed_grad\<close> gets the clipped gradient added to
  it in place, line 492, and then runs into the assertion of line 493; the attribute
  \<^verbatim>\<open>_processed\<close> of the tensor stays as it is.
\<close>

definition clip_param ::
  "externals \<Rightarrow> config \<Rightarrow> real list \<Rightarrow> param \<Rightarrow> (error \<times> param) + param" where
  "clip_param ext cfg factor p =
     (case check_processed_flag (p_grad_sample p) of Inl e \<Rightarrow> Inl (e, p)
      | Inr u \<Rightarrow>
     (case get_flat_grad_sample p of Inl e \<Rightarrow> Inl (e, p)
      | Inr g \<Rightarrow>
     (case clipped_grad ext cfg factor p g of Inl e \<Rightarrow> Inl (e, p)
      | Inr gr \<Rightarrow>
         (case p_summed_grad p of
            Some sg \<Rightarrow>
              (case iadd (g_tensor sg) gr of Inl e \<Rightarrow> Inl (e, p)
               | Inr acc \<Rightarrow>
                   Inl (AssertionError ''Exclude RNNs'',
                        p\<lparr> p_summed_grad := Some (Grad acc (g_processed sg)) \<rparr>))
          | None \<Rightarrow> Inr (p\<lparr> p_summed_grad := Some (Grad gr False),
                              p_grad_sample := mark_as_processed (p_grad_sample p) \<rparr>)))))"

text \<open>Lines 503 to 517: the clip factors of the other modes, from \<^verbatim>\<open>p.grad_sample_norms\<close>.\<close>

definition norms_of_param :: "config \<Rightarrow> param \<Rightarrow> error + real list list" where
  "norms_of_param cfg p =
     (case p_grad_sample_norms p of None \<Rightarrow> Inl AttributeError
      | Some ns \<Rightarrow>
          if p_device p \<noteq> cfg_device cfg
            then (if length ns \<noteq> 1 then Inl (AssertionError []) else Inr [ns ! 0])
          else Inr ns)"

definition clip_factor_R :: "config \<Rightarrow> dp_optimizer \<Rightarrow> error + real list" where
  "clip_factor_R cfg s =
     (case mapE (norms_of_param cfg) (params s) of Inl e \<Rightarrow> Inl e
      | Inr nss \<Rightarrow>
          (case stack_norm (concat nss) of Inl e \<Rightarrow> Inl e
           | Inr per_sample_norms \<Rightarrow>
               Inr (per_sample_clip_factor cfg (max_grad_norm s) per_sample_norms)))"

text \<open>
  Lines 533 to 544: outside LazyDP the gradient of every embedding table is coalesced;
  a strategy name that is none of the three leaves it as it is.
\<close>

definition coalesce_emb_grad :: "externals \<Rightarrow> config \<Rightarrow> param \<Rightarrow> error + param" where
  "coalesce_emb_grad ext cfg p =
     (if coalesce_optimize cfg \<notin> {''baseline'', ''multi_thread_openmp'', ''multi_thread_embeddingbag''}
      then Inr p
      else case p_grad p of
        None \<Rightarrow> Inl (if coalesce_optimize cfg = ''baseline'' then AttributeError else TypeError)
      | Some (Grad (Dense m) f) \<Rightarrow> Inl (RuntimeError ''not a sparse tensor'')
      | Some (Grad (Sparse t) f) \<Rightarrow>
          (case coalesce_with ext cfg t of Inl e \<Rightarrow> Inl e
           | Inr c \<Rightarrow> Inr (p\<lparr>p_grad := Some (Grad (Sparse c) (f \<and> returns_self cfg t))\<rparr>)))"

text \<open>
  \<^verbatim>\<open>clip_and_accumulate\<close>, lines 437 to 555. \<open>losses\<close> is \<^verbatim>\<open>None\<close> or the tensor of the
  losses per sample; its product with the factors must broadcast. An exception comes with
  the state as the call leaves it.
\<close>

definition clip_and_accumulate ::
  "externals \<Rightarrow> config \<Rightarrow> real list option \<Rightarrow> dp_optimizer \<Rightarrow> (error \<times> dp_optimizer) + dp_optimizer" where
  "clip_and_accumulate ext cfg losses s =
     (if dpsgd_mode cfg = MODE_DPSGD_B then
        (if losses \<noteq> None then Inl (AssertionError [], s)
         else case clip_factor_B cfg s of Inl e \<Rightarrow> Inl (e, s)
           | Inr factor \<Rightarrow>
               (case mapES (clip_param ext cfg factor) (params s) of
                  Inl (e, ps) \<Rightarrow> Inl (e, s\<lparr>params := ps\<rparr>)
                | Inr ps \<Rightarrow> Inr (s\<lparr>params := ps\<rparr>)))
      else if dpsgd_mode cfg \<in> {MODE_DPSGD_R, MODE_DPSGD_F, MODE_LAZYDP, MODE_EANA} then
        (case losses of None \<Rightarrow> Inl (AssertionError [], s)
         | Some ls \<Rightarrow>
        (case clip_factor_R cfg s of Inl e \<Rightarrow> Inl (e, s)
         | Inr factor \<Rightarrow>
            if length ls \<noteq> length factor \<and> length ls \<noteq> 1 \<and> length factor \<noteq> 1
              then Inl (RuntimeError ''shape'', s)
            else
              (let ps1 = map (\<lambda>i. (params s ! i)\<lparr>p_grad := backward ext factor (params s) i\<rparr>)
                             [0..<length (params s)]
               in case (if dpsgd_mode cfg \<noteq> MODE_LAZYDP
                        then (case mapES (\<lambda>p. case coalesce_emb_grad ext cfg p of
                                                  Inl e \<Rightarrow> Inl (e, p) | Inr p' \<Rightarrow> Inr p')
                                     (take (length (emb_l s)) ps1) of
                                Inl (e, es) \<Rightarrow> Inl (e, es @ drop (length (emb_l s)) ps1)
                              | Inr es \<Rightarrow> Inr (es @ drop (length (emb_l s)) ps1))
                        else Inr ps1)
                  of Inl (e, ps2) \<Rightarrow> Inl (e, s\<lparr>params := ps2\<rparr>)
                  | Inr ps2 \<Rightarrow>
                      Inr (s\<lparr>params := map (\<lambda>p. p\<lparr>p_summed_grad := p_grad p, p_grad := None\<rparr>) ps2\<rparr>))))
      else Inl (AssertionError ''Invalid mode of DP-SGD'', s))"

subsection \<open>Adding noise, scaling, and the step\<close>

text \<open>The reference tensor of a noise request: shape and device of \<^verbatim>\<open>p.summed_grad\<close>.\<close>

definition reference_of :: "grad option \<Rightarrow> device \<Rightarrow> ((nat \<times> nat) \<times> device) option" where
  "reference_of g dev = map_option (\<lambda>t. (tensor_shape (g_tensor t), dev)) g"

text \<open>
  The body of the loop of \<^verbatim>\<open>add_noise\<close>, lines 563 to 615, for one parameter; \<open>gen\<close> is
  the number of draws taken so far. \<^verbatim>\<open>values()\<close> and \<^verbatim>\<open>indices()\<close> need a coalesced sparse
  tensor.
\<close>

definition add_noise_param ::
  "externals \<Rightarrow> config \<Rightarrow> dp_optimizer \<Rightarrow> nat \<Rightarrow> param \<Rightarrow> error + param \<times> bool" where
  "add_noise_param ext cfg s gen p =
     (case check_grad_processed_flag (p_summed_grad p) of Inl e \<Rightarrow> Inl e
      | Inr u \<Rightarrow>
        if p_device p = Cpu \<and> dpsgd_mode cfg \<in> {MODE_LAZYDP, MODE_EANA} then
          (if dpsgd_mode cfg = MODE_EANA then
             (case p_summed_grad p of None \<Rightarrow> Inl AttributeError
              | Some (Grad (Dense m) f) \<Rightarrow> Inl (RuntimeError ''not a sparse tensor'')
              | Some (Grad (Sparse t) f) \<Rightarrow>
                  if \<not> sp_coalesced t then Inl (RuntimeError ''uncoalesced tensor'')
                  else (case generate_noise ext cfg gen (noise_multiplier s * max_grad_norm s)
                               (Some ((length (sp_values t), snd (sp_size t)), Cpu)) (secure_mode s) of
                          Inl e \<Rightarrow> Inl e
                        | Inr (noise, drawn) \<Rightarrow>
                            (case add_dense (sp_values t) noise of Inl e \<Rightarrow> Inl e
                             | Inr vs \<Rightarrow>
                                 Inr (p\<lparr> p_summed_grad := Some (Grad (Sparse (t\<lparr>sp_elems := zip (sp_indices t) vs\<rparr>)) True),
                                         p_grad := Some (Grad (Sparse (t\<lparr>sp_elems := zip (sp_indices t) vs\<rparr>)) True) \<rparr>,
                                      drawn))))
           else Inr (p\<lparr> p_grad := mark_grad_as_processed (p_summed_grad p),
                         p_summed_grad := mark_grad_as_processed (p_summed_grad p) \<rparr>, False))
        else
          (case generate_noise ext cfg gen (noise_multiplier s * max_grad_norm s)
                  (reference_of (p_summed_grad p) (p_device p)) (secure_mode s) of
             Inl e \<Rightarrow> Inl e
           | Inr (noise, drawn) \<Rightarrow>
              (case p_summed_grad p of None \<Rightarrow> Inl AttributeError
               | Some sg \<Rightarrow>
                  (case (if p_device p = Cpu \<and> dpsgd_mode cfg \<in> {MODE_DPSGD_B, MODE_DPSGD_R, MODE_DPSGD_F}
                         then (case g_tensor sg of
                                 Dense m \<Rightarrow> Inl (RuntimeError ''not a sparse tensor'')
                               | Sparse t \<Rightarrow> if \<not> sp_coalesced t then Inl (RuntimeError ''uncoalesced tensor'')
                                             else index_add noise (sp_elems t))
                         else (case g_tensor sg of
                                 Dense m \<Rightarrow> add_dense noise m
                               | Sparse t \<Rightarrow> add_sparse noise t))
                   of Inl e \<Rightarrow> Inl e
                   | Inr m \<Rightarrow>
                       Inr (p\<lparr> p_grad := Some (Grad (Dense m) False),
                               p_summed_grad := Some (Grad (g_tensor sg) True) \<rparr>, drawn)))))"

fun add_noise_loop ::
  "externals \<Rightarrow> config \<Rightarrow> dp_optimizer \<Rightarrow> nat \<Rightarrow> param list \<Rightarrow> error + param list \<times> nat" where
  "add_noise_loop ext cfg s gen [] = Inr ([], gen)"
| "add_noise_loop ext cfg s gen (p # ps) =
     (case add_noise_param ext cfg s gen p of Inl e \<Rightarrow> Inl e
      | Inr (p', drawn) \<Rightarrow>
          (case add_noise_loop ext cfg s (if drawn then gen + 1 else gen) ps of Inl e \<Rightarrow> Inl e
           | Inr (ps', gen') \<Rightarrow> Inr (p' # ps', gen')))"

definition add_noise :: "externals \<Rightarrow> config \<Rightarrow> dp_optimizer \<Rightarrow> error + dp_optimizer" where
  "add_noise ext cfg s =
     (case add_noise_loop ext cfg s (generator s) (params s) of Inl e \<Rightarrow> Inl e
      | Inr (ps, gen) \<Rightarrow> Inr (s\<lparr>params := ps, generator := gen\<rparr>))"

text \<open>\<^verbatim>\<open>scale_grad\<close>, lines 626 to 628.\<close>

definition div_tensor :: "real \<Rightarrow> tensor \<Rightarrow> tensor" where
  "div_tensor c t = (case t of Dense m \<Rightarrow> Dense (map (map (\<lambda>x. x / c)) m)
                     | Sparse sp \<Rightarrow> Sparse (sp\<lparr>sp_elems := map (\<lambda>e. (fst e, map (\<lambda>x. x / c) (snd e))) (sp_elems sp)\<rparr>))"

definition scale_grad :: "dp_optimizer \<Rightarrow> error + dp_optimizer" where
  "scale_grad s =
     (if loss_reduction s = ''mean'' \<and> params s \<noteq> [] then
        (case expected_batch_size s of None \<Rightarrow> Inl TypeError
         | Some n \<Rightarrow>
             (case accumulated_iterations s of Inl e \<Rightarrow> Inl e
              | Inr k \<Rightarrow>
                  if \<exists>p \<in> set (params s). p_grad p = None then Inl TypeError
                  else if n * k = 0 then Inl NonFinite
                  else Inr (s\<lparr>params := map (\<lambda>p. p\<lparr>p_grad :=
                         map_option (\<lambda>g. Grad (div_tensor (real (n * k)) (g_tensor g)) (g_processed g))
                           (p_grad p)\<rparr>) (params s)\<rparr>)))
      else Inr s)"

text \<open>
  \<^verbatim>\<open>pre_step\<close>, lines 675 to 702. The step hook is a parameter. The result is the returned
  flag with the new state. An exception of \<^verbatim>\<open>clip_and_accumulate\<close> passes through
  \<^verbatim>\<open>pre_step\<close> and \<^verbatim>\<open>step\<close> as it is, so the state it leaves is the one given there.
\<close>

definition pre_step ::
  "externals \<Rightarrow> config \<Rightarrow> (dp_optimizer \<Rightarrow> dp_optimizer) option \<Rightarrow> real list option \<Rightarrow> dp_optimizer
     \<Rightarrow> error + bool \<times> dp_optimizer" where
  "pre_step ext cfg step_hook losses s =
     (case clip_and_accumulate ext cfg losses s of Inl (e, t) \<Rightarrow> Inl e
      | Inr s1 \<Rightarrow>
          (case check_skip_next_step True s1 of
             (True, s2) \<Rightarrow> Inr (False, s2\<lparr>is_last_step_skipped := True\<rparr>)
           | (False, s2) \<Rightarrow>
               (case add_noise ext cfg s2 of Inl e \<Rightarrow> Inl e
                | Inr s3 \<Rightarrow>
                   (case (if dpsgd_mode cfg = MODE_LAZYDP
                          then (case set_emb_to_noise_update s3 of Inl e \<Rightarrow> Inl e
                                | Inr s4 \<Rightarrow> do_delayed_noise_update ext cfg s4)
                          else Inr s3) of Inl e \<Rightarrow> Inl e
                    | Inr s5 \<Rightarrow>
                       (case (if is_debugging cfg then scale_grad s5 else Inr s5) of Inl e \<Rightarrow> Inl e
                        | Inr s6 \<Rightarrow>
                            Inr (True, (case step_hook of None \<Rightarrow> s6 | Some h \<Rightarrow> h s6)
                                         \<lparr>is_last_step_skipped := False\<rparr>))))))"

text \<open>
  \<^verbatim>\<open>step\<close>, lines 704 to 715, without a closure: after \<^verbatim>\<open>pre_step\<close> the wrapped optimizer
  updates the weights, which are not part of the state.
\<close>

definition step ::
  "externals \<Rightarrow> config \<Rightarrow> (dp_optimizer \<Rightarrow> dp_optimizer) option \<Rightarrow> real list option \<Rightarrow> dp_optimizer
     \<Rightarrow> error + dp_optimizer" where
  "step ext cfg step_hook losses s =
     (case pre_step ext cfg step_hook losses s of Inl e \<Rightarrow> Inl e | Inr (b, s') \<Rightarrow> Inr s')"

text \<open>
  Configurations of the mode \<open>MODE_DPSGD_B\<close>, without debugging and with the debugging
  type that switches clipping off, and a state with one dense parameter on the device
  and one sample whose gradient \<open>[3, 4]\<close> has norm 5; \<open>max_grad_norm\<close> is 1.
\<close>

definition baseline_cfg :: config where
  "baseline_cfg = merge_cfg \<lparr> dpsgd_mode := MODE_DPSGD_B \<rparr>"

definition noclip_cfg :: config where
  "noclip_cfg = merge_cfg \<lparr> dpsgd_mode := MODE_DPSGD_B, is_debugging := True,
     debugging_type := ''without_noise_clipping'' \<rparr>"

definition dense_param :: param where
  "dense_param = \<lparr> p_shape = (1, 2), p_device = Cuda,
     p_grad_sample = GS_Tensor (GS [[[3, 4]]] False), p_grad_sample_norms = None,
     p_summed_grad = None, p_grad = None, p_inputs = None \<rparr>"

definition dense_state :: dp_optimizer where
  "dense_state = merge_state \<lparr> params := [dense_param], emb_l := [] \<rparr>"

text \<open>
  A state with one embedding table: the only sample gathers row 7 once, and the gradient
  of that row is \<open>[5, 12]\<close>, of norm 13.
\<close>

definition emb_param :: param where
  "emb_param = \<lparr> p_shape = (8, 2), p_device = Cpu,
     p_grad_sample = GS_Tensor (GS [[[5, 12]]] False), p_grad_sample_norms = None,
     p_summed_grad = None, p_grad = None, p_inputs = Some [7] \<rparr>"

definition emb_state :: dp_optimizer where
  "emb_state = merge_state \<lparr> params := [emb_param] \<rparr>"

text \<open>
  A state in which the only sample gathers row 7 twice, with the gradient \<open>[1, 1]\<close> for
  both gathers: the stored per-sample gradient has norm 2.
\<close>

definition twice_state :: dp_optimizer where
  "twice_state = merge_state \<lparr> params :=
     [emb_param \<lparr> p_grad_sample := GS_Tensor (GS [[[1, 1], [1, 1]]] False),
                   p_inputs := Some [7, 7] \<rparr>] \<rparr>"

text \<open>
  A backward pass that depends on the weights of the loss: row 7 receives the gradient
  \<open>[3, 4]\<close> of the only sample, scaled by the weight of that sample.
\<close>

definition scaled_ext :: externals where
  "scaled_ext = merge_ext \<lparr> backward := (\<lambda>w ps i.
     Some (Grad (Sparse \<lparr> sp_elems = [(7, map (\<lambda>x. w ! 0 * x) [3, 4])], sp_size = (8, 2),
                           sp_coalesced = False \<rparr>) False)) \<rparr>"

text \<open>The state \<open>dense_state\<close> with \<open>max_grad_norm = 10\<close>, where the clip factor is 1.\<close>

definition two_step_state :: dp_optimizer where
  "two_step_state = dense_state \<lparr> max_grad_norm := 10 \<rparr>"




text \<open>
  The same for an embedding table: the state \<open>emb_state\<close> with \<open>max_grad_norm = 100\<close>,
  the state after a first step on it was skipped, and the backward pass of a second batch
  that gathers row 7 again, with the gradient \<open>[3, 4]\<close>.
\<close>

definition emb_start :: dp_optimizer where
  "emb_start = emb_state \<lparr> max_grad_norm := 100 \<rparr>"

definition emb_skipped :: dp_optimizer where
  "emb_skipped = emb_start \<lparr> is_last_step_skipped := True,
     params := [emb_param \<lparr>
        p_summed_grad := Some (Grad (Sparse \<lparr> sp_elems = [(7, [5, 12])], sp_size = (8, 2),
                                              sp_coalesced = True \<rparr>) False),
        p_grad_sample := GS_Tensor (GS [[[5, 12]]] True) \<rparr>] \<rparr>"


text \<open>
  What a call of \<^verbatim>\<open>clip_and_accumulate\<close> leaves: its exception, if it raised, and
  \<^verbatim>\<open>p.summed_grad\<close> of every parameter.
\<close>

definition summed_grads_left ::
  "(error \<times> dp_optimizer) + dp_optimizer \<Rightarrow> error option \<times> grad option list" where
  "summed_grads_left r =
     (case r of Inl (e, t) \<Rightarrow> (Some e, map p_summed_grad (params t))
      | Inr t \<Rightarrow> (None, map p_summed_grad (params t)))"

text \<open>
  A LazyDP run: the automatic differentiation yields the vector \<open>[1, 1]\<close> for row 7 of the
  only table, and, as \<^verbatim>\<open>loss.backward()\<close> does, adds it to a gradient that is still there,
  in a new tensor; the state before a step, with the per-sample norms attached, the state
  after it, and the state after a second step that follows with no \<^verbatim>\<open>zero_grad\<close> between.
\<close>

definition lazy_ext :: externals where
  "lazy_ext = merge_ext \<lparr> backward := (\<lambda>w ps i.
     case p_grad (ps ! i) of
       None \<Rightarrow> Some (Grad (Sparse \<lparr> sp_elems = [(7, [1, 1])], sp_size = (8, 2),
                                       sp_coalesced = False \<rparr>) False)
     | Some old \<Rightarrow>
         (case iadd (g_tensor old) (Sparse \<lparr> sp_elems = [(7, [1, 1])], sp_size = (8, 2),
                                              sp_coalesced = False \<rparr>) of
            Inl e \<Rightarrow> None
          | Inr t \<Rightarrow> Some (Grad t False))) \<rparr>"

definition lazy_param :: param where
  "lazy_param = \<lparr> p_shape = (8, 2), p_device = Cpu, p_grad_sample = GS_Missing,
     p_grad_sample_norms = Some [[5]], p_summed_grad = None, p_grad = None, p_inputs = None \<rparr>"

definition lazy_fresh :: dp_optimizer where
  "lazy_fresh = merge_state \<lparr> params := [lazy_param] \<rparr>"

definition lazy_param_stepped :: param where
  "lazy_param_stepped = lazy_param \<lparr>
     p_summed_grad := Some (Grad (Sparse \<lparr> sp_elems = [(7, [1, 1])], sp_size = (8, 2), sp_coalesced = False \<rparr>) True),
     p_grad := Some (Grad (Sparse \<lparr> sp_elems = [(7, [3, 3])], sp_size = (8, 2), sp_coalesced = True \<rparr>) False) \<rparr>"

definition lazy_stepped :: dp_optimizer where
  "lazy_stepped = lazy_fresh \<lparr> generator := 1, params := [lazy_param_stepped] \<rparr>"

definition lazy_param_twice :: param where
  "lazy_param_twice = lazy_param \<lparr>
     p_summed_grad := Some (Grad (Sparse \<lparr> sp_elems = [(7, [4, 4])], sp_size = (8, 2), sp_coalesced = False \<rparr>) True),
     p_grad := Some (Grad (Sparse \<lparr> sp_elems = [(7, [6, 6])], sp_size = (8, 2), sp_coalesced = True \<rparr>) False) \<rparr>"

definition lazy_twice :: dp_optimizer where
  "lazy_twice = lazy_fresh \<lparr> generator := 2, params := [lazy_param_twice] \<rparr>"

subsection \<open>The rows of the next batch, and sequences of calls\<close>

text \<open>
  \<^verbatim>\<open>self.lS_i_nxt[i] = v\<close>: item assignment needs a list with a position \<open>i\<close>.
\<close>

definition assign_lS_i :: "nat \<Rightarrow> nat list \<Rightarrow> dp_optimizer \<Rightarrow> error + dp_optimizer" where
  "assign_lS_i i v s =
     (case lS_i_nxt s of None \<Rightarrow> Inl TypeError
      | Some cur \<Rightarrow> if length cur \<le> i then Inl IndexError
                    else Inr (s\<lparr>lS_i_nxt := Some (cur[i := v])\<rparr>))"

text \<open>
  \<^verbatim>\<open>set_lS_i\<close>, lines 788 to 800. \<^verbatim>\<open>Tensor.unique()\<close> returns the distinct elements in
  ascending order.
\<close>

fun set_lS_i_loop ::
  "externals \<Rightarrow> config \<Rightarrow> nat list list \<Rightarrow> nat list \<Rightarrow> dp_optimizer \<Rightarrow> error + dp_optimizer" where
  "set_lS_i_loop ext cfg ls [] s = Inr s"
| "set_lS_i_loop ext cfg ls (i # is) s =
     (if unique_optimize cfg = ''baseline'' then
        (case assign_lS_i i (sort (remdups (ls ! i))) s of Inl e \<Rightarrow> Inl e
         | Inr s' \<Rightarrow> set_lS_i_loop ext cfg ls is s')
      else if unique_optimize cfg = ''multi_thread'' then
        (case assign_lS_i i (unique_multi_thread ext (ls ! i)) s of Inl e \<Rightarrow> Inl e
         | Inr s' \<Rightarrow> set_lS_i_loop ext cfg ls is s')
      else Inl (AssertionError []))"

definition set_lS_i ::
  "externals \<Rightarrow> config \<Rightarrow> nat list list option \<Rightarrow> dp_optimizer \<Rightarrow> error + dp_optimizer" where
  "set_lS_i ext cfg arg s =
     (case arg of None \<Rightarrow> Inr (s\<lparr>lS_i_nxt := None\<rparr>)
      | Some ls \<Rightarrow> set_lS_i_loop ext cfg ls [0..<length ls] s)"

text \<open>
  The methods a training loop calls on the optimizer, and a sequence of such calls, which
  stops at the first exception. The step runs without a step hook.
\<close>

datatype method_call =
    Signal_skip_step bool
  | Set_lS_i "nat list list option"
  | Step "real list option"
  | Set_HT_increase_cnt_iter
  | Zero_grad bool

fun call :: "externals \<Rightarrow> config \<Rightarrow> method_call \<Rightarrow> dp_optimizer \<Rightarrow> error + dp_optimizer" where
  "call ext cfg (Signal_skip_step b) s = Inr (signal_skip_step b s)"
| "call ext cfg (Set_lS_i arg) s = set_lS_i ext cfg arg s"
| "call ext cfg (Step losses) s = step ext cfg None losses s"
| "call ext cfg Set_HT_increase_cnt_iter s = set_HT_increase_cnt_iter s"
| "call ext cfg (Zero_grad b) s = Inr (zero_grad cfg b s)"

fun calls :: "externals \<Rightarrow> config \<Rightarrow> method_call list \<Rightarrow> dp_optimizer \<Rightarrow> error + dp_optimizer" where
  "calls ext cfg [] s = Inr s"
| "calls ext cfg (c # cs) s =
     (case call ext cfg c s of Inl e \<Rightarrow> Inl e | Inr s' \<Rightarrow> calls ext cfg cs s')"

text \<open>
  The history table of \<open>s'\<close> has the shape of that of \<open>s\<close>, and no entry is smaller.
\<close>

definition HT_le :: "dp_optimizer \<Rightarrow> dp_optimizer \<Rightarrow> bool" where
  "HT_le s s' \<longleftrightarrow> length (HT s') = length (HT s) \<and>
     (\<forall>i < length (HT s). length (HT s' ! i) = length (HT s ! i) \<and>
        (\<forall>r < length (HT s ! i). HT s ! i ! r \<le> HT s' ! i ! r))"

section \<open>Verification\<close>

subsection \<open>Delayed-noise standard deviations and the history table\<close>

lemma mapE_pow_half_Inr:
  "mapE pow_half es = Inr rs \<Longrightarrow> (\<forall>e \<in> set es. 0 \<le> e) \<and> rs = map (\<lambda>e. sqrt (real_of_int e)) es"
  by (induction es arbitrary: rs) (auto simp: pow_half_def split: sum.splits if_splits)

lemma mapE_pow_half_ok:
  "\<forall>e \<in> set es. 0 \<le> e \<Longrightarrow> mapE pow_half es = Inr (map (\<lambda>e. sqrt (real_of_int e)) es)"
  by (induction es) (auto simp: pow_half_def)

lemma to_int32_id: "in_int32 x \<Longrightarrow> to_int32 x = x"
  by (simp add: to_int32_def in_int32_def)

lemma set_emb_loop_frame:
  "set_emb_loop ls js s = Inr s' \<Longrightarrow>
     \<exists>st. s' = s\<lparr>stds_for_delayed_noise := st\<rparr> \<and> length st = length (stds_for_delayed_noise s)"
proof (induction js arbitrary: s)
  case Nil
  then show ?case by (auto intro: exI[of _ "stds_for_delayed_noise s"])
next
  case (Cons j js)
  then show ?case
    by (fastforce split: if_splits sum.splits)
qed

lemma index_select_Inr:
  "index_select xs rs = Inr ys \<Longrightarrow> (\<forall>r \<in> set rs. r < length xs) \<and> ys = map (\<lambda>r. xs ! r) rs"
  by (auto simp: index_select_def split: if_splits)

lemma set_emb_loop_stds:
  "set_emb_loop ls js s = Inr s' \<Longrightarrow> distinct js \<Longrightarrow> i < length (stds_for_delayed_noise s) \<Longrightarrow>
     stds_for_delayed_noise s' ! i =
       (if i \<in> set js then map (row_std s i) (ls ! i) else stds_for_delayed_noise s ! i)"
proof (induction js arbitrary: s)
  case Nil
  then show ?case by simp
next
  case (Cons j js)
  from Cons.prems(1) obtain hs roots where
    j: "j < length (HT s)" "j < length (stds_for_delayed_noise s)"
    and hs: "index_select (HT s ! j) (ls ! j) = Inr hs"
    and roots: "mapE pow_half (map (\<lambda>h. to_int32 (cnt_iter s - h)) hs) = Inr roots"
    and rest: "set_emb_loop ls js (s\<lparr>stds_for_delayed_noise := (stds_for_delayed_noise s)
                     [j := map (\<lambda>x. x * noise_multiplier s * max_grad_norm s) roots]\<rparr>) = Inr s'"
    by (auto split: if_splits sum.splits)
  let ?X = "map (\<lambda>x. x * noise_multiplier s * max_grad_norm s) roots"
  let ?s1 = "s\<lparr>stds_for_delayed_noise := (stds_for_delayed_noise s)[j := ?X]\<rparr>"
  have X: "?X = map (row_std s j) (ls ! j)"
    using index_select_Inr[OF hs] mapE_pow_half_Inr[OF roots]
    by (simp add: row_std_def comp_def)
  have d: "distinct js" "j \<notin> set js" using Cons.prems(2) by auto
  have len: "i < length (stds_for_delayed_noise ?s1)" using Cons.prems(3) by simp
  have rs: "row_std ?s1 i = row_std s i" by (auto simp: row_std_def fun_eq_iff)
  from Cons.IH[OF rest d(1) len]
  have IH: "stds_for_delayed_noise s' ! i =
       (if i \<in> set js then map (row_std s i) (ls ! i) else stds_for_delayed_noise ?s1 ! i)"
    by (simp only: rs)
  show ?case
  proof (cases "i = j")
    case True
    with IH d j X show ?thesis by simp
  next
    case False
    with IH show ?thesis by simp
  qed
qed

lemma set_emb_loop_ok:
  "\<forall>i \<in> set js. i < length (HT s) \<and> i < length (stds_for_delayed_noise s) \<and>
      (\<forall>r \<in> set (ls ! i). r < length (HT s ! i) \<and> 0 \<le> to_int32 (cnt_iter s - HT s ! i ! r))
   \<Longrightarrow> \<exists>s'. set_emb_loop ls js s = Inr s'"
proof (induction js arbitrary: s)
  case Nil
  then show ?case by simp
next
  case (Cons j js)
  let ?hs = "map (\<lambda>r. HT s ! j ! r) (ls ! j)"
  have 1: "index_select (HT s ! j) (ls ! j) = Inr ?hs"
    using Cons.prems by (simp add: index_select_def)
  have 2: "mapE pow_half (map (\<lambda>h. to_int32 (cnt_iter s - h)) ?hs) =
      Inr (map (\<lambda>e. sqrt (real_of_int e)) (map (\<lambda>h. to_int32 (cnt_iter s - h)) ?hs))"
    using Cons.prems by (intro mapE_pow_half_ok) simp
  show ?case
    using Cons.prems 1 2 by (simp add: Cons.IH)
qed


lemma length_index_fill: "length (index_fill xs rs v) = length xs"
  unfolding index_fill_def by (induction rs arbitrary: xs) auto

lemma nth_index_fill:
  "r < length xs \<Longrightarrow> index_fill xs rs v ! r = (if r \<in> set rs then v else xs ! r)"
  unfolding index_fill_def
proof (induction rs arbitrary: xs)
  case Nil
  then show ?case by simp
next
  case (Cons a rs)
  have "r < length (xs[a := v])" using Cons.prems by simp
  from Cons.IH[OF this] Cons.prems show ?case
    by (auto simp: nth_list_update)
qed

lemma set_HT_loop_frame:
  "set_HT_loop ls js s = Inr s' \<Longrightarrow>
     \<exists>H. s' = s\<lparr>HT := H\<rparr> \<and> length H = length (HT s)"
proof (induction js arbitrary: s)
  case Nil
  then show ?case by (auto intro: exI[of _ "HT s"])
next
  case (Cons j js)
  then show ?case
    by (fastforce split: if_splits)
qed

lemma set_HT_loop_HT:
  "set_HT_loop ls js s = Inr s' \<Longrightarrow> distinct js \<Longrightarrow> i < length (HT s) \<Longrightarrow>
     HT s' ! i = (if i \<in> set js then index_fill (HT s ! i) (ls ! i) (cnt_iter s) else HT s ! i)"
proof (induction js arbitrary: s)
  case Nil
  then show ?case by simp
next
  case (Cons j js)
  let ?s1 = "s\<lparr>HT := (HT s)[j := index_fill (HT s ! j) (ls ! j) (cnt_iter s)]\<rparr>"
  from Cons.prems(1) have j: "j < length (HT s)" and rest: "set_HT_loop ls js ?s1 = Inr s'"
    by (auto split: if_splits)
  have d: "distinct js" "j \<notin> set js" using Cons.prems(2) by auto
  have len: "i < length (HT ?s1)" using Cons.prems(3) by simp
  from Cons.IH[OF rest d(1) len]
  have IH: "HT s' ! i = (if i \<in> set js then index_fill (HT ?s1 ! i) (ls ! i) (cnt_iter s) else HT ?s1 ! i)"
    by simp
  show ?case
  proof (cases "i = j")
    case True
    with IH d j show ?thesis by simp
  next
    case False
    with IH show ?thesis by simp
  qed
qed

lemma set_HT_loop_ok:
  "in_int32 (cnt_iter s) \<Longrightarrow> distinct js \<Longrightarrow>
   \<forall>i \<in> set js. i < length (HT s) \<and> (\<forall>r \<in> set (ls ! i). r < length (HT s ! i))
   \<Longrightarrow> \<exists>s'. set_HT_loop ls js s = Inr s'"
proof (induction js arbitrary: s)
  case Nil
  then show ?case by simp
next
  case (Cons j js)
  let ?s1 = "s\<lparr>HT := (HT s)[j := index_fill (HT s ! j) (ls ! j) (cnt_iter s)]\<rparr>"
  have "\<forall>i \<in> set js. i < length (HT ?s1) \<and> (\<forall>r \<in> set (ls ! i). r < length (HT ?s1 ! i))"
    using Cons.prems by (auto simp: nth_list_update)
  moreover have "in_int32 (cnt_iter ?s1)" "distinct js" using Cons.prems by auto
  ultimately obtain s' where "set_HT_loop ls js ?s1 = Inr s'"
    using Cons.IH[of ?s1] by blast
  then show ?case using Cons.prems by simp
qed

lemma set_HT_step:
  assumes run: "set_HT_increase_cnt_iter s = Inr s'"
    and inv: "HT_bounded s"
  shows "cnt_iter s' = cnt_iter s + 1"
    and "length (HT s') = length (HT s)"
    and "\<forall>i < length (HT s). length (HT s' ! i) = length (HT s ! i)"
    and "\<exists>ls. lS_i_nxt s = Some ls \<and>
          (\<forall>i < length (HT s). \<forall>r < length (HT s ! i).
             HT s' ! i ! r = (if i < length ls \<and> r \<in> set (ls ! i) then cnt_iter s else HT s ! i ! r))"
    and "\<forall>i < length (HT s). \<forall>r < length (HT s ! i). HT s ! i ! r \<le> HT s' ! i ! r"
    and "HT_bounded s'"
proof -
  from run obtain ls s1 where ls: "lS_i_nxt s = Some ls"
    and loop: "set_HT_loop ls [0..<length ls] s = Inr s1"
    and s': "s' = s1\<lparr>cnt_iter := cnt_iter s1 + 1\<rparr>"
    by (auto simp: set_HT_increase_cnt_iter_def split: option.splits if_splits sum.splits)
  from set_HT_loop_frame[OF loop] obtain H where H: "s1 = s\<lparr>HT := H\<rparr>" "length H = length (HT s)"
    by blast
  have cnt: "cnt_iter s' = cnt_iter s + 1" using s' H by simp
  have HT': "\<And>j. j < length (HT s) \<Longrightarrow> HT s' ! j =
      (if j < length ls then index_fill (HT s ! j) (ls ! j) (cnt_iter s) else HT s ! j)"
    using set_HT_loop_HT[OF loop] s' by simp
  have entry: "\<And>j q. j < length (HT s) \<Longrightarrow> q < length (HT s ! j) \<Longrightarrow>
      HT s' ! j ! q = (if j < length ls \<and> q \<in> set (ls ! j) then cnt_iter s else HT s ! j ! q)"
    using HT' by (simp add: nth_index_fill)
  have old: "\<And>j q. j < length (HT s) \<Longrightarrow> q < length (HT s ! j) \<Longrightarrow>
      0 \<le> HT s ! j ! q \<and> HT s ! j ! q \<le> cnt_iter s"
    using inv unfolding HT_bounded_def by (meson nth_mem)
  have len: "length (HT s') = length (HT s)" using s' H by simp
  have len2: "\<And>j. j < length (HT s) \<Longrightarrow> length (HT s' ! j) = length (HT s ! j)"
    using HT' by (simp add: length_index_fill)
  have bounded: "HT_bounded s'"
    unfolding HT_bounded_def
  proof (intro ballI)
    fix row h assume "row \<in> set (HT s')" "h \<in> set row"
    then obtain j q where jq: "j < length (HT s')" "row = HT s' ! j" "q < length row" "h = row ! q"
      by (metis in_set_conv_nth)
    then have j: "j < length (HT s)" and q: "q < length (HT s ! j)"
      using len len2 by auto
    from entry[OF j q] old[OF j q] jq cnt
    show "0 \<le> h \<and> h \<le> cnt_iter s'" by (auto split: if_splits)
  qed
  show "cnt_iter s' = cnt_iter s + 1" by (rule cnt)
  show "length (HT s') = length (HT s)" by (rule len)
  show "\<forall>i < length (HT s). length (HT s' ! i) = length (HT s ! i)" using len2 by blast
  show "\<exists>ls. lS_i_nxt s = Some ls \<and>
          (\<forall>i < length (HT s). \<forall>r < length (HT s ! i).
             HT s' ! i ! r = (if i < length ls \<and> r \<in> set (ls ! i) then cnt_iter s else HT s ! i ! r))"
    using ls entry by blast
  show "\<forall>i < length (HT s). \<forall>r < length (HT s ! i). HT s ! i ! r \<le> HT s' ! i ! r"
    using entry old by (auto split: if_splits)
  show "HT_bounded s'" by (rule bounded)
qed

text \<open>
  Claim C2. One successful call of \<^verbatim>\<open>set_HT_increase_cnt_iter\<close> writes the current
  \<open>cnt_iter\<close> into \<open>HT[i][r]\<close> when \<open>r\<close> is listed in \<open>lS_i_nxt[i]\<close> and leaves the entry
  as it was otherwise; the value written is the counter before the increment, and the
  counter grows by exactly one. On a table whose entries lie between 0 and \<open>cnt_iter\<close>
  no entry decreases, and the entries again lie between 0 and the new \<open>cnt_iter\<close>, so
  the table is non-decreasing from iteration to iteration.
\<close>

theorem history_update:
  assumes run: "set_HT_increase_cnt_iter s = Inr s'"
    and inv: "HT_bounded s"
    and i: "i < length (HT s)" and r: "r < length (HT s ! i)"
  shows "cnt_iter s' = cnt_iter s + 1
    \<and> (\<exists>ls. lS_i_nxt s = Some ls
         \<and> (i < length ls \<and> r \<in> set (ls ! i) \<longrightarrow> HT s' ! i ! r = cnt_iter s)
         \<and> (\<not> (i < length ls \<and> r \<in> set (ls ! i)) \<longrightarrow> HT s' ! i ! r = HT s ! i ! r))
    \<and> HT s ! i ! r \<le> HT s' ! i ! r
    \<and> HT_bounded s'"
proof -
  from set_HT_step(4)[OF run inv] obtain ls where ls: "lS_i_nxt s = Some ls"
    and e: "\<forall>i < length (HT s). \<forall>r < length (HT s ! i).
             HT s' ! i ! r = (if i < length ls \<and> r \<in> set (ls ! i) then cnt_iter s else HT s ! i ! r)"
    by blast
  have "HT s' ! i ! r = (if i < length ls \<and> r \<in> set (ls ! i) then cnt_iter s else HT s ! i ! r)"
    using e i r by blast
  moreover have "HT s ! i ! r \<le> HT s' ! i ! r"
    using set_HT_step(5)[OF run inv] i r by blast
  ultimately show ?thesis
    using ls set_HT_step(1,6)[OF run inv] by auto
qed


theorem history_update_witness:
  "\<exists>s'. set_HT_increase_cnt_iter lazy_example = Inr s' \<and> cnt_iter s' = 10
     \<and> HT s' ! 0 ! 1 = 9 \<and> HT s' ! 0 ! 2 = 0
     \<and> HT lazy_example ! 0 ! 1 \<le> HT s' ! 0 ! 1 \<and> HT_bounded s'"
proof -
  obtain s' where run: "set_HT_increase_cnt_iter lazy_example = Inr s'"
    by (simp add: set_HT_increase_cnt_iter_def lazy_example_def in_int32_def)
  have inv: "HT_bounded lazy_example" by (simp add: HT_bounded_def lazy_example_def)
  have i: "0 < length (HT lazy_example)" by (simp add: lazy_example_def)
  have r1: "1 < length (HT lazy_example ! 0)" and r2: "2 < length (HT lazy_example ! 0)"
    by (simp_all add: lazy_example_def)
  from history_update[OF run inv i r1] history_update[OF run inv i r2] run
  show ?thesis by (auto simp: lazy_example_def)
qed

subsection \<open>Coalescing and the delayed-noise merge\<close>

lemma vadd_assoc: "vadd (vadd u v) w = vadd u (vadd v w)"
  unfolding vadd_def
proof (induction u arbitrary: v w)
  case Nil then show ?case by simp
next
  case (Cons a u)
  then show ?case by (cases v; cases w) auto
qed

lemma vadd_commute: "vadd u v = vadd v u"
  unfolding vadd_def
proof (induction u arbitrary: v)
  case Nil then show ?case by simp
next
  case (Cons a u)
  then show ?case by (cases v) auto
qed

lemma length_vadd: "length (vadd u v) = min (length u) (length v)"
  by (simp add: vadd_def)

lemma vadd_zero: "length w \<le> d \<Longrightarrow> vadd (replicate d 0) w = w"
  unfolding vadd_def
proof (induction w arbitrary: d)
  case Nil then show ?case by simp
next
  case (Cons a w)
  then show ?case by (cases d) auto
qed

lemma length_vsum_le: "length (vsum d vs) \<le> d"
  unfolding vsum_def by (induction vs) (auto simp: length_vadd)

lemma vsum_append: "vsum d (xs @ ys) = vadd (vsum d xs) (vsum d ys)"
proof (induction xs)
  case Nil
  show ?case using vadd_zero[OF length_vsum_le, of d ys] by (simp add: vsum_def)
next
  case (Cons x xs)
  then show ?case by (simp add: vsum_def vadd_assoc)
qed

lemma vsum_single: "length x \<le> d \<Longrightarrow> vsum d [x] = x"
  using vadd_zero[of x d] by (simp add: vsum_def vadd_commute)

lemma sp_indices_coalesce:
  "\<not> sp_coalesced t \<Longrightarrow> sp_indices (coalesce t) = sort (remdups (sp_indices t))"
  by (simp add: coalesce_def sp_indices_def Let_def comp_def)

lemma sp_size_coalesce: "sp_size (coalesce t) = sp_size t"
  by (simp add: coalesce_def Let_def)

lemma filter_fst_map_distinct:
  "distinct ks \<Longrightarrow> filter (\<lambda>e. fst e = r) (map (\<lambda>k. (k, f k)) ks) = (if r \<in> set ks then [(r, f r)] else [])"
  by (induction ks) auto

lemma sp_entries_coalesce:
  "\<not> sp_coalesced t \<Longrightarrow>
     sp_entries (coalesce t) r = (if r \<in> set (sp_indices t) then [sp_row t r] else [])"
  by (simp add: sp_entries_def coalesce_def Let_def filter_fst_map_distinct)

lemma sp_entries_absent: "r \<notin> set (sp_indices t) \<Longrightarrow> sp_entries t r = []"
  by (auto simp: sp_entries_def sp_indices_def filter_empty_conv)

lemma sp_row_coalesce: "sp_row (coalesce t) r = sp_row t r"
proof (cases "sp_coalesced t")
  case True
  then show ?thesis by (simp add: coalesce_def)
next
  case new: False
  show ?thesis
  proof (cases "r \<in> set (sp_indices t)")
    case True
    have "length (sp_row t r) \<le> snd (sp_size t)" by (simp add: sp_row_def length_vsum_le)
    then show ?thesis using True new
      by (simp add: sp_row_def[of "coalesce t"] sp_entries_coalesce sp_size_coalesce vsum_single)
  next
    case False
    then show ?thesis using new
      by (simp add: sp_row_def sp_entries_coalesce sp_entries_absent sp_size_coalesce)
  qed
qed


lemma assign_tail_exact:
  assumes "assign_slice v n (length v) src = Inr v'" "length v' = length src + n"
  shows "v' = take n v @ src \<and> n \<le> length v"
proof -
  have len: "length v' = length v"
    using assms(1) by (auto simp: assign_slice_def Let_def split: if_splits)
  then have n: "n \<le> length v" using assms(2) by simp
  then have k: "min (length v) (length v) - n = length src" using assms(2) len by simp
  show ?thesis using assms(1) n k by (simp add: assign_slice_def Let_def)
qed

lemma assign_head_exact:
  assumes "assign_slice (replicate (n + k) z) 0 n rows = Inr idx0" "length rows = n"
  shows "idx0 = rows @ replicate k z"
  using assms by (auto simp: assign_slice_def Let_def)

lemma zip_fst_snd: "zip (map fst xs) (map snd xs) = xs"
  by (induction xs) auto

lemma merge_noise_and_grad_elems:
  assumes m: "merge_noise_and_grad cfg d i nrt rows v n g = Inr noisy" and rows: "length rows = n"
  shows "sp_elems noisy = zip rows (take n v) @ sp_elems g \<and> sp_size noisy = (nrt, d)
    \<and> n \<le> length v \<and> \<not> sp_coalesced noisy"
proof -
  from m obtain v' idx0 new_indices extra where
    1: "assign_slice v n (length v) (sp_values g) = Inr v'"
    and 2: "assign_slice (replicate (length v') 0) 0 n rows = Inr idx0"
    and 3: "assign_slice idx0 n (length idx0) (sp_indices g) = Inr new_indices"
    and 4: "sparse_coo_tensor new_indices v' (nrt, d) = Inr noisy"
    and 5: "extra = length (sp_indices g)" "length v' = extra + n"
    by (auto simp: merge_noise_and_grad_def split: sum.splits if_splits)
  have lg: "length (sp_values g) = length (sp_indices g)"
    by (simp add: sp_values_def sp_indices_def)
  from assign_tail_exact[OF 1] 5 lg have v': "v' = take n v @ sp_values g" and n: "n \<le> length v"
    by auto
  have "length v' = n + length (sp_indices g)" using 5 by simp
  with 2 have "assign_slice (replicate (n + length (sp_indices g)) 0) 0 n rows = Inr idx0" by simp
  from assign_head_exact[OF this rows] have idx0: "idx0 = rows @ replicate (length (sp_indices g)) 0" .
  have "length idx0 = length (sp_indices g) + n" using idx0 rows by simp
  with 3 have ni: "new_indices = rows @ sp_indices g"
    using idx0 rows by (simp add: assign_slice_def Let_def)
  from 4 have "sp_elems noisy = zip new_indices v'" "sp_size noisy = (nrt, d)"
    "\<not> sp_coalesced noisy"
    by (auto simp: sparse_coo_tensor_def split: if_splits)
  then show ?thesis using ni v' n rows
    by (simp add: sp_values_def sp_indices_def zip_fst_snd)
qed

lemma sp_entries_append:
  "sp_elems t = xs @ ys \<Longrightarrow>
     sp_entries t r = map snd (filter (\<lambda>e. fst e = r) xs) @ map snd (filter (\<lambda>e. fst e = r) ys)"
  by (simp add: sp_entries_def)


lemma delayed_noise_table_frame:
  assumes "delayed_noise_table ext cfg d i s = Inr s'"
  shows "(\<exists>g f. params s' = (params s)[i := (params s ! i)\<lparr>p_grad := Some (Grad (Sparse g) f)\<rparr>])
     \<and> lS_i_nxt s' = lS_i_nxt s
     \<and> stds_for_delayed_noise s' = stds_for_delayed_noise s
     \<and> noise_multiplier s' = noise_multiplier s \<and> max_grad_norm s' = max_grad_norm s
     \<and> HT s' = HT s \<and> cnt_iter s' = cnt_iter s"
  using assms unfolding delayed_noise_table_def
  by (auto split: sum.splits prod.splits option.splits if_splits simp: Let_def) blast+

lemma delayed_noise_loop_other:
  "delayed_noise_loop ext cfg d js s = Inr s' \<Longrightarrow> i \<notin> set js \<Longrightarrow>
     params s' ! i = params s ! i \<and> length (params s') = length (params s)
     \<and> lS_i_nxt s' = lS_i_nxt s
     \<and> stds_for_delayed_noise s' = stds_for_delayed_noise s
     \<and> noise_multiplier s' = noise_multiplier s \<and> max_grad_norm s' = max_grad_norm s"
proof (induction js arbitrary: s)
  case Nil
  then show ?case by simp
next
  case (Cons j js)
  from Cons.prems(1) obtain s1 where 1: "delayed_noise_table ext cfg d j s = Inr s1"
    and 2: "delayed_noise_loop ext cfg d js s1 = Inr s'"
    by (auto split: sum.splits)
  have "i \<noteq> j" "i \<notin> set js" using Cons.prems(2) by auto
  with Cons.IH[OF 2] delayed_noise_table_frame[OF 1] show ?case by auto
qed

lemma delayed_noise_loop_append:
  "delayed_noise_loop ext cfg d (xs @ ys) s =
     (case delayed_noise_loop ext cfg d xs s of Inl e \<Rightarrow> Inl e
      | Inr s1 \<Rightarrow> delayed_noise_loop ext cfg d ys s1)"
  by (induction xs arbitrary: s) (auto split: sum.splits)

lemma delayed_noise_rows_cong:
  "noise_multiplier s1 = noise_multiplier s \<Longrightarrow> max_grad_norm s1 = max_grad_norm s \<Longrightarrow>
   delayed_noise_rows ext cfg s1 d std i = delayed_noise_rows ext cfg (s\<lparr>generator := generator s1\<rparr>) d std i"
  by (auto simp: delayed_noise_rows_def delays_def split: sum.splits)

lemma sparse_grad_of_cong:
  "params s1 ! i = params s ! i \<Longrightarrow> length (params s1) = length (params s) \<Longrightarrow>
     sparse_grad_of s1 i = sparse_grad_of s i"
  by (simp add: sparse_grad_of_def)

lemma zip_take_length: "zip xs (take (length xs) ys) = zip xs ys"
proof (induction xs arbitrary: ys)
  case Nil then show ?case by simp
next
  case (Cons x xs) then show ?case by (cases ys) auto
qed

lemma delayed_noise_table_merged:
  assumes t: "delayed_noise_table ext cfg d i s = Inr s'"
    and ls: "lS_i_nxt s = Some ls"
    and base: "coalesce_optimize cfg = ''baseline''"
    and n: "length (stds_for_delayed_noise s ! i) = length (ls ! i)"
  shows "\<exists>v drawn g f noisy.
      delayed_noise_rows ext cfg s d (stds_for_delayed_noise s ! i) i = Inr (v, drawn)
    \<and> sparse_grad_of s i = Inr (g, f)
    \<and> sp_elems noisy = zip (ls ! i) v @ sp_elems g \<and> sp_size noisy = (fst (p_shape (params s ! i)), d)
    \<and> \<not> sp_coalesced noisy
    \<and> i < length (params s) \<and> length (ls ! i) \<le> length v
    \<and> p_grad (params s' ! i) = Some (Grad (Sparse (coalesce noisy)) False)"
proof -
  from t ls obtain v drawn g f noisy where
    1: "delayed_noise_rows ext cfg s d (stds_for_delayed_noise s ! i) i = Inr (v, drawn)"
    and 2: "sparse_grad_of s i = Inr (g, f)"
    and 3: "merge_noise_and_grad cfg d i (fst (p_shape (params s ! i))) (ls ! i) v
              (length (stds_for_delayed_noise s ! i)) g = Inr noisy"
    and 4: "s' = s\<lparr> params := (params s)[i := (params s ! i)\<lparr>p_grad := Some (Grad (Sparse (coalesce noisy)) False)\<rparr>],
                       generator := (if drawn then generator s + 1 else generator s) \<rparr>"
    unfolding delayed_noise_table_def
    by (auto split: sum.splits prod.splits if_splits simp: Let_def coalesce_with_def base)
  have i: "i < length (params s)" using 2 by (auto simp: sparse_grad_of_def split: if_splits)
  from merge_noise_and_grad_elems[OF 3 n[symmetric]] n
  have "sp_elems noisy = zip (ls ! i) v @ sp_elems g" "sp_size noisy = (fst (p_shape (params s ! i)), d)"
    "length (ls ! i) \<le> length v" "\<not> sp_coalesced noisy"
    by (simp_all add: zip_take_length)
  then show ?thesis using 1 2 4 i by auto
qed


text \<open>
  Claim C3. After \<^verbatim>\<open>do_delayed_noise_update\<close> with the baseline coalescing, the gradient
  of table \<open>i\<close> stores every row of \<open>lS_i_nxt[i]\<close> and of the real gradient exactly once,
  in ascending order, and the vector stored for a row is the sum of the noise vectors
  drawn for it and of the real-gradient vectors of that row. A row that is both a
  delayed-noise target and a real-gradient index therefore carries both contributions.
\<close>

theorem merged_row_is_sum:
  assumes run: "do_delayed_noise_update ext cfg s = Inr s'"
    and ls: "lS_i_nxt s = Some ls" and i: "i < length (emb_l s)"
    and base: "coalesce_optimize cfg = ''baseline''"
    and n: "length (stds_for_delayed_noise s ! i) = length (ls ! i)"
  shows "\<exists>v drawn gen g f t.
      delayed_noise_rows ext cfg (s\<lparr>generator := gen\<rparr>) (snd (emb_l s ! 0))
          (stds_for_delayed_noise s ! i) i = Inr (v, drawn)
    \<and> sparse_grad_of s i = Inr (g, f)
    \<and> p_grad (params s' ! i) = Some (Grad (Sparse t) False)
    \<and> sp_indices t = sort (remdups (ls ! i @ sp_indices g))
    \<and> (\<forall>r \<in> set (ls ! i) \<union> set (sp_indices g).
         sp_entries t r = [vadd (vsum (snd (emb_l s ! 0)) (noise_entries (ls ! i) v r))
                                (vsum (snd (emb_l s ! 0)) (sp_entries g r))])"
proof -
  let ?d = "snd (emb_l s ! 0)"
  have ne: "emb_l s \<noteq> []" using i by auto
  then have loop: "delayed_noise_loop ext cfg ?d [0..<length (emb_l s)] s = Inr s'"
    using run by (cases "emb_l s") (auto simp: do_delayed_noise_update_def)
  have split: "[0..<length (emb_l s)] = [0..<i] @ i # [Suc i..<length (emb_l s)]"
    using i by (metis le_add_diff_inverse less_imp_le_nat upt_add_eq_append upt_conv_Cons zero_le)
  from loop obtain s1 s2 where
    1: "delayed_noise_loop ext cfg ?d [0..<i] s = Inr s1"
    and 2: "delayed_noise_table ext cfg ?d i s1 = Inr s2"
    and 3: "delayed_noise_loop ext cfg ?d [Suc i..<length (emb_l s)] s2 = Inr s'"
    unfolding split delayed_noise_loop_append
    by (auto split: sum.splits)
  have pre: "params s1 ! i = params s ! i" "length (params s1) = length (params s)"
    "lS_i_nxt s1 = Some ls" "stds_for_delayed_noise s1 = stds_for_delayed_noise s"
    "noise_multiplier s1 = noise_multiplier s" "max_grad_norm s1 = max_grad_norm s"
    using delayed_noise_loop_other[OF 1, of i] ls by auto
  have post: "params s' ! i = params s2 ! i"
    using delayed_noise_loop_other[OF 3, of i] by auto
  from delayed_noise_table_merged[OF 2 pre(3) base] n pre(4)
  obtain v drawn g f noisy where
    a: "delayed_noise_rows ext cfg s1 ?d (stds_for_delayed_noise s ! i) i = Inr (v, drawn)"
    and b: "sparse_grad_of s1 i = Inr (g, f)"
    and c: "sp_elems noisy = zip (ls ! i) v @ sp_elems g" "sp_size noisy = (fst (p_shape (params s1 ! i)), ?d)"
    and d: "p_grad (params s2 ! i) = Some (Grad (Sparse (coalesce noisy)) False)"
    and e: "length (ls ! i) \<le> length v" and nc: "\<not> sp_coalesced noisy"
    by auto
  have a': "delayed_noise_rows ext cfg (s\<lparr>generator := generator s1\<rparr>) ?d
              (stds_for_delayed_noise s ! i) i = Inr (v, drawn)"
    using a delayed_noise_rows_cong[OF pre(5,6)] by simp
  have b': "sparse_grad_of s i = Inr (g, f)"
    using b sparse_grad_of_cong[OF pre(1,2)] by simp
  have idx: "sp_indices noisy = ls ! i @ sp_indices g"
    using c(1) e by (simp add: sp_indices_def map_fst_zip_take min_def)
  have ent: "sp_entries (coalesce noisy) r =
      [vadd (vsum ?d (noise_entries (ls ! i) v r)) (vsum ?d (sp_entries g r))]"
    if "r \<in> set (ls ! i) \<union> set (sp_indices g)" for r
  proof -
    have "sp_entries noisy r = noise_entries (ls ! i) v r @ sp_entries g r"
      using sp_entries_append[OF c(1), of r] by (simp add: noise_entries_def sp_entries_def)
    then have "sp_row noisy r = vadd (vsum ?d (noise_entries (ls ! i) v r)) (vsum ?d (sp_entries g r))"
      by (simp add: sp_row_def c(2) vsum_append)
    then show ?thesis using that idx nc by (simp add: sp_entries_coalesce)
  qed
  have "sp_indices (coalesce noisy) = sort (remdups (ls ! i @ sp_indices g))"
    by (simp add: sp_indices_coalesce nc idx)
  with a' b' d post ent show ?thesis by auto
qed

theorem merged_row_is_sum_witness:
  "\<exists>s' t. do_delayed_noise_update merge_ext merge_cfg merge_state = Inr s'
     \<and> p_grad (params s' ! 0) = Some (Grad (Sparse t) False)
     \<and> sp_indices t = [7] \<and> sp_entries t 7 = [[3, 3]]"
proof -
  have ev: "delayed_noise_rows merge_ext merge_cfg (merge_state\<lparr>generator := gen\<rparr>) 2 [2] 0
      = Inr ([[2, 2], [0, 0]], True)" for gen
    by (simp add: delayed_noise_rows_def merge_ext_def merge_cfg_def extra_rows_def)
  have g: "sparse_grad_of merge_state 0
      = Inr (\<lparr> sp_elems = [(7, [1, 1])], sp_size = (8, 2), sp_coalesced = False \<rparr>, True)"
    by (simp add: sparse_grad_of_def merge_state_def)
  have ev0: "delayed_noise_rows merge_ext merge_cfg merge_state 2 [2] 0
      = Inr ([[2, 2], [0, 0]], True)"
    by (simp add: delayed_noise_rows_def merge_ext_def merge_cfg_def extra_rows_def)
  have mg: "merge_noise_and_grad merge_cfg 2 0 8 [7] [[2, 2], [0, 0]] (Suc 0)
       \<lparr> sp_elems = [(7, [1, 1])], sp_size = (8, 2), sp_coalesced = False \<rparr>
     = Inr \<lparr> sp_elems = [(7, [2, 2]), (7, [1, 1])], sp_size = (8, 2), sp_coalesced = False \<rparr>"
    by (simp add: merge_noise_and_grad_def assign_slice_def sparse_coo_tensor_def extra_rows_def
        sp_values_def sp_indices_def merge_cfg_def Let_def)
  have fields: "lS_i_nxt merge_state = Some [[7]]" "stds_for_delayed_noise merge_state = [[2]]"
    "emb_l merge_state = [(8, 2)]" "p_shape (params merge_state ! 0) = (8, 2)"
    by (simp_all add: merge_state_def)
  have cw: "coalesce_with merge_ext merge_cfg t = Inr (coalesce t)" for t
    by (simp add: coalesce_with_def merge_cfg_def)
  have tab: "\<exists>s'. delayed_noise_table merge_ext merge_cfg 2 0 merge_state = Inr s'"
    by (simp add: delayed_noise_table_def fields ev0 g mg cw)
  then obtain s' where run: "do_delayed_noise_update merge_ext merge_cfg merge_state = Inr s'"
    by (auto simp: do_delayed_noise_update_def fields)
  have 1: "lS_i_nxt merge_state = Some [[7]]" by (simp add: merge_state_def)
  have 2: "0 < length (emb_l merge_state)" by (simp add: merge_state_def)
  have 3: "coalesce_optimize merge_cfg = ''baseline''" by (simp add: merge_cfg_def)
  have 4: "length (stds_for_delayed_noise merge_state ! 0) = length ([[7::nat]] ! 0)"
    by (simp add: merge_state_def)
  from merged_row_is_sum[OF run 1 2 3 4] obtain v drawn gen g' f t where
    a: "delayed_noise_rows merge_ext merge_cfg (merge_state\<lparr>generator := gen\<rparr>) (snd (emb_l merge_state ! 0))
          (stds_for_delayed_noise merge_state ! 0) 0 = Inr (v, drawn)"
    and b: "sparse_grad_of merge_state 0 = Inr (g', f)"
    and c: "p_grad (params s' ! 0) = Some (Grad (Sparse t) False)"
    and d: "sp_indices t = sort (remdups ([[7]] ! 0 @ sp_indices g'))"
    and e: "\<forall>r \<in> set ([[7]] ! 0) \<union> set (sp_indices g').
         sp_entries t r = [vadd (vsum (snd (emb_l merge_state ! 0)) (noise_entries ([[7]] ! 0) v r))
                                (vsum (snd (emb_l merge_state ! 0)) (sp_entries g' r))]"
    by blast
  have v: "v = [[2, 2], [0, 0]]" using a ev[of gen] by (simp add: merge_state_def)
  have g': "g' = \<lparr> sp_elems = [(7, [1, 1])], sp_size = (8, 2), sp_coalesced = False \<rparr>" using b g by simp
  have "sp_entries t 7 = [[3, 3]]"
    using e[rule_format, of 7] unfolding v g'
    by (simp add: noise_entries_def sp_entries_def vsum_def vadd_def merge_state_def sp_indices_def
        numeral_2_eq_2)
  moreover have "sp_indices t = [7]" using d unfolding g' by (simp add: sp_indices_def)
  ultimately show ?thesis using run c by blast
qed

subsection \<open>The standard deviation of the injected noise\<close>

lemma delayed_noise_rows_production:
  "\<not> is_debugging cfg \<Longrightarrow>
     delayed_noise_rows ext cfg s d std i =
       (case extra_rows cfg i of Inl e \<Rightarrow> Inl e
        | Inr extra \<Rightarrow>
            Inr (normal_multi_thread_with_extra ext (generator s) std d extra
                   (noise_final_nthreads cfg), True))"
  by (simp add: delayed_noise_rows_def)

lemma delayed_noise_table_generator:
  assumes "delayed_noise_table ext cfg d i s = Inr s'" "\<not> is_debugging cfg" "lS_i_nxt s = Some ls"
  shows "generator s' = generator s + 1"
  using assms unfolding delayed_noise_table_def
  by (auto simp: delayed_noise_rows_production Let_def
      split: sum.splits prod.splits option.splits if_splits)

lemma delayed_noise_loop_generator:
  "delayed_noise_loop ext cfg d js s = Inr s' \<Longrightarrow> \<not> is_debugging cfg \<Longrightarrow> lS_i_nxt s = Some ls \<Longrightarrow>
     generator s' = generator s + length js"
proof (induction js arbitrary: s)
  case Nil
  then show ?case by simp
next
  case (Cons j js)
  from Cons.prems(1) obtain s1 where 1: "delayed_noise_table ext cfg d j s = Inr s1"
    and 2: "delayed_noise_loop ext cfg d js s1 = Inr s'"
    by (auto split: sum.splits)
  have "lS_i_nxt s1 = Some ls" using delayed_noise_table_frame[OF 1] Cons.prems(3) by simp
  from Cons.IH[OF 2 Cons.prems(2) this] delayed_noise_table_generator[OF 1 Cons.prems(2,3)]
  show ?case by simp
qed

text \<open>
  Claim C1. When the rows to be accessed next are known and in range, the table entries
  lie between 0 and \<open>cnt_iter\<close>, and \<open>cnt_iter\<close> fits the table's 32-bit entries,
  \<^verbatim>\<open>set_emb_to_noise_update\<close> returns, and for every table \<open>i\<close> and every row \<open>r\<close> listed
  in \<open>lS_i_nxt[i]\<close> the stored standard deviation is
  \<open>sqrt (cnt_iter - HT[i][r]) * noise_multiplier * max_grad_norm\<close>, with the square
  \<open>(noise_multiplier * max_grad_norm)\<^sup>2 * (cnt_iter - HT[i][r])\<close>. These are the standard
  deviations of the noise that is injected: outside debugging, \<^verbatim>\<open>do_delayed_noise_update\<close>
  on the resulting state hands exactly this list, for table \<open>i\<close>, to the normal random
  source, in its draw number \<open>i\<close>, and the gradient of the table becomes the coalesced
  tensor of the rows drawn for \<open>lS_i_nxt[i]\<close> followed by the rows of the real gradient.
\<close>

theorem delayed_noise_std:
  assumes ls: "lS_i_nxt s = Some ls"
    and lens: "length ls \<le> length (HT s)" "length ls \<le> length (stds_for_delayed_noise s)"
    and rows: "\<forall>i < length ls. \<forall>r \<in> set (ls ! i). r < length (HT s ! i)"
    and inv: "HT_bounded s" and cnt: "cnt_iter s < 2 ^ 31"
  shows "\<exists>s'. set_emb_to_noise_update s = Inr s' \<and>
    (\<forall>i < length ls. \<forall>k < length (ls ! i).
       stds_for_delayed_noise s' ! i ! k =
         sqrt (real_of_int (cnt_iter s - HT s ! i ! (ls ! i ! k))) * noise_multiplier s * max_grad_norm s
     \<and> (stds_for_delayed_noise s' ! i ! k)\<^sup>2 =
         (noise_multiplier s * max_grad_norm s)\<^sup>2 * real_of_int (cnt_iter s - HT s ! i ! (ls ! i ! k)))
    \<and> (\<forall>s''. \<not> is_debugging cfg \<longrightarrow> coalesce_optimize cfg = ''baseline'' \<longrightarrow>
          do_delayed_noise_update ext cfg s' = Inr s'' \<longrightarrow>
          (\<forall>i < length (emb_l s). i < length ls \<longrightarrow>
             (\<exists>extra g fl. extra_rows cfg i = Inr extra \<and> sparse_grad_of s i = Inr (g, fl) \<and>
                p_grad (params s'' ! i) = Some (Grad (Sparse (coalesce
                  \<lparr> sp_elems =
                      zip (ls ! i)
                        (normal_multi_thread_with_extra ext (generator s + i)
                           (map (\<lambda>r. sqrt (real_of_int (cnt_iter s - HT s ! i ! r))
                                       * noise_multiplier s * max_grad_norm s) (ls ! i))
                           (snd (emb_l s ! 0)) extra (noise_final_nthreads cfg))
                      @ sp_elems g,
                    sp_size = (fst (p_shape (params s ! i)), snd (emb_l s ! 0)),
                    sp_coalesced = False \<rparr>)) False))))"
proof -
  have el: "0 \<le> HT s ! i ! r \<and> HT s ! i ! r \<le> cnt_iter s"
    if "i < length ls" "r \<in> set (ls ! i)" for i r
  proof -
    have "i < length (HT s)" "r < length (HT s ! i)" using that lens rows by auto
    then show ?thesis using inv unfolding HT_bounded_def by (meson nth_mem)
  qed
  have wrap: "to_int32 (cnt_iter s - HT s ! i ! r) = cnt_iter s - HT s ! i ! r"
    if "i < length ls" "r \<in> set (ls ! i)" for i r
    using el[OF that] cnt by (intro to_int32_id) (simp add: in_int32_def)
  have "\<forall>i \<in> set [0..<length ls]. i < length (HT s) \<and> i < length (stds_for_delayed_noise s) \<and>
      (\<forall>r \<in> set (ls ! i). r < length (HT s ! i) \<and> 0 \<le> to_int32 (cnt_iter s - HT s ! i ! r))"
    using lens rows el wrap by auto
  from set_emb_loop_ok[OF this] obtain s' where loop: "set_emb_loop ls [0..<length ls] s = Inr s'"
    by blast
  let ?std = "\<lambda>i. map (\<lambda>r. sqrt (real_of_int (cnt_iter s - HT s ! i ! r))
                        * noise_multiplier s * max_grad_norm s) (ls ! i)"
  have stds: "stds_for_delayed_noise s' ! i = ?std i" if "i < length ls" for i
  proof -
    have "stds_for_delayed_noise s' ! i = map (row_std s i) (ls ! i)"
      using set_emb_loop_stds[OF loop, of i] that lens by simp
    also have "\<dots> = ?std i"
      using wrap[OF that] by (simp add: row_std_def)
    finally show ?thesis .
  qed
  have val: "stds_for_delayed_noise s' ! i ! k =
      sqrt (real_of_int (cnt_iter s - HT s ! i ! (ls ! i ! k))) * noise_multiplier s * max_grad_norm s"
    if "i < length ls" "k < length (ls ! i)" for i k
    using stds[OF that(1)] that(2) by simp
  have var: "(stds_for_delayed_noise s' ! i ! k)\<^sup>2 =
      (noise_multiplier s * max_grad_norm s)\<^sup>2 * real_of_int (cnt_iter s - HT s ! i ! (ls ! i ! k))"
    if "i < length ls" "k < length (ls ! i)" for i k
  proof -
    have "0 \<le> real_of_int (cnt_iter s - HT s ! i ! (ls ! i ! k))"
      using el[of i "ls ! i ! k"] that by simp
    then show ?thesis unfolding val[OF that] by (simp add: power_mult_distrib algebra_simps)
  qed
  from set_emb_loop_frame[OF loop] obtain st where s': "s' = s\<lparr>stds_for_delayed_noise := st\<rparr>"
    by blast
  have same: "params s' = params s" "emb_l s' = emb_l s" "generator s' = generator s"
    "lS_i_nxt s' = Some ls"
    using s' ls by simp_all
  have inj: "\<exists>extra g fl. extra_rows cfg i = Inr extra \<and> sparse_grad_of s i = Inr (g, fl) \<and>
                p_grad (params s'' ! i) = Some (Grad (Sparse (coalesce
                  \<lparr> sp_elems =
                      zip (ls ! i)
                        (normal_multi_thread_with_extra ext (generator s + i) (?std i)
                           (snd (emb_l s ! 0)) extra (noise_final_nthreads cfg))
                      @ sp_elems g,
                    sp_size = (fst (p_shape (params s ! i)), snd (emb_l s ! 0)),
                    sp_coalesced = False \<rparr>)) False)"
    if prod: "\<not> is_debugging cfg" and base: "coalesce_optimize cfg = ''baseline''"
      and run: "do_delayed_noise_update ext cfg s' = Inr s''"
      and i: "i < length (emb_l s)" "i < length ls" for s'' i
  proof -
    let ?d = "snd (emb_l s ! 0)"
    have ne: "emb_l s \<noteq> []" using i by auto
    have "do_delayed_noise_update ext cfg s'
        = delayed_noise_loop ext cfg ?d [0..<length (emb_l s)] s'"
      using ne by (cases "emb_l s") (simp_all add: do_delayed_noise_update_def same(2))
    then have lp: "delayed_noise_loop ext cfg ?d [0..<length (emb_l s)] s' = Inr s''"
      using run by simp
    have split: "[0..<length (emb_l s)] = [0..<i] @ i # [Suc i..<length (emb_l s)]"
      using i by (metis le_add_diff_inverse less_imp_le_nat upt_add_eq_append upt_conv_Cons zero_le)
    from lp obtain s1 s2 where
      1: "delayed_noise_loop ext cfg ?d [0..<i] s' = Inr s1"
      and 2: "delayed_noise_table ext cfg ?d i s1 = Inr s2"
      and 3: "delayed_noise_loop ext cfg ?d [Suc i..<length (emb_l s)] s2 = Inr s''"
      unfolding split delayed_noise_loop_append
      by (auto split: sum.splits)
    have pre: "params s1 ! i = params s' ! i" "length (params s1) = length (params s')"
      "lS_i_nxt s1 = Some ls" "stds_for_delayed_noise s1 = stds_for_delayed_noise s'"
      using delayed_noise_loop_other[OF 1, of i] same by auto
    have gen: "generator s1 = generator s + i"
      using delayed_noise_loop_generator[OF 1 prod same(4)] same(3) by simp
    have post: "params s'' ! i = params s2 ! i"
      using delayed_noise_loop_other[OF 3, of i] by auto
    have n: "length (stds_for_delayed_noise s1 ! i) = length (ls ! i)"
      using pre(4) stds[OF i(2)] by simp
    from delayed_noise_table_merged[OF 2 pre(3) base n]
    obtain v drawn g fl noisy where
      a: "delayed_noise_rows ext cfg s1 ?d (stds_for_delayed_noise s1 ! i) i = Inr (v, drawn)"
      and b: "sparse_grad_of s1 i = Inr (g, fl)"
      and c: "sp_elems noisy = zip (ls ! i) v @ sp_elems g"
        "sp_size noisy = (fst (p_shape (params s1 ! i)), ?d)" "\<not> sp_coalesced noisy"
      and d: "p_grad (params s2 ! i) = Some (Grad (Sparse (coalesce noisy)) False)"
      by blast
    from a obtain extra where ex: "extra_rows cfg i = Inr extra"
      and v: "v = normal_multi_thread_with_extra ext (generator s + i) (?std i) ?d extra
                    (noise_final_nthreads cfg)"
      unfolding delayed_noise_rows_production[OF prod] pre(4) stds[OF i(2)] gen
      by (auto split: sum.splits)
    have b': "sparse_grad_of s i = Inr (g, fl)"
      using b sparse_grad_of_cong[OF pre(1,2)] same(1) by (simp add: sparse_grad_of_def)
    have "noisy = \<lparr> sp_elems = zip (ls ! i) v @ sp_elems g,
                    sp_size = (fst (p_shape (params s ! i)), ?d), sp_coalesced = False \<rparr>"
      using c pre(1) same(1) by (cases noisy) simp
    with d post ex v b' show ?thesis by auto
  qed
  show ?thesis
    using loop ls val var inj by (auto simp: set_emb_to_noise_update_def)
qed

theorem delayed_noise_std_witness:
  "(\<exists>s'. set_emb_to_noise_update lazy_example = Inr s' \<and>
     stds_for_delayed_noise s' ! 0 ! 0 = 12 \<and> (stds_for_delayed_noise s' ! 0 ! 0)\<^sup>2 = 36 * 4
     \<and> stds_for_delayed_noise s' ! 0 ! 1 = 6)
   \<and> (\<exists>s' s''. set_emb_to_noise_update merge_state = Inr s'
        \<and> stds_for_delayed_noise s' ! 0 ! 0 = 2
        \<and> do_delayed_noise_update std_ext merge_cfg s' = Inr s''
        \<and> p_grad (params s'' ! 0) = Some (Grad (Sparse
             \<lparr> sp_elems = [(7, [3, 3])], sp_size = (8, 2), sp_coalesced = True \<rparr>) False))"
proof -
  have 1: "lS_i_nxt lazy_example = Some [[1, 3]]" by (simp add: lazy_example_def)
  have 2: "length [[1, 3::nat]] \<le> length (HT lazy_example)"
    "length [[1, 3::nat]] \<le> length (stds_for_delayed_noise lazy_example)"
    by (simp_all add: lazy_example_def)
  have 3: "\<forall>i < length [[1, 3::nat]]. \<forall>r \<in> set ([[1, 3]] ! i). r < length (HT lazy_example ! i)"
    by (simp add: lazy_example_def)
  have 4: "HT_bounded lazy_example" by (simp add: HT_bounded_def lazy_example_def)
  have 5: "cnt_iter lazy_example < 2 ^ 31" by (simp add: lazy_example_def)
  from delayed_noise_std[OF 1 2 3 4 5, of merge_cfg merge_ext] obtain s' where
    a: "set_emb_to_noise_update lazy_example = Inr s'"
    and b: "\<forall>i < length [[1, 3::nat]]. \<forall>k < length ([[1, 3::nat]] ! i).
       stds_for_delayed_noise s' ! i ! k =
         sqrt (real_of_int (cnt_iter lazy_example - HT lazy_example ! i ! ([[1, 3]] ! i ! k)))
           * noise_multiplier lazy_example * max_grad_norm lazy_example
     \<and> (stds_for_delayed_noise s' ! i ! k)\<^sup>2 =
         (noise_multiplier lazy_example * max_grad_norm lazy_example)\<^sup>2
           * real_of_int (cnt_iter lazy_example - HT lazy_example ! i ! ([[1, 3]] ! i ! k))"
    by blast
  from b[rule_format, of 0 0] b[rule_format, of 0 1] a
  have first: "\<exists>s'. set_emb_to_noise_update lazy_example = Inr s' \<and>
     stds_for_delayed_noise s' ! 0 ! 0 = 12 \<and> (stds_for_delayed_noise s' ! 0 ! 0)\<^sup>2 = 36 * 4
     \<and> stds_for_delayed_noise s' ! 0 ! 1 = 6"
    by (auto simp: lazy_example_def)

  have m1: "lS_i_nxt merge_state = Some [[7]]" by (simp add: merge_state_def)
  have m2: "length [[7::nat]] \<le> length (HT merge_state)"
    "length [[7::nat]] \<le> length (stds_for_delayed_noise merge_state)"
    by (simp_all add: merge_state_def)
  have m3: "\<forall>i < length [[7::nat]]. \<forall>r \<in> set ([[7]] ! i). r < length (HT merge_state ! i)"
    by (simp add: merge_state_def)
  have m4: "HT_bounded merge_state" by (simp add: HT_bounded_def merge_state_def)
  have m5: "cnt_iter merge_state < 2 ^ 31" by (simp add: merge_state_def)
  have sq: "sqrt 4 = 2" using real_sqrt_abs[of 2] by simp
  have se: "set_emb_to_noise_update merge_state = Inr merge_state"
    by (simp add: set_emb_to_noise_update_def merge_state_def index_select_def pow_half_def
        to_int32_def sq)
  have ev: "delayed_noise_rows std_ext merge_cfg merge_state 2 [2] 0 = Inr ([[2, 2], [0, 0]], True)"
    by (simp add: delayed_noise_rows_def std_ext_def merge_ext_def merge_cfg_def extra_rows_def
        numeral_2_eq_2)
  have g: "sparse_grad_of merge_state 0
      = Inr (\<lparr> sp_elems = [(7, [1, 1])], sp_size = (8, 2), sp_coalesced = False \<rparr>, True)"
    by (simp add: sparse_grad_of_def merge_state_def)
  have mg: "merge_noise_and_grad merge_cfg 2 0 8 [7] [[2, 2], [0, 0]] (Suc 0)
       \<lparr> sp_elems = [(7, [1, 1])], sp_size = (8, 2), sp_coalesced = False \<rparr>
     = Inr \<lparr> sp_elems = [(7, [2, 2]), (7, [1, 1])], sp_size = (8, 2), sp_coalesced = False \<rparr>"
    by (simp add: merge_noise_and_grad_def assign_slice_def sparse_coo_tensor_def extra_rows_def
        sp_values_def sp_indices_def merge_cfg_def Let_def)
  have fields: "lS_i_nxt merge_state = Some [[7]]" "stds_for_delayed_noise merge_state = [[2]]"
    "emb_l merge_state = [(8, 2)]" "p_shape (params merge_state ! 0) = (8, 2)"
    "generator merge_state = 0" "noise_multiplier merge_state = 1" "max_grad_norm merge_state = 1"
    "cnt_iter merge_state = 4" "HT merge_state ! 0 ! 7 = 0"
    by (simp_all add: merge_state_def)
  have cw: "coalesce_with std_ext merge_cfg t = Inr (coalesce t)" for t
    by (simp add: coalesce_with_def merge_cfg_def)
  have "\<exists>s''. delayed_noise_table std_ext merge_cfg 2 0 merge_state = Inr s''"
    by (simp add: delayed_noise_table_def fields ev g mg cw)
  then obtain s'' where run: "do_delayed_noise_update std_ext merge_cfg merge_state = Inr s''"
    by (auto simp: do_delayed_noise_update_def fields)
  have prod: "\<not> is_debugging merge_cfg" "coalesce_optimize merge_cfg = ''baseline''"
    by (simp_all add: merge_cfg_def)
  from delayed_noise_std[OF m1 m2 m3 m4 m5, of merge_cfg std_ext] se
  have stdv: "\<forall>i < length [[7::nat]]. \<forall>k < length ([[7::nat]] ! i).
       stds_for_delayed_noise merge_state ! i ! k =
         sqrt (real_of_int (cnt_iter merge_state - HT merge_state ! i ! ([[7]] ! i ! k)))
           * noise_multiplier merge_state * max_grad_norm merge_state"
    and inj: "\<forall>s''. \<not> is_debugging merge_cfg \<longrightarrow> coalesce_optimize merge_cfg = ''baseline'' \<longrightarrow>
          do_delayed_noise_update std_ext merge_cfg merge_state = Inr s'' \<longrightarrow>
          (\<forall>i < length (emb_l merge_state). i < length [[7::nat]] \<longrightarrow>
             (\<exists>extra g fl. extra_rows merge_cfg i = Inr extra \<and> sparse_grad_of merge_state i = Inr (g, fl) \<and>
                p_grad (params s'' ! i) = Some (Grad (Sparse (coalesce
                  \<lparr> sp_elems =
                      zip ([[7]] ! i)
                        (normal_multi_thread_with_extra std_ext (generator merge_state + i)
                           (map (\<lambda>r. sqrt (real_of_int (cnt_iter merge_state - HT merge_state ! i ! r))
                                       * noise_multiplier merge_state * max_grad_norm merge_state) ([[7]] ! i))
                           (snd (emb_l merge_state ! 0)) extra (noise_final_nthreads merge_cfg))
                      @ sp_elems g,
                    sp_size = (fst (p_shape (params merge_state ! i)), snd (emb_l merge_state ! 0)),
                    sp_coalesced = False \<rparr>)) False)))"
    by auto
  from stdv[rule_format, of 0 0] have s2: "stds_for_delayed_noise merge_state ! 0 ! 0 = 2"
    by (simp add: fields sq)
  from inj[rule_format, OF prod run, of 0] obtain extra g' fl where
    e: "extra_rows merge_cfg 0 = Inr extra" and g': "sparse_grad_of merge_state 0 = Inr (g', fl)"
    and pg: "p_grad (params s'' ! 0) = Some (Grad (Sparse (coalesce
                  \<lparr> sp_elems =
                      zip ([[7]] ! 0)
                        (normal_multi_thread_with_extra std_ext (generator merge_state + 0)
                           (map (\<lambda>r. sqrt (real_of_int (cnt_iter merge_state - HT merge_state ! 0 ! r))
                                       * noise_multiplier merge_state * max_grad_norm merge_state) ([[7]] ! 0))
                           (snd (emb_l merge_state ! 0)) extra (noise_final_nthreads merge_cfg))
                      @ sp_elems g',
                    sp_size = (fst (p_shape (params merge_state ! 0)), snd (emb_l merge_state ! 0)),
                    sp_coalesced = False \<rparr>)) False)"
    by (auto simp: fields)
  have ev': "extra = 1" using e by (simp add: extra_rows_def merge_cfg_def)
  have gv: "g' = \<lparr> sp_elems = [(7, [1, 1])], sp_size = (8, 2), sp_coalesced = False \<rparr>"
    using g' g by simp
  have "p_grad (params s'' ! 0) = Some (Grad (Sparse
             \<lparr> sp_elems = [(7, [3, 3])], sp_size = (8, 2), sp_coalesced = True \<rparr>) False)"
    unfolding pg ev' gv
    by (simp add: fields sq std_ext_def coalesce_def sp_indices_def sp_row_def sp_entries_def
        vsum_def vadd_def numeral_2_eq_2)
  with se s2 run have second: "\<exists>s' s''. set_emb_to_noise_update merge_state = Inr s'
        \<and> stds_for_delayed_noise s' ! 0 ! 0 = 2
        \<and> do_delayed_noise_update std_ext merge_cfg s' = Inr s''
        \<and> p_grad (params s'' ! 0) = Some (Grad (Sparse
             \<lparr> sp_elems = [(7, [3, 3])], sp_size = (8, 2), sp_coalesced = True \<rparr>) False)"
    by blast
  show ?thesis using first second by blast
qed

subsection \<open>No rows announced for the next iteration\<close>

lemma delayed_noise_table_none:
  assumes "lS_i_nxt s = None" "coalesce_optimize cfg = ''baseline''"
  shows "delayed_noise_table ext cfg d i s =
     (case sparse_grad_of s i of Inl e \<Rightarrow> Inl e
      | Inr (g, f) \<Rightarrow> Inr (s\<lparr> params := (params s)[i := (params s ! i)
                            \<lparr>p_grad := Some (Grad (Sparse (coalesce g)) (f \<and> sp_coalesced g))\<rparr>],
                        generator := generator s \<rparr>))"
  using assms by (simp add: delayed_noise_table_def coalesce_with_def returns_self_def split: sum.splits prod.splits)

lemma delayed_noise_loop_none_ext:
  "lS_i_nxt s = None \<Longrightarrow> coalesce_optimize cfg = ''baseline'' \<Longrightarrow>
     delayed_noise_loop ext cfg d js s = delayed_noise_loop ext' cfg d js s"
proof (induction js arbitrary: s)
  case Nil
  then show ?case by simp
next
  case (Cons j js)
  have eq: "delayed_noise_table ext cfg d j s = delayed_noise_table ext' cfg d j s"
    using Cons.prems by (simp add: delayed_noise_table_none)
  show ?case
  proof (cases "delayed_noise_table ext' cfg d j s")
    case (Inl e)
    then show ?thesis using eq by simp
  next
    case (Inr s1)
    then have "lS_i_nxt s1 = None"
      using delayed_noise_table_frame[OF Inr] Cons.prems(1) by simp
    from Cons.IH[OF this Cons.prems(2)] Inr eq show ?thesis by simp
  qed
qed

lemma delayed_noise_loop_none_generator:
  "delayed_noise_loop ext cfg d js s = Inr s' \<Longrightarrow> lS_i_nxt s = None \<Longrightarrow>
     coalesce_optimize cfg = ''baseline'' \<Longrightarrow> generator s' = generator s"
proof (induction js arbitrary: s)
  case Nil
  then show ?case by simp
next
  case (Cons j js)
  from Cons.prems(1) obtain s1 where 1: "delayed_noise_table ext cfg d j s = Inr s1"
    and 2: "delayed_noise_loop ext cfg d js s1 = Inr s'"
    by (auto split: sum.splits)
  have "lS_i_nxt s1 = None" "generator s1 = generator s"
    using 1 Cons.prems(2,3) by (auto simp: delayed_noise_table_none split: sum.splits)
  with Cons.IH[OF 2] Cons.prems(3) show ?case by simp
qed

lemma delayed_noise_loop_none_grad:
  assumes loop: "delayed_noise_loop ext cfg d [0..<n] s = Inr s'"
    and none: "lS_i_nxt s = None" and base: "coalesce_optimize cfg = ''baseline''"
    and i: "i < n"
  shows "\<exists>g f. sparse_grad_of s i = Inr (g, f)
     \<and> p_grad (params s' ! i) = Some (Grad (Sparse (coalesce g)) (f \<and> sp_coalesced g))"
proof -
  have split: "[0..<n] = [0..<i] @ i # [Suc i..<n]"
    using i by (metis le_add_diff_inverse less_imp_le_nat upt_add_eq_append upt_conv_Cons zero_le)
  from loop obtain s1 s2 where
    1: "delayed_noise_loop ext cfg d [0..<i] s = Inr s1"
    and 2: "delayed_noise_table ext cfg d i s1 = Inr s2"
    and 3: "delayed_noise_loop ext cfg d [Suc i..<n] s2 = Inr s'"
    unfolding split delayed_noise_loop_append
    by (auto split: sum.splits)
  have pre: "params s1 ! i = params s ! i" "length (params s1) = length (params s)"
    "lS_i_nxt s1 = None"
    using delayed_noise_loop_other[OF 1, of i] none by auto
  have post: "params s' ! i = params s2 ! i"
    using delayed_noise_loop_other[OF 3, of i] by auto
  from 2 pre(3) base obtain g f where g: "sparse_grad_of s1 i = Inr (g, f)"
    and s2: "params s2 = (params s1)[i := (params s1 ! i)
                \<lparr>p_grad := Some (Grad (Sparse (coalesce g)) (f \<and> sp_coalesced g))\<rparr>]"
    by (auto simp: delayed_noise_table_none split: sum.splits)
  have "i < length (params s1)" using g by (auto simp: sparse_grad_of_def split: if_splits)
  then have "p_grad (params s2 ! i) = Some (Grad (Sparse (coalesce g)) (f \<and> sp_coalesced g))"
    using s2 by simp
  moreover have "sparse_grad_of s i = Inr (g, f)"
    using g sparse_grad_of_cong[OF pre(1,2)] by simp
  ultimately show ?thesis using post by auto
qed

lemma none_state_fields:
  "lS_i_nxt none_state = None" "emb_l none_state = [(8, 2)]" "generator none_state = 0"
  "params none_state = [\<lparr> p_shape = (8, 2), p_device = Cpu, p_grad_sample = GS_Missing,
                 p_grad_sample_norms = None,
                 p_summed_grad = Some (Grad (Sparse \<lparr> sp_elems = [(3, [1, 1]), (3, [2, 2])], sp_size = (8, 2), sp_coalesced = False \<rparr>) True),
                 p_grad = Some (Grad (Sparse \<lparr> sp_elems = [(3, [1, 1]), (3, [2, 2])], sp_size = (8, 2), sp_coalesced = False \<rparr>) True),
                 p_inputs = None \<rparr>]"
  by (simp_all add: none_state_def merge_state_def)

lemma coalesce_row3:
  "coalesce \<lparr> sp_elems = [(3, [1, 1]), (3, [2, 2])], sp_size = (8, 2), sp_coalesced = False \<rparr>
      = \<lparr> sp_elems = [(3, [3, 3])], sp_size = (8, 2), sp_coalesced = True \<rparr>"
  by (simp add: coalesce_def sp_indices_def sp_row_def sp_entries_def vsum_def vadd_def numeral_2_eq_2)

lemma none_state_run:
  "do_delayed_noise_update merge_ext merge_cfg none_state =
     Inr (none_state\<lparr> params := (params none_state)[0 := (params none_state ! 0)\<lparr>p_grad :=
            Some (Grad (Sparse \<lparr> sp_elems = [(3, [3, 3])], sp_size = (8, 2), sp_coalesced = True \<rparr>) False)\<rparr>],
          generator := generator none_state \<rparr>)"
proof -
  have g: "sparse_grad_of none_state 0
      = Inr (\<lparr> sp_elems = [(3, [1, 1]), (3, [2, 2])], sp_size = (8, 2), sp_coalesced = False \<rparr>, True)"
    by (simp add: sparse_grad_of_def none_state_fields)
  have b: "coalesce_optimize merge_cfg = ''baseline''" by (simp add: merge_cfg_def)
  have "delayed_noise_table merge_ext merge_cfg 2 0 none_state =
     Inr (none_state\<lparr> params := (params none_state)[0 := (params none_state ! 0)\<lparr>p_grad :=
            Some (Grad (Sparse \<lparr> sp_elems = [(3, [3, 3])], sp_size = (8, 2), sp_coalesced = True \<rparr>) False)\<rparr>],
          generator := generator none_state \<rparr>)"
    by (simp add: delayed_noise_table_none[OF none_state_fields(1) b] g coalesce_row3)
  then show ?thesis
    by (simp add: do_delayed_noise_update_def none_state_fields)
qed

text \<open>
  Claim C7, as stated, fails: \<^verbatim>\<open>do_delayed_noise_update\<close> coalesces the real gradient also
  when \<open>lS_i_nxt\<close> is \<open>None\<close>, so a gradient that stores a row twice is not \<^verbatim>\<open>p.grad\<close>
  unchanged.
\<close>

theorem raw_gradient_unchanged_counterexample:
  "lS_i_nxt none_state = None
   \<and> map_option g_tensor (p_grad (params none_state ! 0))
        = Some (Sparse \<lparr> sp_elems = [(3, [1, 1]), (3, [2, 2])], sp_size = (8, 2), sp_coalesced = False \<rparr>)
   \<and> map_sum id (\<lambda>s'. map_option g_tensor (p_grad (params s' ! 0)))
        (do_delayed_noise_update merge_ext merge_cfg none_state)
        = Inr (Some (Sparse \<lparr> sp_elems = [(3, [3, 3])], sp_size = (8, 2), sp_coalesced = True \<rparr>))"
  by (simp add: none_state_run none_state_fields)

text \<open>
  Claim C7, amended. When \<open>lS_i_nxt\<close> is \<open>None\<close>, \<^verbatim>\<open>set_emb_to_noise_update\<close> changes
  nothing, so no standard deviation is computed, and \<^verbatim>\<open>do_delayed_noise_update\<close> with the
  baseline coalescing draws no noise: its result is the same for every random source, the
  draw counter and the stored standard deviations stay as they are, and the gradient of
  every embedding table becomes the coalesced form of its real gradient, which has the same
  dense rows.
\<close>

theorem no_next_rows_no_noise:
  assumes none: "lS_i_nxt s = None" and base: "coalesce_optimize cfg = ''baseline''"
  shows "set_emb_to_noise_update s = Inr s
    \<and> do_delayed_noise_update ext cfg s = do_delayed_noise_update ext' cfg s
    \<and> (\<forall>s'. do_delayed_noise_update ext cfg s = Inr s' \<longrightarrow>
          generator s' = generator s
        \<and> stds_for_delayed_noise s' = stds_for_delayed_noise s
        \<and> (\<forall>i < length (emb_l s). \<exists>g f. sparse_grad_of s i = Inr (g, f)
              \<and> p_grad (params s' ! i) = Some (Grad (Sparse (coalesce g)) (f \<and> sp_coalesced g))
              \<and> (\<forall>r. sp_row (coalesce g) r = sp_row g r)))"
proof (intro conjI allI impI)
  show "set_emb_to_noise_update s = Inr s"
    using none by (simp add: set_emb_to_noise_update_def)
  show "do_delayed_noise_update ext cfg s = do_delayed_noise_update ext' cfg s"
    using delayed_noise_loop_none_ext[OF none base]
    by (simp add: do_delayed_noise_update_def split: list.splits)
next
  fix s' assume run: "do_delayed_noise_update ext cfg s = Inr s'"
  then obtain sh rest where e: "emb_l s = sh # rest"
    and loop: "delayed_noise_loop ext cfg (snd sh) [0..<length (emb_l s)] s = Inr s'"
    by (auto simp: do_delayed_noise_update_def split: list.splits)
  show "generator s' = generator s"
    using delayed_noise_loop_none_generator[OF loop none base] .
  show "stds_for_delayed_noise s' = stds_for_delayed_noise s"
    using delayed_noise_loop_other[OF loop, of "length (emb_l s)"] by simp
  fix i assume "i < length (emb_l s)"
  from delayed_noise_loop_none_grad[OF loop none base this]
  show "\<exists>g f. sparse_grad_of s i = Inr (g, f)
      \<and> p_grad (params s' ! i) = Some (Grad (Sparse (coalesce g)) (f \<and> sp_coalesced g))
      \<and> (\<forall>r. sp_row (coalesce g) r = sp_row g r)"
    by (auto simp: sp_row_coalesce)
qed

theorem no_next_rows_no_noise_witness:
  "set_emb_to_noise_update none_state = Inr none_state
   \<and> do_delayed_noise_update merge_ext merge_cfg none_state
       = do_delayed_noise_update (merge_ext\<lparr>normal_multi_thread_with_extra := (\<lambda>g std d extra nt. [])\<rparr>)
           merge_cfg none_state
   \<and> (\<exists>s' g f. do_delayed_noise_update merge_ext merge_cfg none_state = Inr s'
        \<and> generator s' = 0 \<and> stds_for_delayed_noise s' = [[2]]
        \<and> sparse_grad_of none_state 0 = Inr (g, f)
        \<and> p_grad (params s' ! 0) = Some (Grad (Sparse (coalesce g)) (f \<and> sp_coalesced g))
        \<and> sp_row (coalesce g) 3 = sp_row g 3)"
proof -
  have 1: "lS_i_nxt none_state = None" by (simp add: none_state_fields)
  have 2: "coalesce_optimize merge_cfg = ''baseline''" by (simp add: merge_cfg_def)
  note main = no_next_rows_no_noise[OF 1 2, of merge_ext
      "merge_ext\<lparr>normal_multi_thread_with_extra := (\<lambda>g std d extra nt. [])\<rparr>"]
  obtain s' where run: "do_delayed_noise_update merge_ext merge_cfg none_state = Inr s'"
    using none_state_run by blast
  with main have a: "generator s' = generator none_state"
    "stds_for_delayed_noise s' = stds_for_delayed_noise none_state"
    and b: "\<forall>i < length (emb_l none_state). \<exists>g f. sparse_grad_of none_state i = Inr (g, f)
              \<and> p_grad (params s' ! i) = Some (Grad (Sparse (coalesce g)) (f \<and> sp_coalesced g))
              \<and> (\<forall>r. sp_row (coalesce g) r = sp_row g r)"
    by blast+
  from b[rule_format, of 0] obtain g f where
    "sparse_grad_of none_state 0 = Inr (g, f)"
    "p_grad (params s' ! 0) = Some (Grad (Sparse (coalesce g)) (f \<and> sp_coalesced g))"
    "sp_row (coalesce g) 3 = sp_row g 3"
    by (auto simp: none_state_fields)
  then show ?thesis using main run a
    by (auto simp: none_state_fields none_state_def merge_state_def)
qed

subsection \<open>Noise generation, accumulated iterations, zero_grad\<close>

text \<open>
  Claim C9. With \<open>std = 0\<close> \<^verbatim>\<open>_generate_noise\<close> fails with an assertion error, in every
  configuration. Outside the debugging modes every tensor it returns is one that the
  random source produced for a non-zero \<open>std\<close>. A tensor that does not come from the
  random source is returned only when debugging is on, and is then all zeros for the types
  \<open>without_noise\<close> and \<open>without_noise_clipping\<close> and all ones for \<open>one_as_noise\<close>.
\<close>

theorem zero_std_is_fatal:
  "generate_noise ext cfg gen 0 reference secure = Inl (AssertionError [])
   \<and> (\<not> is_debugging cfg \<longrightarrow>
        (\<forall>m drawn. generate_noise ext cfg gen std reference secure = Inr (m, drawn) \<longrightarrow>
           drawn \<and> std \<noteq> 0 \<and>
           (\<exists>shape dev. reference = Some (shape, dev) \<and>
              (m = normal_multi_thread ext gen std (fst shape) (snd shape) (noise_base_nthreads cfg)
               \<or> m = torch_normal ext gen std shape))))
   \<and> (\<forall>m. generate_noise ext cfg gen std reference secure = Inr (m, False) \<longrightarrow>
         is_debugging cfg \<and> std \<noteq> 0 \<and>
         (\<exists>shape dev. reference = Some (shape, dev) \<and>
            (debugging_type cfg \<in> {''without_noise'', ''without_noise_clipping''} \<and> m = zeros shape
             \<or> debugging_type cfg = ''one_as_noise'' \<and> m = ones shape)))"
  by (auto simp: generate_noise_def split: if_splits option.splits)

theorem zero_std_is_fatal_witness:
  "generate_noise merge_ext merge_cfg 0 0 (Some ((2, 2), Cpu)) False = Inl (AssertionError [])
   \<and> generate_noise merge_ext merge_cfg 0 1 (Some ((2, 2), Cpu)) False
        = Inr (normal_multi_thread merge_ext 0 1 2 2 32, True)
   \<and> generate_noise merge_ext debug_cfg 0 0 (Some ((2, 2), Cpu)) False = Inl (AssertionError [])
   \<and> generate_noise merge_ext debug_cfg 0 1 (Some ((2, 2), Cpu)) False = Inr (zeros (2, 2), False)
   \<and> is_debugging debug_cfg"
  using zero_std_is_fatal[of merge_ext merge_cfg 0 "Some ((2, 2), Cpu)" False 1]
    zero_std_is_fatal[of merge_ext debug_cfg 0 "Some ((2, 2), Cpu)" False 1]
  by (simp add: generate_noise_def merge_cfg_def debug_cfg_def)

text \<open>
  Claim C8, as stated, fails: with one accumulated batch for the first parameter and two
  for the second, the statements of lines 400 to 417 would raise the error, but
  \<^verbatim>\<open>accumulated_iterations\<close> returns 1 before it reaches them.
\<close>

theorem inconsistent_accumulation_counterexample:
  "map accumulated_val (params acc_state) = [Inr 1, Inr 2]
   \<and> accumulated_iterations_tail acc_state
       = Inl (ValueError ''Number of accumulated steps is inconsistent across parameters'')
   \<and> accumulated_iterations acc_state = Inr 1"
  by (simp add: acc_state_def accumulated_val_def accumulated_iterations_tail_def
      accumulated_iterations_def)

text \<open>
  Claim C8, amended. \<^verbatim>\<open>accumulated_iterations\<close> returns 1 for every state of the
  optimizer and never raises, whatever the per-sample gradients of the parameters are.
\<close>

theorem accumulated_iterations_is_one:
  "accumulated_iterations s = Inr 1"
  by (simp add: accumulated_iterations_def)

text \<open>
  Claim C10. Whatever is passed for \<^verbatim>\<open>set_to_none\<close>, \<^verbatim>\<open>zero_grad\<close> sets \<^verbatim>\<open>p.grad\<close> of every
  parameter to \<^verbatim>\<open>None\<close>. \<^verbatim>\<open>p.grad_sample\<close> is set to \<^verbatim>\<open>None\<close> in the mode
  \<open>MODE_DPSGD_B\<close> and stays as it is in every other mode. \<^verbatim>\<open>p.summed_grad\<close> is set to
  \<^verbatim>\<open>None\<close> when the last step was not skipped and stays as it is when it was. Nothing
  else changes.
\<close>

theorem zero_grad_effect:
  "zero_grad cfg set_to_none s = zero_grad cfg True s
   \<and> zero_grad cfg set_to_none s = s\<lparr>params := params (zero_grad cfg set_to_none s)\<rparr>
   \<and> params (zero_grad cfg set_to_none s) =
       map (\<lambda>p. p\<lparr> p_grad := None,
                   p_grad_sample := (if dpsgd_mode cfg = MODE_DPSGD_B then GS_None else p_grad_sample p),
                   p_summed_grad := (if is_last_step_skipped s then p_summed_grad p else None) \<rparr>)
           (params s)"
  by (auto simp: zero_grad_def original_zero_grad_def Let_def split: option.splits)

theorem zero_grad_effect_witness:
  "params (zero_grad merge_cfg False acc_state) =
     [\<lparr> p_shape = (1, 1), p_device = Cuda,
        p_grad_sample = GS_List [GS [[[1]]] False],
        p_grad_sample_norms = None, p_summed_grad = None,
        p_grad = None, p_inputs = None \<rparr>,
      \<lparr> p_shape = (1, 1), p_device = Cuda,
        p_grad_sample = GS_List [GS [[[1]]] False, GS [[[2]]] False],
        p_grad_sample_norms = None, p_summed_grad = None,
        p_grad = None, p_inputs = None \<rparr>]
   \<and> params (zero_grad debug_cfg False (acc_state\<lparr>is_last_step_skipped := True\<rparr>)) =
     [\<lparr> p_shape = (1, 1), p_device = Cuda,
        p_grad_sample = GS_None,
        p_grad_sample_norms = None, p_summed_grad = None,
        p_grad = None, p_inputs = None \<rparr>,
      \<lparr> p_shape = (1, 1), p_device = Cuda,
        p_grad_sample = GS_None,
        p_grad_sample_norms = None, p_summed_grad = Some (Grad (Dense [[3]]) False),
        p_grad = None, p_inputs = None \<rparr>]"
  using zero_grad_effect[THEN conjunct2, THEN conjunct2, of merge_cfg False acc_state]
    zero_grad_effect[THEN conjunct2, THEN conjunct2, of debug_cfg False
      "acc_state\<lparr>is_last_step_skipped := True\<rparr>"]
  by (simp add: acc_state_def merge_state_def merge_cfg_def debug_cfg_def
      MODE_DPSGD_B_def MODE_LAZYDP_def)

subsection \<open>Clip factors\<close>

lemma sum_list_sq_nonneg: "0 \<le> sum_list (map (\<lambda>x. x\<^sup>2) (xs :: real list))"
  by (induction xs) auto

lemma l2_norm_nonneg: "0 \<le> l2_norm xs"
  by (simp add: l2_norm_def sum_list_sq_nonneg)

lemma sum_list_sq_scale:
  "sum_list (map (\<lambda>x. x\<^sup>2) (map (\<lambda>x. c * x) xs)) = c\<^sup>2 * sum_list (map (\<lambda>x. x\<^sup>2) (xs :: real list))"
  by (induction xs) (simp_all add: power_mult_distrib distrib_left)

lemma l2_norm_scale: "l2_norm (map (\<lambda>x. c * x) xs) = \<bar>c\<bar> * l2_norm xs"
  unfolding l2_norm_def sum_list_sq_scale
  by (simp add: real_sqrt_mult)

lemma l2_norm_sq: "(l2_norm xs)\<^sup>2 = sum_list (map (\<lambda>x. x\<^sup>2) xs)"
  by (simp add: l2_norm_def sum_list_sq_nonneg)

lemma sum_list_sq_concat:
  "sum_list (map (\<lambda>x. x\<^sup>2) (concat xss)) = sum_list (map (\<lambda>xs. (l2_norm xs)\<^sup>2) xss)"
  by (induction xss) (auto simp: l2_norm_sq)

lemma l2_norm_of_norms: "l2_norm (map l2_norm xss) = l2_norm (concat xss)"
  by (simp add: l2_norm_def sum_list_sq_concat comp_def)

lemma concat_scale_sample: "concat (scale_sample c m) = map (\<lambda>x. c * x) (concat m)"
  by (induction m) (auto simp: scale_sample_def)

lemma clip_bound:
  fixes mgn n :: real
  assumes "0 \<le> mgn" "0 \<le> n"
  shows "0 \<le> min (mgn / (n + 1 / 1000000)) 1" and "min (mgn / (n + 1 / 1000000)) 1 * n \<le> mgn"
proof -
  have pos: "0 < n + 1 / 1000000" using assms(2) by simp
  show "0 \<le> min (mgn / (n + 1 / 1000000)) 1" using assms pos by simp
  have "min (mgn / (n + 1 / 1000000)) 1 * n \<le> mgn / (n + 1 / 1000000) * n"
    using assms(2) by (intro mult_right_mono) auto
  also have "\<dots> = mgn * (n / (n + 1 / 1000000))" by simp
  also have "\<dots> \<le> mgn * 1"
    using assms pos by (intro mult_left_mono) (auto simp: divide_le_eq)
  finally show "min (mgn / (n + 1 / 1000000)) 1 * n \<le> mgn" by simp
qed

lemma stack_norm_Inr:
  assumes "stack_norm nss = Inr ns"
  shows "nss \<noteq> [] \<and> (\<forall>ms \<in> set nss. length ms = length ns)
     \<and> (\<forall>i < length ns. ns ! i = l2_norm (map (\<lambda>ms. ms ! i) nss))"
  using assms by (auto simp: stack_norm_def split: list.splits if_splits)

lemma mapE_Inr:
  "mapE f xs = Inr ys \<Longrightarrow> length ys = length xs \<and> (\<forall>k < length xs. f (xs ! k) = Inr (ys ! k))"
proof (induction xs arbitrary: ys)
  case Nil then show ?case by simp
next
  case (Cons x xs)
  then show ?case by (auto split: sum.splits simp: nth_Cons split: nat.splits)
qed

lemma per_sample_clip_factor_clips:
  assumes "\<not> (is_debugging cfg \<and> debugging_type cfg = ''without_noise_clipping'')"
  shows "per_sample_clip_factor cfg mgn ns = map (\<lambda>n. min (mgn / (n + 1 / 1000000)) 1) ns"
  using assms by (auto simp: per_sample_clip_factor_def Let_def)

lemma clipped_sample_norm:
  assumes "0 \<le> mgn" and c: "c = min (mgn / (l2_norm (concat (map (\<lambda>g. concat (g ! i)) gs)) + 1 / 1000000)) 1"
  shows "l2_norm (concat (map (\<lambda>g. concat (scale_sample c (g ! i))) gs)) \<le> mgn"
proof -
  let ?n = "l2_norm (concat (map (\<lambda>g. concat (g ! i)) gs))"
  have "concat (map (\<lambda>g. concat (scale_sample c (g ! i))) gs)
      = map (\<lambda>x. c * x) (concat (map (\<lambda>g. concat (g ! i)) gs))"
    by (simp add: concat_scale_sample map_concat comp_def)
  then have "l2_norm (concat (map (\<lambda>g. concat (scale_sample c (g ! i))) gs)) = \<bar>c\<bar> * ?n"
    by (simp add: l2_norm_scale)
  also have "\<dots> = c * ?n"
    using clip_bound(1)[OF assms(1) l2_norm_nonneg, of "concat (map (\<lambda>g. concat (g ! i)) gs)"] c by simp
  also have "\<dots> \<le> mgn"
    using clip_bound(2)[OF assms(1) l2_norm_nonneg, of "concat (map (\<lambda>g. concat (g ! i)) gs)"] c by simp
  finally show ?thesis .
qed

lemma clip_factor_B_Inr:
  assumes f: "clip_factor_B cfg s = Inr f"
    and nodebug: "\<not> (is_debugging cfg \<and> debugging_type cfg = ''without_noise_clipping'')"
  shows "\<exists>gs. grad_samples s = Inr gs \<and> gs \<noteq> [] \<and> (\<forall>g \<in> set gs. length g = length f) \<and>
     (\<forall>i < length f. f ! i =
        min (max_grad_norm s / (l2_norm (concat (map (\<lambda>g. concat (g ! i)) gs)) + 1 / 1000000)) 1)"
proof -
  from f obtain gs norms where gs: "grad_samples s = Inr gs" "gs \<noteq> []"
    and st: "stack_norm (map sample_norms gs) = Inr norms"
    and ff: "f = per_sample_clip_factor cfg (max_grad_norm s) norms"
    by (auto simp: clip_factor_B_def split: sum.splits list.splits if_splits)
  have f': "f = map (\<lambda>n. min (max_grad_norm s / (n + 1 / 1000000)) 1) norms"
    using ff per_sample_clip_factor_clips[OF nodebug] by simp
  then have len: "length f = length norms" by simp
  from stack_norm_Inr[OF st] have
    lens: "\<forall>g \<in> set gs. length g = length norms"
    and val: "\<forall>i < length norms. norms ! i = l2_norm (map (\<lambda>ms. ms ! i) (map sample_norms gs))"
    by (auto simp: sample_norms_def)
  have "norms ! i = l2_norm (concat (map (\<lambda>g. concat (g ! i)) gs))" if "i < length norms" for i
  proof -
    have "map (\<lambda>ms. ms ! i) (map sample_norms gs) = map l2_norm (map (\<lambda>g. concat (g ! i)) gs)"
      using lens that by (auto simp: sample_norms_def)
    then have "l2_norm (map (\<lambda>ms. ms ! i) (map sample_norms gs))
        = l2_norm (concat (map (\<lambda>g. concat (g ! i)) gs))"
      by (simp only: l2_norm_of_norms)
    then show ?thesis using val that by simp
  qed
  then show ?thesis using gs lens len f' by auto
qed

lemma clip_factor_R_Inr:
  assumes f: "clip_factor_R cfg s = Inr f"
    and nodebug: "\<not> (is_debugging cfg \<and> debugging_type cfg = ''without_noise_clipping'')"
  shows "\<exists>nss. mapE (norms_of_param cfg) (params s) = Inr nss \<and>
     (\<forall>i < length f. f ! i =
        min (max_grad_norm s / (l2_norm (map (\<lambda>ns. ns ! i) (concat nss)) + 1 / 1000000)) 1)"
proof -
  from f obtain nss norms where nss: "mapE (norms_of_param cfg) (params s) = Inr nss"
    and st: "stack_norm (concat nss) = Inr norms"
    and ff: "f = per_sample_clip_factor cfg (max_grad_norm s) norms"
    by (auto simp: clip_factor_R_def split: sum.splits)
  have f': "f = map (\<lambda>n. min (max_grad_norm s / (n + 1 / 1000000)) 1) norms"
    using ff per_sample_clip_factor_clips[OF nodebug] by simp
  from stack_norm_Inr[OF st] have
    "\<forall>i < length norms. norms ! i = l2_norm (map (\<lambda>ms. ms ! i) (concat nss))"
    by auto
  then show ?thesis using nss f' by auto
qed


subsection \<open>Clipping and accumulation\<close>

lemma mapE_Inl:
  "mapE f xs = Inl e \<Longrightarrow> \<exists>x \<in> set xs. f x = Inl e"
  by (induction xs) (auto split: sum.splits)

lemma mapE_map: "mapE f xs = mapE (\<lambda>x. x) (map f xs)"
  by (induction xs) (auto split: sum.splits)

lemma mapES_Inr:
  "mapES f xs = Inr ys \<Longrightarrow> length ys = length xs \<and> (\<forall>k < length xs. f (xs ! k) = Inr (ys ! k))"
proof (induction xs arbitrary: ys)
  case Nil then show ?case by simp
next
  case (Cons x xs)
  then show ?case by (auto split: sum.splits prod.splits simp: nth_Cons split: nat.splits)
qed

lemma mapES_Inl:
  "mapES f xs = Inl (e, ys) \<Longrightarrow> \<exists>x \<in> set xs. \<exists>x'. f x = Inl (e, x')"
proof (induction xs arbitrary: ys)
  case Nil then show ?case by simp
next
  case (Cons x xs)
  then show ?case by (auto split: sum.splits prod.splits)
qed

lemma clip_param_Inr:
  assumes "clip_param ext cfg f p = Inr p'"
  shows "check_processed_flag (p_grad_sample p) = Inr () \<and> p_summed_grad p = None \<and>
    (\<exists>g gr. get_flat_grad_sample p = Inr g \<and> clipped_grad ext cfg f p g = Inr gr \<and>
       p' = p\<lparr> p_summed_grad := Some (Grad gr False),
               p_grad_sample := mark_as_processed (p_grad_sample p) \<rparr>)"
  using assms by (auto simp: clip_param_def split: sum.splits option.splits)

lemma clip_and_accumulate_B:
  assumes "dpsgd_mode cfg = MODE_DPSGD_B" "clip_and_accumulate ext cfg losses s = Inr s'"
  shows "losses = None \<and> (\<exists>f. clip_factor_B cfg s = Inr f \<and>
     mapES (clip_param ext cfg f) (params s) = Inr (params s') \<and> s' = s\<lparr>params := params s'\<rparr>)"
  using assms by (auto simp: clip_and_accumulate_def split: sum.splits if_splits prod.splits)

lemma get_flat_grad_sample_mark:
  "p_grad_sample p' = mark_as_processed (p_grad_sample p) \<Longrightarrow>
     get_flat_grad_sample p' = get_flat_grad_sample p"
  by (cases "p_grad_sample p") (auto simp: get_flat_grad_sample_def comp_def)

lemma check_processed_flag_mark:
  assumes "get_flat_grad_sample p = Inr g"
  shows "check_processed_flag (mark_as_processed (p_grad_sample p)) = Inl (ValueError not_cleared)"
proof (cases "p_grad_sample p")
  case (GS_List ts)
  then have "ts \<noteq> []" using assms by (auto simp: get_flat_grad_sample_def split: if_splits)
  then obtain t rest where "ts = t # rest" by (cases ts) auto
  then show ?thesis using GS_List by (simp add: check_processed_flag_tensor_def)
qed (use assms in \<open>auto simp: get_flat_grad_sample_def check_processed_flag_tensor_def\<close>)

lemma clip_and_accumulate_twice:
  assumes B: "dpsgd_mode cfg = MODE_DPSGD_B"
    and run: "clip_and_accumulate ext cfg losses s = Inr s'"
  shows "clip_and_accumulate ext cfg losses s' = Inl (ValueError not_cleared, s')"
proof -
  from clip_and_accumulate_B[OF B run] obtain f where
    l: "losses = None" and f: "clip_factor_B cfg s = Inr f"
    and ps: "mapES (clip_param ext cfg f) (params s) = Inr (params s')"
    and s': "s' = s\<lparr>params := params s'\<rparr>" by blast
  from mapES_Inr[OF ps] have len: "length (params s') = length (params s)"
    and each: "\<forall>k < length (params s). clip_param ext cfg f (params s ! k) = Inr (params s' ! k)"
    by auto
  have flat: "get_flat_grad_sample (params s' ! k) = get_flat_grad_sample (params s ! k)"
    and gsk: "p_grad_sample (params s' ! k) = mark_as_processed (p_grad_sample (params s ! k))"
    if "k < length (params s)" for k
  proof -
    from clip_param_Inr[OF each[rule_format, OF that]]
    show "p_grad_sample (params s' ! k) = mark_as_processed (p_grad_sample (params s ! k))"
      by auto
    then show "get_flat_grad_sample (params s' ! k) = get_flat_grad_sample (params s ! k)"
      by (rule get_flat_grad_sample_mark)
  qed
  have "map get_flat_grad_sample (params s') = map get_flat_grad_sample (params s)"
    using len flat by (auto intro: nth_equalityI)
  then have gs: "grad_samples s' = grad_samples s"
    using mapE_map[of get_flat_grad_sample "params s'"] mapE_map[of get_flat_grad_sample "params s"]
    by (simp add: grad_samples_def)
  have mg: "max_grad_norm s' = max_grad_norm s"
    using arg_cong[OF s', of max_grad_norm] by simp
  have "clip_factor_B cfg s' = clip_factor_B cfg s"
    by (simp only: clip_factor_B_def gs mg)
  then have f': "clip_factor_B cfg s' = Inr f"
    using f by simp
  from f obtain g0 rest where "grad_samples s = Inr (g0 # rest)"
    by (auto simp: clip_factor_B_def split: sum.splits list.splits if_splits)
  then have ne: "params s \<noteq> []" by (auto simp: grad_samples_def)
  then obtain p ps0 where p: "params s' = p # ps0" using len by (cases "params s'") auto
  have 0: "0 < length (params s)" using ne by simp
  obtain g where "get_flat_grad_sample (params s ! 0) = Inr g"
    using clip_param_Inr[OF each[rule_format, OF 0]] by blast
  from check_processed_flag_mark[OF this] gsk[OF 0] p
  have "check_processed_flag (p_grad_sample p) = Inl (ValueError not_cleared)" by simp
  then have "clip_param ext cfg f p = Inl (ValueError not_cleared, p)"
    by (simp add: clip_param_def)
  moreover have "s'\<lparr>params := p # ps0\<rparr> = s'" using p[symmetric] by simp
  ultimately show ?thesis using B l f' p
    by (simp add: clip_and_accumulate_def)
qed


lemma dense_state_factor:
  "clip_factor_B cfg dense_state = Inr (per_sample_clip_factor cfg 1 [5])"
proof -
  have "l2_norm [3, 4] = 5"
    using real_sqrt_abs[of 5] by (simp add: l2_norm_def)
  moreover have "l2_norm [5] = 5" by (simp add: l2_norm_def)
  ultimately show ?thesis
    by (simp add: clip_factor_B_def grad_samples_def get_flat_grad_sample_def dense_state_def
        dense_param_def merge_state_def sample_norms_def stack_norm_def)
qed

lemma clip_and_accumulate_other:
  assumes mode: "dpsgd_mode cfg \<in> {MODE_DPSGD_R, MODE_DPSGD_F, MODE_LAZYDP, MODE_EANA}"
    and run: "clip_and_accumulate ext cfg losses t = Inr t'"
  shows "\<exists>f. clip_factor_R cfg t = Inr f \<and> length (params t') = length (params t) \<and>
     (\<forall>k < length (params t).
        (dpsgd_mode cfg = MODE_LAZYDP \<or> length (emb_l t) \<le> k \<longrightarrow>
           p_summed_grad (params t' ! k) = backward ext f (params t) k)
      \<and> (dpsgd_mode cfg \<noteq> MODE_LAZYDP \<and> k < length (emb_l t) \<longrightarrow>
           (\<exists>q. coalesce_emb_grad ext cfg ((params t ! k)\<lparr>p_grad := backward ext f (params t) k\<rparr>) = Inr q
              \<and> p_summed_grad (params t' ! k) = p_grad q))
      \<and> p_grad (params t' ! k) = None)"
proof -
  have nB: "dpsgd_mode cfg \<noteq> MODE_DPSGD_B"
    using mode by (auto simp: MODE_DPSGD_B_def MODE_DPSGD_R_def MODE_DPSGD_F_def MODE_LAZYDP_def MODE_EANA_def)
  let ?c = "\<lambda>p. case coalesce_emb_grad ext cfg p of Inl e \<Rightarrow> Inl (e, p) | Inr p' \<Rightarrow> Inr p'"
  let ?ps1 = "\<lambda>f. map (\<lambda>i. (params t ! i)\<lparr>p_grad := backward ext f (params t) i\<rparr>) [0..<length (params t)]"
  from run nB mode obtain f ps2 where f: "clip_factor_R cfg t = Inr f"
    and ps2: "(if dpsgd_mode cfg \<noteq> MODE_LAZYDP
                then (case mapES ?c (take (length (emb_l t)) (?ps1 f)) of
                        Inl (e, es) \<Rightarrow> Inl (e, es @ drop (length (emb_l t)) (?ps1 f))
                      | Inr es \<Rightarrow> Inr (es @ drop (length (emb_l t)) (?ps1 f)))
                else Inr (?ps1 f)) = Inr ps2"
    and t': "params t' = map (\<lambda>p. p\<lparr>p_summed_grad := p_grad p, p_grad := None\<rparr>) ps2"
    by (auto simp: clip_and_accumulate_def Let_def split: if_splits option.splits sum.splits prod.splits)
  have shape: "length ps2 = length (params t) \<and>
      (\<forall>k < length (params t).
         (dpsgd_mode cfg = MODE_LAZYDP \<or> length (emb_l t) \<le> k \<longrightarrow> ps2 ! k = ?ps1 f ! k)
       \<and> (dpsgd_mode cfg \<noteq> MODE_LAZYDP \<and> k < length (emb_l t) \<longrightarrow>
            coalesce_emb_grad ext cfg (?ps1 f ! k) = Inr (ps2 ! k)))"
  proof (cases "dpsgd_mode cfg = MODE_LAZYDP")
    case True
    then show ?thesis using ps2 by auto
  next
    case False
    then obtain es where es: "mapES ?c (take (length (emb_l t)) (?ps1 f)) = Inr es"
      and p: "ps2 = es @ drop (length (emb_l t)) (?ps1 f)"
      using ps2 by (auto split: sum.splits prod.splits)
    from mapES_Inr[OF es] have le: "length es = min (length (params t)) (length (emb_l t))"
      and each: "\<forall>k < length (take (length (emb_l t)) (?ps1 f)).
                   ?c (take (length (emb_l t)) (?ps1 f) ! k) = Inr (es ! k)"
      by simp_all
    have "length ps2 = length (params t)" using p le by simp
    moreover have "ps2 ! k = ?ps1 f ! k" if "k < length (params t)" "length (emb_l t) \<le> k" for k
    proof -
      have "length es = length (emb_l t)" using le that by simp
      then show ?thesis using p that by (simp add: nth_append)
    qed
    moreover have "coalesce_emb_grad ext cfg (?ps1 f ! k) = Inr (ps2 ! k)"
      if "k < length (params t)" "k < length (emb_l t)" for k
    proof -
      have k: "k < length es" using le that by simp
      then have pk: "ps2 ! k = es ! k" using p by (simp add: nth_append)
      have kk: "k < length (take (length (emb_l t)) (?ps1 f))" using that by simp
      from each[rule_format, OF kk]
      have "coalesce_emb_grad ext cfg (take (length (emb_l t)) (?ps1 f) ! k) = Inr (es ! k)"
        by (auto split: sum.splits)
      moreover have "take (length (emb_l t)) (?ps1 f) ! k = ?ps1 f ! k" using that by simp
      ultimately show ?thesis using pk by simp
    qed
    ultimately show ?thesis using False by auto
  qed
  have each: "params t' ! k = (ps2 ! k)\<lparr>p_summed_grad := p_grad (ps2 ! k), p_grad := None\<rparr>"
    if "k < length (params t)" for k
    using t' shape that by simp
  have 1: "p_summed_grad (params t' ! k) = backward ext f (params t) k"
    if k: "k < length (params t)" "dpsgd_mode cfg = MODE_LAZYDP \<or> length (emb_l t) \<le> k" for k
  proof -
    have "ps2 ! k = ?ps1 f ! k" using shape k by blast
    then have "ps2 ! k = (params t ! k)\<lparr>p_grad := backward ext f (params t) k\<rparr>"
      using k(1) by simp
    then show ?thesis using each[OF k(1)] by simp
  qed
  have 2: "\<exists>q. coalesce_emb_grad ext cfg ((params t ! k)\<lparr>p_grad := backward ext f (params t) k\<rparr>) = Inr q
              \<and> p_summed_grad (params t' ! k) = p_grad q"
    if k: "k < length (params t)" "dpsgd_mode cfg \<noteq> MODE_LAZYDP" "k < length (emb_l t)" for k
  proof -
    have "coalesce_emb_grad ext cfg (?ps1 f ! k) = Inr (ps2 ! k)" using shape k by blast
    then have "coalesce_emb_grad ext cfg ((params t ! k)\<lparr>p_grad := backward ext f (params t) k\<rparr>)
        = Inr (ps2 ! k)"
      using k(1) by simp
    then show ?thesis using each[OF k(1)] by auto
  qed
  have 3: "p_grad (params t' ! k) = None" if "k < length (params t)" for k
    using each[OF that] by simp
  have "length (params t') = length (params t)" using t' shape by simp
  with f 1 2 3 show ?thesis by blast
qed

text \<open>
  Claim C5, as stated, fails: under the debugging type \<open>without_noise_clipping\<close> the
  factor of a sample of norm 5 is 1 and not \<open>min 1 (1 / (5 + 1e-6))\<close>, and the gradient
  that is accumulated for it keeps its norm 5, above \<open>max_grad_norm = 1\<close> by more than
  the slack.
\<close>

theorem clip_factor_counterexample:
  "max_grad_norm dense_state = 1
   \<and> clip_factor_B noclip_cfg dense_state = Inr [1]
   \<and> min 1 (max_grad_norm dense_state / (5 + 1 / 1000000)) < 1
   \<and> summed_grads_left (clip_and_accumulate merge_ext noclip_cfg None dense_state)
       = (None, [Some (Grad (Dense [[3, 4]]) False)])
   \<and> l2_norm (concat [[3, 4]]) = 5
   \<and> max_grad_norm dense_state + 1 / 1000000 < 5"
proof -
  have n: "l2_norm [3, 4] = 5"
    using real_sqrt_abs[of 5] by (simp add: l2_norm_def)
  have f: "clip_factor_B noclip_cfg dense_state = Inr [1]"
    by (simp add: dense_state_factor per_sample_clip_factor_def noclip_cfg_def)
  have ps: "params dense_state = [dense_param]" "max_grad_norm dense_state = 1"
    by (simp_all add: dense_state_def merge_state_def)
  have c: "clip_param merge_ext noclip_cfg [1] dense_param
      = Inr (dense_param\<lparr> p_summed_grad := Some (Grad (Dense [[3, 4]]) False),
               p_grad_sample := GS_Tensor (GS [[[3, 4]]] True) \<rparr>)"
    by (simp add: clip_param_def dense_param_def check_processed_flag_tensor_def
        get_flat_grad_sample_def clipped_grad_def scale_sample_def)
  have m: "dpsgd_mode noclip_cfg = MODE_DPSGD_B" by (simp add: noclip_cfg_def)
  show ?thesis
    using n by (simp add: clip_and_accumulate_def m f ps c summed_grads_left_def)
qed

text \<open>
  Claim C5, amended. Unless the debugging type \<open>without_noise_clipping\<close> is on, and
  with a \<open>max_grad_norm\<close> that is not negative: in the mode \<open>MODE_DPSGD_B\<close> the factor of
  sample \<open>i\<close> is \<open>min 1 (max_grad_norm / (n + 1e-6))\<close> for the norm \<open>n\<close> of the sample's
  stored gradient \<^verbatim>\<open>p.grad_sample[i]\<close> over all parameters, and that gradient scaled by
  the factor has norm at most \<open>max_grad_norm + 1e-6\<close>; in the other modes the factor is
  the same expression of the norm \<open>n\<close> over the per-parameter norms, and factor times \<open>n\<close>
  is at most \<open>max_grad_norm + 1e-6\<close>. What \<^verbatim>\<open>clip_and_accumulate\<close> stores is built from
  these factors: in the mode \<open>MODE_DPSGD_B\<close>, for a dense parameter the sum of its
  per-sample gradients, each scaled by the factor of its sample, and for an embedding table
  the coalesced sparse tensor of the scaled rows at the indices of \<^verbatim>\<open>p.inputs\<close>; in the
  other modes the gradient that the backward pass yields for the loss weighted by the
  factors, coalesced for the embedding tables outside LazyDP.
\<close>

theorem clip_factor_bounds_gradient:
  assumes clipping: "\<not> (is_debugging cfg \<and> debugging_type cfg = ''without_noise_clipping'')"
    and mgn: "0 \<le> max_grad_norm s"
  shows "(\<forall>f. clip_factor_B cfg s = Inr f \<longrightarrow>
           (\<exists>gs. grad_samples s = Inr gs \<and> (\<forall>g \<in> set gs. length g = length f) \<and>
              (\<forall>i < length f.
                 f ! i = min 1 (max_grad_norm s /
                            (l2_norm (concat (map (\<lambda>g. concat (g ! i)) gs)) + 1 / 1000000))
               \<and> l2_norm (concat (map (\<lambda>g. concat (scale_sample (f ! i) (g ! i))) gs))
                    \<le> max_grad_norm s + 1 / 1000000)))
    \<and> (\<forall>f. clip_factor_R cfg s = Inr f \<longrightarrow>
           (\<exists>nss. mapE (norms_of_param cfg) (params s) = Inr nss \<and>
              (\<forall>i < length f.
                 f ! i = min 1 (max_grad_norm s /
                            (l2_norm (map (\<lambda>ns. ns ! i) (concat nss)) + 1 / 1000000))
               \<and> f ! i * l2_norm (map (\<lambda>ns. ns ! i) (concat nss))
                    \<le> max_grad_norm s + 1 / 1000000)))
    \<and> (\<forall>s'. dpsgd_mode cfg = MODE_DPSGD_B \<longrightarrow> clip_and_accumulate ext cfg losses s = Inr s' \<longrightarrow>
           (\<exists>f gs. clip_factor_B cfg s = Inr f \<and> grad_samples s = Inr gs \<and>
              length (params s') = length (params s) \<and>
              (\<forall>k < length (params s).
                 (p_inputs (params s ! k) = None \<longrightarrow>
                    p_summed_grad (params s' ! k)
                      = Some (Grad (Dense (msum (map2 scale_sample f (gs ! k)))) False))
               \<and> (\<forall>index. p_inputs (params s ! k) = Some index \<longrightarrow>
                    (\<exists>raw c. sparse_coo_tensor index (concat (map2 scale_sample f (gs ! k)))
                                 (p_shape (params s ! k)) = Inr raw
                       \<and> coalesce_with ext cfg raw = Inr c
                       \<and> p_summed_grad (params s' ! k) = Some (Grad (Sparse c) False))))))
    \<and> (\<forall>s'. dpsgd_mode cfg \<in> {MODE_DPSGD_R, MODE_DPSGD_F, MODE_LAZYDP, MODE_EANA} \<longrightarrow>
           clip_and_accumulate ext cfg losses s = Inr s' \<longrightarrow>
           (\<exists>f. clip_factor_R cfg s = Inr f \<and> length (params s') = length (params s) \<and>
              (\<forall>k < length (params s).
                 (dpsgd_mode cfg = MODE_LAZYDP \<or> length (emb_l s) \<le> k \<longrightarrow>
                    p_summed_grad (params s' ! k) = backward ext f (params s) k)
               \<and> (dpsgd_mode cfg \<noteq> MODE_LAZYDP \<and> k < length (emb_l s) \<longrightarrow>
                    (\<exists>q. coalesce_emb_grad ext cfg
                            ((params s ! k)\<lparr>p_grad := backward ext f (params s) k\<rparr>) = Inr q
                       \<and> p_summed_grad (params s' ! k) = p_grad q))
               \<and> p_grad (params s' ! k) = None)))"
proof (intro conjI allI impI)
  fix f assume f: "clip_factor_B cfg s = Inr f"
  from clip_factor_B_Inr[OF f clipping] obtain gs where
    gs: "grad_samples s = Inr gs" "\<forall>g \<in> set gs. length g = length f"
    and val: "\<forall>i < length f. f ! i =
        min (max_grad_norm s / (l2_norm (concat (map (\<lambda>g. concat (g ! i)) gs)) + 1 / 1000000)) 1"
    by blast
  have "f ! i = min 1 (max_grad_norm s /
                            (l2_norm (concat (map (\<lambda>g. concat (g ! i)) gs)) + 1 / 1000000))
      \<and> l2_norm (concat (map (\<lambda>g. concat (scale_sample (f ! i) (g ! i))) gs))
          \<le> max_grad_norm s + 1 / 1000000"
    if "i < length f" for i
    using val[rule_format, OF that] clipped_sample_norm[OF mgn val[rule_format, OF that]]
    by (simp add: min.commute)
  then show "\<exists>gs. grad_samples s = Inr gs \<and> (\<forall>g \<in> set gs. length g = length f) \<and>
              (\<forall>i < length f.
                 f ! i = min 1 (max_grad_norm s /
                            (l2_norm (concat (map (\<lambda>g. concat (g ! i)) gs)) + 1 / 1000000))
               \<and> l2_norm (concat (map (\<lambda>g. concat (scale_sample (f ! i) (g ! i))) gs))
                    \<le> max_grad_norm s + 1 / 1000000)"
    using gs by blast
next
  fix f assume f: "clip_factor_R cfg s = Inr f"
  from clip_factor_R_Inr[OF f clipping] obtain nss where
    nss: "mapE (norms_of_param cfg) (params s) = Inr nss"
    and val: "\<forall>i < length f. f ! i =
        min (max_grad_norm s / (l2_norm (map (\<lambda>ns. ns ! i) (concat nss)) + 1 / 1000000)) 1"
    by blast
  have "f ! i = min 1 (max_grad_norm s /
                            (l2_norm (map (\<lambda>ns. ns ! i) (concat nss)) + 1 / 1000000))
      \<and> f ! i * l2_norm (map (\<lambda>ns. ns ! i) (concat nss)) \<le> max_grad_norm s + 1 / 1000000"
    if "i < length f" for i
    using val[rule_format, OF that]
      clip_bound(2)[OF mgn l2_norm_nonneg, of "map (\<lambda>ns. ns ! i) (concat nss)"]
    by (simp add: min.commute)
  then show "\<exists>nss. mapE (norms_of_param cfg) (params s) = Inr nss \<and>
              (\<forall>i < length f.
                 f ! i = min 1 (max_grad_norm s /
                            (l2_norm (map (\<lambda>ns. ns ! i) (concat nss)) + 1 / 1000000))
               \<and> f ! i * l2_norm (map (\<lambda>ns. ns ! i) (concat nss))
                    \<le> max_grad_norm s + 1 / 1000000)"
    using nss by blast
next
  fix s' assume B: "dpsgd_mode cfg = MODE_DPSGD_B"
    and run: "clip_and_accumulate ext cfg losses s = Inr s'"
  from clip_and_accumulate_B[OF B run] obtain f where
    f: "clip_factor_B cfg s = Inr f"
    and ps: "mapES (clip_param ext cfg f) (params s) = Inr (params s')" by blast
  from f obtain gs where gs: "grad_samples s = Inr gs"
    by (auto simp: clip_factor_B_def split: sum.splits)
  from mapES_Inr[OF ps] have len: "length (params s') = length (params s)"
    and each: "\<forall>k < length (params s). clip_param ext cfg f (params s ! k) = Inr (params s' ! k)"
    by auto
  from mapE_Inr[OF gs[unfolded grad_samples_def]]
  have flat: "\<forall>k < length (params s). get_flat_grad_sample (params s ! k) = Inr (gs ! k)"
    by auto
  have d: "p_summed_grad (params s' ! k)
      = Some (Grad (Dense (msum (map2 scale_sample f (gs ! k)))) False)"
    if "k < length (params s)" "p_inputs (params s ! k) = None" for k
    using clip_param_Inr[OF each[rule_format, OF that(1)]] flat[rule_format, OF that(1)] that(2)
    by (auto simp: clipped_grad_def split: if_splits)
  have e: "\<exists>raw c. sparse_coo_tensor index (concat (map2 scale_sample f (gs ! k)))
                                 (p_shape (params s ! k)) = Inr raw
                       \<and> coalesce_with ext cfg raw = Inr c
                       \<and> p_summed_grad (params s' ! k) = Some (Grad (Sparse c) False)"
    if "k < length (params s)" "p_inputs (params s ! k) = Some index" for k index
    using clip_param_Inr[OF each[rule_format, OF that(1)]] flat[rule_format, OF that(1)] that(2)
    by (auto simp: clipped_grad_def split: if_splits sum.splits)
  show "\<exists>f gs. clip_factor_B cfg s = Inr f \<and> grad_samples s = Inr gs \<and>
              length (params s') = length (params s) \<and>
              (\<forall>k < length (params s).
                 (p_inputs (params s ! k) = None \<longrightarrow>
                    p_summed_grad (params s' ! k)
                      = Some (Grad (Dense (msum (map2 scale_sample f (gs ! k)))) False))
               \<and> (\<forall>index. p_inputs (params s ! k) = Some index \<longrightarrow>
                    (\<exists>raw c. sparse_coo_tensor index (concat (map2 scale_sample f (gs ! k)))
                                 (p_shape (params s ! k)) = Inr raw
                       \<and> coalesce_with ext cfg raw = Inr c
                       \<and> p_summed_grad (params s' ! k) = Some (Grad (Sparse c) False))))"
    using f gs len d e by blast
next
  fix s' assume "dpsgd_mode cfg \<in> {MODE_DPSGD_R, MODE_DPSGD_F, MODE_LAZYDP, MODE_EANA}"
    "clip_and_accumulate ext cfg losses s = Inr s'"
  then show "\<exists>f. clip_factor_R cfg s = Inr f \<and> length (params s') = length (params s) \<and>
              (\<forall>k < length (params s).
                 (dpsgd_mode cfg = MODE_LAZYDP \<or> length (emb_l s) \<le> k \<longrightarrow>
                    p_summed_grad (params s' ! k) = backward ext f (params s) k)
               \<and> (dpsgd_mode cfg \<noteq> MODE_LAZYDP \<and> k < length (emb_l s) \<longrightarrow>
                    (\<exists>q. coalesce_emb_grad ext cfg
                            ((params s ! k)\<lparr>p_grad := backward ext f (params s) k\<rparr>) = Inr q
                       \<and> p_summed_grad (params s' ! k) = p_grad q))
               \<and> p_grad (params s' ! k) = None)"
    by (rule clip_and_accumulate_other)
qed


theorem clip_factor_bounds_gradient_witness:
  "clip_factor_B baseline_cfg dense_state = Inr [1000000 / 5000001]
   \<and> l2_norm (concat (scale_sample (1000000 / 5000001) [[3, 4]])) \<le> 1 + 1 / 1000000
   \<and> (\<exists>s'. clip_and_accumulate merge_ext baseline_cfg None dense_state = Inr s'
         \<and> p_summed_grad (params s' ! 0)
             = Some (Grad (Dense [[3000000 / 5000001, 4000000 / 5000001]]) False))
   \<and> (\<exists>s'. clip_and_accumulate merge_ext baseline_cfg None emb_state = Inr s'
         \<and> p_summed_grad (params s' ! 0)
             = Some (Grad (Sparse \<lparr> sp_elems = [(7, [5000000 / 13000001, 12000000 / 13000001])],
                                     sp_size = (8, 2), sp_coalesced = True \<rparr>) False))
   \<and> clip_factor_R merge_cfg lazy_fresh = Inr [1000000 / 5000001]
   \<and> (1000000 / 5000001) * 5 \<le> (1 + 1 / 1000000 :: real)
   \<and> (\<exists>s'. clip_and_accumulate scaled_ext merge_cfg (Some [7 / 10]) lazy_fresh = Inr s'
         \<and> p_summed_grad (params s' ! 0)
             = Some (Grad (Sparse \<lparr> sp_elems = [(7, [3000000 / 5000001, 4000000 / 5000001])],
                                     sp_size = (8, 2), sp_coalesced = False \<rparr>) False))"
proof -
  have c: "\<not> (is_debugging baseline_cfg \<and> debugging_type baseline_cfg = ''without_noise_clipping'')"
    "\<not> (is_debugging merge_cfg \<and> debugging_type merge_cfg = ''without_noise_clipping'')"
    by (simp_all add: baseline_cfg_def merge_cfg_def)
  have m: "0 \<le> max_grad_norm dense_state" "0 \<le> max_grad_norm emb_state"
    "0 \<le> max_grad_norm lazy_fresh"
    by (simp_all add: dense_state_def emb_state_def lazy_fresh_def merge_state_def)
  have B: "dpsgd_mode baseline_cfg = MODE_DPSGD_B" by (simp add: baseline_cfg_def)
  have bc: "coalesce_with merge_ext baseline_cfg t = Inr (coalesce t)" for t
    by (simp add: coalesce_with_def baseline_cfg_def merge_cfg_def)
  have n5: "l2_norm [3, 4] = 5" "l2_norm [5] = 5"
    using real_sqrt_abs[of 5] by (simp_all add: l2_norm_def)
  have pf: "per_sample_clip_factor baseline_cfg 1 [5] = [1000000 / 5000001]"
    "per_sample_clip_factor merge_cfg 1 [5] = [1000000 / 5000001]"
    by (simp_all add: per_sample_clip_factor_def baseline_cfg_def merge_cfg_def)
  have n13: "l2_norm [5, 12] = 13" "l2_norm [13] = 13"
    using real_sqrt_abs[of 13] by (simp_all add: l2_norm_def)
  have pf13: "per_sample_clip_factor baseline_cfg 1 [13] = [1000000 / 13000001]"
    by (simp add: per_sample_clip_factor_def baseline_cfg_def merge_cfg_def)

  \<comment> \<open>a dense parameter in the mode \<open>MODE_DPSGD_B\<close>\<close>
  have f: "clip_factor_B baseline_cfg dense_state = Inr [1000000 / 5000001]"
    by (simp add: dense_state_factor pf)
  have gs: "grad_samples dense_state = Inr [[[[3, 4]]]]"
    by (simp add: grad_samples_def get_flat_grad_sample_def dense_state_def dense_param_def)
  have ps: "params dense_state = [dense_param]"
    by (simp add: dense_state_def)
  have cp: "clip_param merge_ext baseline_cfg [1000000 / 5000001] dense_param
      = Inr (dense_param\<lparr> p_summed_grad := Some (Grad (Dense [[3000000 / 5000001, 4000000 / 5000001]]) False),
               p_grad_sample := GS_Tensor (GS [[[3, 4]]] True) \<rparr>)"
    by (simp add: clip_param_def dense_param_def check_processed_flag_tensor_def
        get_flat_grad_sample_def clipped_grad_def scale_sample_def)
  obtain s1 where run1: "clip_and_accumulate merge_ext baseline_cfg None dense_state = Inr s1"
    by (simp add: clip_and_accumulate_def B f ps cp)
  note main = clip_factor_bounds_gradient[OF c(1) m(1), of merge_ext None]
  from main f gs have 1: "l2_norm (concat (map (\<lambda>g. concat (scale_sample ([1000000 / 5000001] ! 0) (g ! 0)))
      [[[[3, 4]]]])) \<le> max_grad_norm dense_state + 1 / 1000000"
    by auto
  from main B run1 f gs have 2: "p_inputs (params dense_state ! 0) = None \<longrightarrow>
      p_summed_grad (params s1 ! 0)
        = Some (Grad (Dense (msum (map2 scale_sample [1000000 / 5000001] ([[[[3, 4]]]] ! 0)))) False)"
    by (auto simp: ps)
  have r1: "l2_norm (concat (scale_sample (1000000 / 5000001) [[3, 4]])) \<le> 1 + 1 / 1000000"
    using 1 by (simp add: dense_state_def merge_state_def)
  have r2: "p_summed_grad (params s1 ! 0)
             = Some (Grad (Dense [[3000000 / 5000001, 4000000 / 5000001]]) False)"
    using 2 by (simp add: ps dense_param_def scale_sample_def)

  \<comment> \<open>an embedding table in the mode \<open>MODE_DPSGD_B\<close>\<close>
  have eps: "params emb_state = [emb_param]" "max_grad_norm emb_state = 1"
    by (simp_all add: emb_state_def merge_state_def)
  have egs: "grad_samples emb_state = Inr [[[[5, 12]]]]"
    by (simp add: grad_samples_def get_flat_grad_sample_def eps emb_param_def)
  have ef: "clip_factor_B baseline_cfg emb_state = Inr [1000000 / 13000001]"
    by (simp add: clip_factor_B_def egs eps sample_norms_def stack_norm_def n13 pf13)
  have raw: "sparse_coo_tensor [7] (scale_sample (1000000 / 13000001) [[5, 12]]) (8, 2)
      = Inr \<lparr> sp_elems = [(7, [5000000 / 13000001, 12000000 / 13000001])], sp_size = (8, 2),
              sp_coalesced = False \<rparr>"
    by (simp add: sparse_coo_tensor_def scale_sample_def)
  have co: "coalesce \<lparr> sp_elems = [(7, [5000000 / 13000001, 12000000 / 13000001])], sp_size = (8, 2),
              sp_coalesced = False \<rparr>
      = \<lparr> sp_elems = [(7, [5000000 / 13000001, 12000000 / 13000001])], sp_size = (8, 2),
              sp_coalesced = True \<rparr>"
    by (simp add: coalesce_def sp_indices_def sp_row_def sp_entries_def vsum_def vadd_def numeral_2_eq_2)
  have ecp: "clip_param merge_ext baseline_cfg [1000000 / 13000001] emb_param
      = Inr (emb_param\<lparr> p_summed_grad := Some (Grad (Sparse
               \<lparr> sp_elems = [(7, [5000000 / 13000001, 12000000 / 13000001])], sp_size = (8, 2),
                 sp_coalesced = True \<rparr>) False),
               p_grad_sample := GS_Tensor (GS [[[5, 12]]] True) \<rparr>)"
  proof -
    have g: "get_flat_grad_sample emb_param = Inr [[[5, 12]]]"
      "check_processed_flag (p_grad_sample emb_param) = Inr ()"
      "p_inputs emb_param = Some [7]" "p_shape emb_param = (8, 2)" "p_summed_grad emb_param = None"
      "p_grad_sample emb_param = GS_Tensor (GS [[[5, 12]]] False)"
      by (simp_all add: emb_param_def get_flat_grad_sample_def check_processed_flag_tensor_def)
    have "clipped_grad merge_ext baseline_cfg [1000000 / 13000001] emb_param [[[5, 12]]]
        = Inr (Sparse \<lparr> sp_elems = [(7, [5000000 / 13000001, 12000000 / 13000001])], sp_size = (8, 2),
                 sp_coalesced = True \<rparr>)"
      by (simp add: clipped_grad_def g raw bc co)
    then show ?thesis by (simp add: clip_param_def g check_processed_flag_tensor_def)
  qed
  obtain s2 where run2: "clip_and_accumulate merge_ext baseline_cfg None emb_state = Inr s2"
    by (simp add: clip_and_accumulate_def B ef eps ecp)
  have inp: "p_inputs (params emb_state ! 0) = Some [7]" "p_shape (params emb_state ! 0) = (8, 2)"
    by (simp_all add: eps emb_param_def)
  from clip_factor_bounds_gradient[OF c(1) m(2), of merge_ext None] B run2 ef egs inp(1)
  obtain raw' c' where
    a: "sparse_coo_tensor [7] (concat (map2 scale_sample [1000000 / 13000001] ([[[[5, 12]]]] ! 0)))
         (p_shape (params emb_state ! 0)) = Inr raw'"
    and b: "coalesce_with merge_ext baseline_cfg raw' = Inr c'"
    and d: "p_summed_grad (params s2 ! 0) = Some (Grad (Sparse c') False)"
    by (auto simp: eps)
  have "raw' = \<lparr> sp_elems = [(7, [5000000 / 13000001, 12000000 / 13000001])], sp_size = (8, 2),
              sp_coalesced = False \<rparr>"
    using a raw by (simp add: inp)
  then have "c' = \<lparr> sp_elems = [(7, [5000000 / 13000001, 12000000 / 13000001])], sp_size = (8, 2),
              sp_coalesced = True \<rparr>"
    using b by (simp add: bc co)
  then have r3: "p_summed_grad (params s2 ! 0)
             = Some (Grad (Sparse \<lparr> sp_elems = [(7, [5000000 / 13000001, 12000000 / 13000001])],
                                     sp_size = (8, 2), sp_coalesced = True \<rparr>) False)"
    using d by simp

  \<comment> \<open>the embedding table of a LazyDP run\<close>
  have L: "dpsgd_mode merge_cfg = MODE_LAZYDP"
    "dpsgd_mode merge_cfg \<in> {MODE_DPSGD_R, MODE_DPSGD_F, MODE_LAZYDP, MODE_EANA}"
    "dpsgd_mode merge_cfg \<noteq> MODE_DPSGD_B"
    by (simp_all add: merge_cfg_def MODE_LAZYDP_def MODE_DPSGD_B_def)
  have lps: "params lazy_fresh = [lazy_param]" "max_grad_norm lazy_fresh = 1"
    by (simp_all add: lazy_fresh_def merge_state_def)
  have nn: "mapE (norms_of_param merge_cfg) (params lazy_fresh) = Inr [[[5]]]"
    by (simp add: lps norms_of_param_def lazy_param_def merge_cfg_def)
  have rf: "clip_factor_R merge_cfg lazy_fresh = Inr [1000000 / 5000001]"
    by (simp add: clip_factor_R_def nn stack_norm_def n5 lps(2) pf)
  obtain s3 where run3: "clip_and_accumulate scaled_ext merge_cfg (Some [7 / 10]) lazy_fresh = Inr s3"
    by (simp add: clip_and_accumulate_def L(1) rf Let_def MODE_LAZYDP_def MODE_DPSGD_B_def
        MODE_DPSGD_R_def MODE_DPSGD_F_def MODE_EANA_def)
  note lazy = clip_factor_bounds_gradient[OF c(2) m(3), of scaled_ext "Some [7 / 10]"]
  from lazy rf nn have 4: "[1000000 / 5000001] ! 0 * l2_norm (map (\<lambda>ns. ns ! 0) (concat [[[5]]]))
      \<le> max_grad_norm lazy_fresh + 1 / 1000000"
    by auto
  have r4: "(1000000 / 5000001) * 5 \<le> (1 + 1 / 1000000 :: real)"
    using 4 by (simp add: n5 lps)
  from lazy L(2) run3 rf have "\<forall>k < length (params lazy_fresh).
      (dpsgd_mode merge_cfg = MODE_LAZYDP \<or> length (emb_l lazy_fresh) \<le> k \<longrightarrow>
         p_summed_grad (params s3 ! k)
           = backward scaled_ext [1000000 / 5000001] (params lazy_fresh) k)"
    by auto
  from this[rule_format, of 0] L(1)
  have r5: "p_summed_grad (params s3 ! 0)
             = Some (Grad (Sparse \<lparr> sp_elems = [(7, [3000000 / 5000001, 4000000 / 5000001])],
                                     sp_size = (8, 2), sp_coalesced = False \<rparr>) False)"
    by (simp add: lps scaled_ext_def)
  show ?thesis
    using f r1 run1 r2 run2 r3 rf r4 run3 r5 by blast
qed


text \<open>
  The bound of claim C5 is one on the per-sample gradient as it is stored, with one vector
  for every gathered index. It is not a bound on the rows that are accumulated: when a
  sample gathers a row twice, coalescing adds the two vectors up. With the gradient
  \<open>[1, 1]\<close> for both gathers of row 7 and \<open>max_grad_norm = 1\<close> the factor is
  \<open>1 / (2 + 1e-6)\<close>, and the row accumulated for the sample has the squared norm
  \<open>8 / (2 + 1e-6)\<^sup>2\<close>, which is more than \<open>(1 + 1e-6)\<^sup>2\<close>.
\<close>

lemma repeated_gather_row:
  "max_grad_norm twice_state = 1
   \<and> clip_factor_B baseline_cfg twice_state = Inr [1000000 / 2000001]
   \<and> summed_grads_left (clip_and_accumulate merge_ext baseline_cfg None twice_state)
       = (None, [Some (Grad (Sparse \<lparr> sp_elems = [(7, [2000000 / 2000001, 2000000 / 2000001])],
                                          sp_size = (8, 2), sp_coalesced = True \<rparr>) False)])
   \<and> (1 + 1 / 1000000)\<^sup>2 < (2000000 / 2000001 :: real)\<^sup>2 + (2000000 / 2000001)\<^sup>2"
proof -
  let ?p = "emb_param \<lparr> p_grad_sample := GS_Tensor (GS [[[1, 1], [1, 1]]] False),
                   p_inputs := Some [7, 7] \<rparr>"
  have ps: "params twice_state = [?p]" "max_grad_norm twice_state = 1"
    by (simp_all add: twice_state_def merge_state_def)
  have n: "l2_norm [1, 1, 1, 1] = 2" "l2_norm [2] = 2"
    using real_sqrt_abs[of 2] by (simp_all add: l2_norm_def)
  have pf: "per_sample_clip_factor baseline_cfg 1 [2] = [1000000 / 2000001]"
    by (simp add: per_sample_clip_factor_def baseline_cfg_def merge_cfg_def)
  have f: "clip_factor_B baseline_cfg twice_state = Inr [1000000 / 2000001]"
    by (simp add: clip_factor_B_def grad_samples_def ps get_flat_grad_sample_def
        emb_param_def sample_norms_def stack_norm_def n pf)
  have co: "coalesce \<lparr> sp_elems = [(7, [1000000 / 2000001, 1000000 / 2000001]),
                                     (7, [1000000 / 2000001, 1000000 / 2000001])],
                         sp_size = (8, 2), sp_coalesced = False \<rparr>
      = \<lparr> sp_elems = [(7, [2000000 / 2000001, 2000000 / 2000001])], sp_size = (8, 2),
           sp_coalesced = True \<rparr>"
    by (simp add: coalesce_def sp_indices_def sp_row_def sp_entries_def vsum_def vadd_def numeral_2_eq_2)
  have cp: "clip_param merge_ext baseline_cfg [1000000 / 2000001] ?p
      = Inr (?p\<lparr> p_summed_grad := Some (Grad (Sparse
               \<lparr> sp_elems = [(7, [2000000 / 2000001, 2000000 / 2000001])], sp_size = (8, 2),
                 sp_coalesced = True \<rparr>) False),
               p_grad_sample := GS_Tensor (GS [[[1, 1], [1, 1]]] True) \<rparr>)"
    by (simp add: clip_param_def emb_param_def check_processed_flag_tensor_def
        get_flat_grad_sample_def clipped_grad_def scale_sample_def sparse_coo_tensor_def
        coalesce_with_def baseline_cfg_def merge_cfg_def co)
  have B: "dpsgd_mode baseline_cfg = MODE_DPSGD_B" by (simp add: baseline_cfg_def)
  have "(1 + 1 / 1000000)\<^sup>2 < (2000000 / 2000001 :: real)\<^sup>2 + (2000000 / 2000001)\<^sup>2"
    by (simp add: power2_eq_square)
  then show ?thesis
    by (simp add: clip_and_accumulate_def B f ps cp summed_grads_left_def)
qed

subsection \<open>The double-use guard\<close>

lemma coalesce_emb_grad_no_ValueError: "coalesce_emb_grad ext cfg p \<noteq> Inl (ValueError m)"
  by (auto simp: coalesce_emb_grad_def coalesce_with_def
      split: option.splits grad.splits tensor.splits sum.splits if_splits)

lemma clip_and_accumulate_other_no_ValueError:
  assumes "dpsgd_mode cfg \<noteq> MODE_DPSGD_B"
  shows "clip_and_accumulate ext cfg losses s \<noteq> Inl (ValueError m, t)"
proof
  assume a: "clip_and_accumulate ext cfg losses s = Inl (ValueError m, t)"
  have 1: "norms_of_param cfg p \<noteq> Inl (ValueError m)" for p
    by (auto simp: norms_of_param_def split: option.splits)
  have 3: "clip_factor_R cfg s \<noteq> Inl (ValueError m)"
    using 1 mapE_Inl[of "norms_of_param cfg" "params s" "ValueError m"]
    by (auto simp: clip_factor_R_def stack_norm_def split: sum.splits list.splits if_splits)
  have 4: "mapES (\<lambda>p. case coalesce_emb_grad ext cfg p of Inl e \<Rightarrow> Inl (e, p) | Inr p' \<Rightarrow> Inr p') ps
      \<noteq> Inl (ValueError m, qs)" for ps qs
  proof
    assume "mapES (\<lambda>p. case coalesce_emb_grad ext cfg p of Inl e \<Rightarrow> Inl (e, p) | Inr p' \<Rightarrow> Inr p') ps
      = Inl (ValueError m, qs)"
    from mapES_Inl[OF this] obtain x x' where
      "(case coalesce_emb_grad ext cfg x of Inl e \<Rightarrow> Inl (e, x) | Inr p' \<Rightarrow> Inr p')
         = Inl (ValueError m, x')"
      by blast
    then have "coalesce_emb_grad ext cfg x = Inl (ValueError m)"
      by (cases "coalesce_emb_grad ext cfg x") auto
    then show False using coalesce_emb_grad_no_ValueError by blast
  qed
  from a assms 3 4 show False
    by (auto simp: clip_and_accumulate_def Let_def split: if_splits option.splits sum.splits prod.splits)
qed

text \<open>
  The guard of the mode \<open>MODE_DPSGD_B\<close>, line 466: \<^verbatim>\<open>clip_and_accumulate\<close> called again after
  a call that returned, with no \<^verbatim>\<open>zero_grad\<close> between, raises the ValueError "Gradients
  haven't been cleared ..." and changes nothing, and so does every call in which the clip
  factors can be computed and the per-sample gradient of the first parameter is marked as
  processed. In every other mode \<^verbatim>\<open>clip_and_accumulate\<close> raises no ValueError at all.
\<close>

lemma mode_B_guard:
  "(dpsgd_mode cfg = MODE_DPSGD_B \<longrightarrow>
      (\<forall>s'. clip_and_accumulate ext cfg losses s = Inr s' \<longrightarrow>
         clip_and_accumulate ext cfg losses s' = Inl (ValueError not_cleared, s')))
   \<and> (dpsgd_mode cfg = MODE_DPSGD_B \<longrightarrow>
        (\<forall>f p ps. losses = None \<longrightarrow> clip_factor_B cfg s = Inr f \<longrightarrow> params s = p # ps \<longrightarrow>
           check_processed_flag (p_grad_sample p) \<noteq> Inr () \<longrightarrow>
           clip_and_accumulate ext cfg losses s = Inl (ValueError not_cleared, s)))
   \<and> (dpsgd_mode cfg \<noteq> MODE_DPSGD_B \<longrightarrow>
        (\<forall>m t. clip_and_accumulate ext cfg losses s \<noteq> Inl (ValueError m, t)))"
proof (intro conjI allI impI)
  fix s' assume "dpsgd_mode cfg = MODE_DPSGD_B" "clip_and_accumulate ext cfg losses s = Inr s'"
  then show "clip_and_accumulate ext cfg losses s' = Inl (ValueError not_cleared, s')"
    by (rule clip_and_accumulate_twice)
next
  fix f p ps
  assume B: "dpsgd_mode cfg = MODE_DPSGD_B" and l: "losses = None"
    and f: "clip_factor_B cfg s = Inr f" and ps: "params s = p # ps"
    and c: "check_processed_flag (p_grad_sample p) \<noteq> Inr ()"
  have only: "check_processed_flag g = Inr () \<or> check_processed_flag g = Inl (ValueError not_cleared)" for g
  proof (cases g)
    case (GS_List ts)
    have "mapE (\<lambda>t. check_processed_flag_tensor (gs_processed t)) ts = Inl e \<Longrightarrow> e = ValueError not_cleared" for e
      using mapE_Inl[of "\<lambda>t. check_processed_flag_tensor (gs_processed t)" ts e]
      by (auto simp: check_processed_flag_tensor_def split: if_splits)
    then show ?thesis using GS_List by (auto split: sum.splits)
  qed (auto simp: check_processed_flag_tensor_def)
  from only[of "p_grad_sample p"] c
  have "clip_param ext cfg f p = Inl (ValueError not_cleared, p)"
    by (simp add: clip_param_def)
  moreover have "s\<lparr>params := p # ps\<rparr> = s" using ps[symmetric] by simp
  ultimately show "clip_and_accumulate ext cfg losses s = Inl (ValueError not_cleared, s)"
    using B l f ps by (simp add: clip_and_accumulate_def)
next
  fix m t assume "dpsgd_mode cfg \<noteq> MODE_DPSGD_B"
  then show "clip_and_accumulate ext cfg losses s \<noteq> Inl (ValueError m, t)"
    by (rule clip_and_accumulate_other_no_ValueError)
qed

lemma two_step_factor: "clip_factor_B baseline_cfg two_step_state = Inr [1]"
proof -
  have "l2_norm [3, 4] = 5"
    using real_sqrt_abs[of 5] by (simp add: l2_norm_def)
  moreover have "l2_norm [5] = 5" by (simp add: l2_norm_def)
  ultimately show ?thesis
    by (simp add: clip_factor_B_def grad_samples_def get_flat_grad_sample_def two_step_state_def
        dense_state_def dense_param_def merge_state_def sample_norms_def stack_norm_def
        per_sample_clip_factor_def baseline_cfg_def merge_cfg_def)
qed

lemma two_step_first_clip:
  "clip_and_accumulate merge_ext baseline_cfg None two_step_state
     = Inr (two_step_state \<lparr>
              params := [dense_param \<lparr> p_summed_grad := Some (Grad (Dense [[3, 4]]) False),
                               p_grad_sample := GS_Tensor (GS [[[3, 4]]] True) \<rparr>] \<rparr>)"
proof -
  have cp: "clip_param merge_ext baseline_cfg [1] dense_param
      = Inr (dense_param\<lparr> p_summed_grad := Some (Grad (Dense [[3, 4]]) False),
               p_grad_sample := GS_Tensor (GS [[[3, 4]]] True) \<rparr>)"
    by (simp add: clip_param_def dense_param_def check_processed_flag_tensor_def
        get_flat_grad_sample_def clipped_grad_def scale_sample_def)
  have B: "dpsgd_mode baseline_cfg = MODE_DPSGD_B" by (simp add: baseline_cfg_def)
  have ps: "params two_step_state = [dense_param]"
    by (simp add: two_step_state_def dense_state_def)
  show ?thesis
    by (simp add: clip_and_accumulate_def B two_step_factor ps cp)
qed

lemma mode_B_guard_example:
  "clip_and_accumulate merge_ext baseline_cfg None
        (two_step_state \<lparr>
              params := [dense_param \<lparr> p_summed_grad := Some (Grad (Dense [[3, 4]]) False),
                               p_grad_sample := GS_Tensor (GS [[[3, 4]]] True) \<rparr>] \<rparr>)
     = Inl (ValueError not_cleared, two_step_state \<lparr>
              params := [dense_param \<lparr> p_summed_grad := Some (Grad (Dense [[3, 4]]) False),
                               p_grad_sample := GS_Tensor (GS [[[3, 4]]] True) \<rparr>] \<rparr>)"
proof -
  have B: "dpsgd_mode baseline_cfg = MODE_DPSGD_B" by (simp add: baseline_cfg_def)
  from mode_B_guard[of baseline_cfg merge_ext None two_step_state] B two_step_first_clip
  show ?thesis by simp
qed

subsection \<open>A complete LazyDP step, and a second one\<close>

lemma lazy_modes:
  "dpsgd_mode merge_cfg = MODE_LAZYDP" "dpsgd_mode merge_cfg \<noteq> MODE_DPSGD_B"
  "dpsgd_mode merge_cfg \<in> {MODE_DPSGD_R, MODE_DPSGD_F, MODE_LAZYDP, MODE_EANA}"
  "dpsgd_mode merge_cfg \<noteq> MODE_EANA" "\<not> is_debugging merge_cfg"
  "coalesce_optimize merge_cfg = ''baseline''"
  by (simp_all add: merge_cfg_def MODE_LAZYDP_def MODE_DPSGD_B_def MODE_EANA_def)

lemma lazy_fresh_fields:
  "params lazy_fresh = [lazy_param]" "generator lazy_fresh = 0" "max_grad_norm lazy_fresh = 1"
  "noise_multiplier lazy_fresh = 1" "step_skip_queue lazy_fresh = []" "emb_l lazy_fresh = [(8, 2)]"
  "lS_i_nxt lazy_fresh = Some [[7]]" "HT lazy_fresh = [replicate 8 0]" "cnt_iter lazy_fresh = 4"
  "stds_for_delayed_noise lazy_fresh = [[2]]" "secure_mode lazy_fresh = False"
  by (simp_all add: lazy_fresh_def merge_state_def)

lemma lazy_stepped_fields:
  "params lazy_stepped = [lazy_param_stepped]" "generator lazy_stepped = 1"
  "max_grad_norm lazy_stepped = 1"
  "noise_multiplier lazy_stepped = 1" "step_skip_queue lazy_stepped = []"
  "emb_l lazy_stepped = [(8, 2)]"
  "lS_i_nxt lazy_stepped = Some [[7]]" "HT lazy_stepped = [replicate 8 0]"
  "cnt_iter lazy_stepped = 4"
  "stds_for_delayed_noise lazy_stepped = [[2]]" "secure_mode lazy_stepped = False"
  by (simp_all add: lazy_stepped_def lazy_fresh_def merge_state_def)

lemma lazy_factor:
  assumes "params s = [p]" "p_grad_sample_norms p = Some [[5]]" "p_device p = Cpu"
    "max_grad_norm s = 1"
  shows "clip_factor_R merge_cfg s = Inr [1000000 / 5000001]"
proof -
  have n: "mapE (norms_of_param merge_cfg) (params s) = Inr [[[5]]]"
    using assms by (simp add: norms_of_param_def merge_cfg_def)
  have "l2_norm [5] = 5" by (simp add: l2_norm_def)
  then show ?thesis
    using assms(4) by (simp add: clip_factor_R_def n stack_norm_def per_sample_clip_factor_def lazy_modes)
qed

lemma lazy_first_clip:
  "clip_and_accumulate lazy_ext merge_cfg (Some [7 / 10]) lazy_fresh
    = Inr (lazy_fresh\<lparr>params := [lazy_param\<lparr>p_summed_grad :=
        Some (Grad (Sparse \<lparr> sp_elems = [(7, [1, 1])], sp_size = (8, 2), sp_coalesced = False \<rparr>) False),
        p_grad := None\<rparr>]\<rparr>)"
proof -
  have r: "clip_factor_R merge_cfg lazy_fresh = Inr [1000000 / 5000001]"
    by (rule lazy_factor[where p = lazy_param]) (simp_all add: lazy_fresh_fields lazy_param_def)
  have g: "p_grad lazy_param = None" by (simp add: lazy_param_def)
  show ?thesis
    by (simp add: clip_and_accumulate_def lazy_modes(1) r Let_def lazy_fresh_fields lazy_ext_def g
        MODE_LAZYDP_def MODE_DPSGD_B_def MODE_DPSGD_R_def MODE_DPSGD_F_def MODE_EANA_def)
qed

lemma lazy_merge:
  "merge_noise_and_grad merge_cfg 2 0 8 [7] [[2, 2], [0, 0]] (Suc 0)
       \<lparr> sp_elems = [(7, [1, 1])], sp_size = (8, 2), sp_coalesced = False \<rparr>
     = Inr \<lparr> sp_elems = [(7, [2, 2]), (7, [1, 1])], sp_size = (8, 2), sp_coalesced = False \<rparr>"
  "coalesce \<lparr> sp_elems = [(7, [2, 2]), (7, [1, 1])], sp_size = (8, 2), sp_coalesced = False \<rparr>
      = \<lparr> sp_elems = [(7, [3, 3])], sp_size = (8, 2), sp_coalesced = True \<rparr>"
  "merge_noise_and_grad merge_cfg 2 0 8 [7] [[2, 2], [0, 0]] (Suc 0)
       \<lparr> sp_elems = [(7, [4, 4])], sp_size = (8, 2), sp_coalesced = False \<rparr>
     = Inr \<lparr> sp_elems = [(7, [2, 2]), (7, [4, 4])], sp_size = (8, 2), sp_coalesced = False \<rparr>"
  "coalesce \<lparr> sp_elems = [(7, [2, 2]), (7, [4, 4])], sp_size = (8, 2), sp_coalesced = False \<rparr>
      = \<lparr> sp_elems = [(7, [6, 6])], sp_size = (8, 2), sp_coalesced = True \<rparr>"
  by (simp_all add: merge_noise_and_grad_def assign_slice_def sparse_coo_tensor_def extra_rows_def
        sp_values_def sp_indices_def merge_cfg_def Let_def
        coalesce_def sp_row_def sp_entries_def vsum_def vadd_def numeral_2_eq_2)

lemma lazy_first_step:
  "pre_step lazy_ext merge_cfg None (Some [7 / 10]) lazy_fresh = Inr (True, lazy_stepped)"
proof -
  let ?raw = "\<lparr> sp_elems = [(7, [1, 1])], sp_size = (8, 2), sp_coalesced = False \<rparr>"
  let ?s1 = "lazy_fresh\<lparr>params := [lazy_param\<lparr>p_summed_grad := Some (Grad (Sparse ?raw) False), p_grad := None\<rparr>]\<rparr>"
  let ?s3 = "lazy_fresh\<lparr>params := [lazy_param\<lparr>p_summed_grad := Some (Grad (Sparse ?raw) True),
                 p_grad := Some (Grad (Sparse ?raw) True)\<rparr>]\<rparr>"
  have 2: "check_skip_next_step True ?s1 = (False, ?s1)"
    by (simp add: check_skip_next_step_def lazy_fresh_fields)
  have 3: "add_noise lazy_ext merge_cfg ?s1 = Inr ?s3"
    by (simp add: add_noise_def add_noise_param_def check_grad_processed_flag_def
        check_processed_flag_tensor_def lazy_param_def lazy_modes(1) mark_grad_as_processed_def
        lazy_fresh_fields MODE_LAZYDP_def MODE_EANA_def)
  have 4: "set_emb_to_noise_update ?s3 = Inr ?s3"
    by (simp add: set_emb_to_noise_update_def lazy_fresh_fields index_select_def pow_half_def
        to_int32_def lazy_fresh_def merge_state_def)
  have ev: "delayed_noise_rows lazy_ext merge_cfg ?s3 2 [2] 0 = Inr ([[2, 2], [0, 0]], True)"
    by (simp add: delayed_noise_rows_def lazy_ext_def merge_ext_def merge_cfg_def extra_rows_def)
  have g: "sparse_grad_of ?s3 0 = Inr (?raw, True)"
    by (simp add: sparse_grad_of_def)
  have sh: "p_shape (lazy_param\<lparr>p_summed_grad := Some (Grad (Sparse ?raw) True),
                 p_grad := Some (Grad (Sparse ?raw) True)\<rparr>) = (8, 2)"
    by (simp add: lazy_param_def)
  have 5: "do_delayed_noise_update lazy_ext merge_cfg ?s3 = Inr lazy_stepped"
    by (simp add: do_delayed_noise_update_def delayed_noise_table_def lazy_fresh_fields ev g sh
        lazy_merge coalesce_with_def lazy_modes Let_def returns_self_def)
       (simp add: lazy_stepped_def lazy_param_stepped_def lazy_param_def)
  show ?thesis
    by (simp add: pre_step_def lazy_first_clip 2 3 4 5 lazy_modes)
       (simp add: lazy_stepped_def lazy_fresh_def merge_state_def)
qed

lemma lazy_second_clip:
  "clip_and_accumulate lazy_ext merge_cfg (Some [7 / 10]) lazy_stepped
     = Inr (lazy_stepped\<lparr>params := [lazy_param_stepped\<lparr>p_summed_grad :=
         Some (Grad (Sparse \<lparr> sp_elems = [(7, [4, 4])], sp_size = (8, 2), sp_coalesced = False \<rparr>) False),
         p_grad := None\<rparr>]\<rparr>)"
proof -
  have r: "clip_factor_R merge_cfg lazy_stepped = Inr [1000000 / 5000001]"
    by (rule lazy_factor[where p = lazy_param_stepped])
       (simp_all add: lazy_stepped_fields lazy_param_stepped_def lazy_param_def)
  have g: "p_grad lazy_param_stepped
      = Some (Grad (Sparse \<lparr> sp_elems = [(7, [3, 3])], sp_size = (8, 2), sp_coalesced = True \<rparr>) False)"
    by (simp add: lazy_param_stepped_def)
  have a: "iadd (Sparse \<lparr> sp_elems = [(7, [3, 3])], sp_size = (8, 2), sp_coalesced = True \<rparr>)
                (Sparse \<lparr> sp_elems = [(7, [1, 1])], sp_size = (8, 2), sp_coalesced = False \<rparr>)
      = Inr (Sparse \<lparr> sp_elems = [(7, [4, 4])], sp_size = (8, 2), sp_coalesced = False \<rparr>)"
    by (simp add: iadd_def vadd_def)
  show ?thesis
    by (simp add: clip_and_accumulate_def lazy_modes(1) r Let_def lazy_stepped_fields lazy_ext_def g a
        MODE_LAZYDP_def MODE_DPSGD_B_def MODE_DPSGD_R_def MODE_DPSGD_F_def MODE_EANA_def)
qed

lemma lazy_second_step:
  "pre_step lazy_ext merge_cfg None (Some [7 / 10]) lazy_stepped = Inr (True, lazy_twice)"
proof -
  let ?raw = "\<lparr> sp_elems = [(7, [4, 4])], sp_size = (8, 2), sp_coalesced = False \<rparr>"
  let ?s1 = "lazy_stepped\<lparr>params := [lazy_param_stepped\<lparr>p_summed_grad := Some (Grad (Sparse ?raw) False), p_grad := None\<rparr>]\<rparr>"
  let ?s3 = "lazy_stepped\<lparr>params := [lazy_param_stepped\<lparr>p_summed_grad := Some (Grad (Sparse ?raw) True),
                 p_grad := Some (Grad (Sparse ?raw) True)\<rparr>]\<rparr>"
  have 2: "check_skip_next_step True ?s1 = (False, ?s1)"
    by (simp add: check_skip_next_step_def lazy_stepped_fields)
  have 3: "add_noise lazy_ext merge_cfg ?s1 = Inr ?s3"
    by (simp add: add_noise_def add_noise_param_def check_grad_processed_flag_def
        check_processed_flag_tensor_def lazy_param_stepped_def lazy_param_def lazy_modes(1)
        mark_grad_as_processed_def lazy_stepped_fields MODE_LAZYDP_def MODE_EANA_def)
  have 4: "set_emb_to_noise_update ?s3 = Inr ?s3"
    by (simp add: set_emb_to_noise_update_def lazy_stepped_fields index_select_def pow_half_def
        to_int32_def lazy_stepped_def lazy_fresh_def merge_state_def)
  have ev: "delayed_noise_rows lazy_ext merge_cfg ?s3 2 [2] 0 = Inr ([[2, 2], [0, 0]], True)"
    by (simp add: delayed_noise_rows_def lazy_ext_def merge_ext_def merge_cfg_def extra_rows_def)
  have g: "sparse_grad_of ?s3 0 = Inr (?raw, True)"
    by (simp add: sparse_grad_of_def)
  have sh: "p_shape (lazy_param_stepped\<lparr>p_summed_grad := Some (Grad (Sparse ?raw) True),
                 p_grad := Some (Grad (Sparse ?raw) True)\<rparr>) = (8, 2)"
    by (simp add: lazy_param_stepped_def lazy_param_def)
  have 5: "do_delayed_noise_update lazy_ext merge_cfg ?s3 = Inr lazy_twice"
    by (simp add: do_delayed_noise_update_def delayed_noise_table_def lazy_stepped_fields ev g sh
        lazy_merge coalesce_with_def lazy_modes Let_def returns_self_def)
       (simp add: lazy_twice_def lazy_stepped_def lazy_param_twice_def lazy_param_stepped_def
          lazy_param_def)
  show ?thesis
    by (simp add: pre_step_def lazy_second_clip 2 3 4 5 lazy_modes)
       (simp add: lazy_twice_def lazy_fresh_def merge_state_def)
qed

text \<open>
  Claim C4. The guard is what the optimizer promises (the docstring of
  \<^verbatim>\<open>_mark_as_processed\<close>: no gradient can be used twice) and what the loop of the mode
  \<open>MODE_DPSGD_B\<close> does in line 466. The branch of the other modes, lines 500 to 553, has no
  such check. In LazyDP mode a complete step marks \<^verbatim>\<open>p.summed_grad\<close> as processed and
  leaves the noisy gradient \<open>[3, 3]\<close> of row 7 in \<^verbatim>\<open>p.grad\<close>. With no \<^verbatim>\<open>zero_grad\<close> behind
  it a second \<^verbatim>\<open>clip_and_accumulate\<close> returns, with the old gradient inside the new
  \<^verbatim>\<open>p.summed_grad\<close> \<open>[4, 4]\<close>, and so does the whole second step: line 551 replaces the
  marked tensor before \<^verbatim>\<open>add_noise\<close> looks at its flag. No ValueError is raised.
\<close>

theorem double_use_unguarded:
  "dpsgd_mode merge_cfg = MODE_LAZYDP
   \<and> pre_step lazy_ext merge_cfg None (Some [7 / 10]) lazy_fresh = Inr (True, lazy_stepped)
   \<and> map (map_option g_processed \<circ> p_summed_grad) (params lazy_stepped) = [Some True]
   \<and> summed_grads_left (clip_and_accumulate lazy_ext merge_cfg (Some [7 / 10]) lazy_stepped)
       = (None, [Some (Grad (Sparse \<lparr> sp_elems = [(7, [4, 4])], sp_size = (8, 2),
                                        sp_coalesced = False \<rparr>) False)])
   \<and> pre_step lazy_ext merge_cfg None (Some [7 / 10]) lazy_stepped = Inr (True, lazy_twice)"
  by (simp add: lazy_first_step lazy_second_clip lazy_second_step lazy_modes summed_grads_left_def)
     (simp add: lazy_stepped_def lazy_param_stepped_def lazy_param_def)

subsection \<open>Skipped steps\<close>









lemma pair_norms:
  "l2_norm [3, 4] = 5" "l2_norm [0, 12] = 12" "l2_norm [5, 12] = 13"
  "l2_norm [6, 8] = 10" "l2_norm [0, 24] = 24" "l2_norm [10, 24] = 26"
  using real_sqrt_abs[of 5] real_sqrt_abs[of 13] real_sqrt_abs[of 10] real_sqrt_abs[of 26]
  by (simp_all add: l2_norm_def)





lemma emb_first_step:
  "pre_step merge_ext baseline_cfg None None (signal_skip_step True emb_start)
     = Inr (False, emb_skipped)"
proof -
  let ?t = "signal_skip_step True emb_start"
  have ps: "params ?t = [emb_param]" and mg: "max_grad_norm ?t = 100"
    by (simp_all add: signal_skip_step_def emb_start_def emb_state_def)
  have pf: "per_sample_clip_factor baseline_cfg 100 [13] = [1]"
    by (simp add: per_sample_clip_factor_def baseline_cfg_def merge_cfg_def)
  have n13: "l2_norm [13] = 13" by (simp add: l2_norm_def)
  have f: "clip_factor_B baseline_cfg ?t = Inr [1]"
    by (simp add: clip_factor_B_def grad_samples_def ps mg get_flat_grad_sample_def
        emb_param_def sample_norms_def stack_norm_def pair_norms n13 pf)
  have co: "coalesce \<lparr> sp_elems = [(7, [5, 12])], sp_size = (8, 2), sp_coalesced = False \<rparr>
      = \<lparr> sp_elems = [(7, [5, 12])], sp_size = (8, 2), sp_coalesced = True \<rparr>"
    by (simp add: coalesce_def sp_indices_def sp_row_def sp_entries_def vsum_def vadd_def numeral_2_eq_2)
  have cp: "clip_param merge_ext baseline_cfg [1] emb_param
      = Inr (emb_param\<lparr> p_summed_grad := Some (Grad (Sparse
               \<lparr> sp_elems = [(7, [5, 12])], sp_size = (8, 2), sp_coalesced = True \<rparr>) False),
               p_grad_sample := GS_Tensor (GS [[[5, 12]]] True) \<rparr>)"
    by (simp add: clip_param_def emb_param_def check_processed_flag_tensor_def
        get_flat_grad_sample_def clipped_grad_def scale_sample_def sparse_coo_tensor_def
        coalesce_with_def baseline_cfg_def merge_cfg_def co)
  have B: "dpsgd_mode baseline_cfg = MODE_DPSGD_B" by (simp add: baseline_cfg_def)
  have 1: "clip_and_accumulate merge_ext baseline_cfg None ?t
     = Inr (?t\<lparr>params := [emb_param\<lparr> p_summed_grad := Some (Grad (Sparse
               \<lparr> sp_elems = [(7, [5, 12])], sp_size = (8, 2), sp_coalesced = True \<rparr>) False),
               p_grad_sample := GS_Tensor (GS [[[5, 12]]] True) \<rparr>]\<rparr>)"
    by (simp add: clip_and_accumulate_def B f ps cp)
  show ?thesis
    by (simp add: pre_step_def 1 check_skip_next_step_def)
       (simp add: signal_skip_step_def emb_skipped_def emb_start_def emb_state_def merge_state_def)
qed







subsection \<open>The rows of the next batch\<close>

lemma set_lS_i_loop_rows:
  "set_lS_i_loop ext cfg ls js s = Inr s' \<Longrightarrow> unique_optimize cfg = ''baseline'' \<Longrightarrow>
   lS_i_nxt s = Some cur \<Longrightarrow> distinct js \<Longrightarrow>
     (\<forall>j \<in> set js. j < length cur) \<and>
     lS_i_nxt s' = Some (map (\<lambda>i. if i \<in> set js then sort (remdups (ls ! i)) else cur ! i)
                            [0..<length cur])"
proof (induction js arbitrary: s cur)
  case Nil
  then show ?case by (simp add: map_nth)
next
  case (Cons j js)
  from Cons.prems obtain t where a: "assign_lS_i j (sort (remdups (ls ! j))) s = Inr t"
    and r: "set_lS_i_loop ext cfg ls js t = Inr s'"
    by (auto split: sum.splits)
  from a Cons.prems(3) have j: "j < length cur"
    and t: "lS_i_nxt t = Some (cur[j := sort (remdups (ls ! j))])"
    by (auto simp: assign_lS_i_def split: if_splits)
  from Cons.prems(4) have d: "distinct js" and nj: "j \<notin> set js" by auto
  note ih = Cons.IH[OF r Cons.prems(2) t d]
  show ?case
    using ih j nj by (auto simp: nth_list_update)
qed

lemma set_lS_i_rows:
  assumes "set_lS_i ext cfg (Some ls) s = Inr s'" and "unique_optimize cfg = ''baseline''"
    and "ls \<noteq> []"
  shows "\<exists>cur. lS_i_nxt s' = Some cur \<and> length ls \<le> length cur \<and>
     (\<forall>i < length ls. cur ! i = sort (remdups (ls ! i)) \<and> distinct (cur ! i) \<and> sorted (cur ! i)
        \<and> set (cur ! i) = set (ls ! i))"
proof (cases "lS_i_nxt s")
  case None
  then show ?thesis
    using assms by (cases ls) (auto simp: set_lS_i_def upt_rec assign_lS_i_def)
next
  case (Some cur)
  from assms have "set_lS_i_loop ext cfg ls [0..<length ls] s = Inr s'"
    by (simp add: set_lS_i_def)
  from set_lS_i_loop_rows[OF this assms(2) Some] show ?thesis
    by auto
qed

lemma set_lS_i_None: "set_lS_i ext cfg None s = Inr s' \<Longrightarrow> lS_i_nxt s' = None"
  by (auto simp: set_lS_i_def)


subsection \<open>The history table along a sequence of calls\<close>

lemma DPOptimizer_init_HT_bounded:
  "DPOptimizer_init nm mgn ebs lr sec ps embs = Inr s \<Longrightarrow> HT_bounded s \<and> cnt_iter s = 0"
  by (auto simp: DPOptimizer_init_def HT_bounded_def split: if_splits)

lemma assign_lS_i_frame:
  "assign_lS_i i v s = Inr s' \<Longrightarrow> HT s' = HT s \<and> cnt_iter s' = cnt_iter s"
  by (auto simp: assign_lS_i_def split: option.splits if_splits)

lemma set_lS_i_loop_frame:
  "set_lS_i_loop ext cfg ls js s = Inr s' \<Longrightarrow> HT s' = HT s \<and> cnt_iter s' = cnt_iter s"
proof (induction js arbitrary: s)
  case Nil
  then show ?case by simp
next
  case (Cons j js)
  then show ?case
    by (auto split: if_splits sum.splits dest!: assign_lS_i_frame)
qed

lemma set_lS_i_frame:
  "set_lS_i ext cfg arg s = Inr s' \<Longrightarrow> HT s' = HT s \<and> cnt_iter s' = cnt_iter s"
  by (auto simp: set_lS_i_def split: option.splits dest!: set_lS_i_loop_frame)

lemma clip_and_accumulate_frame:
  "clip_and_accumulate ext cfg losses s = Inr s' \<Longrightarrow> HT s' = HT s \<and> cnt_iter s' = cnt_iter s"
  unfolding clip_and_accumulate_def
  by (auto split: if_splits sum.splits option.splits simp: Let_def)

lemma add_noise_frame:
  "add_noise ext cfg s = Inr s' \<Longrightarrow> HT s' = HT s \<and> cnt_iter s' = cnt_iter s"
  unfolding add_noise_def
  by (auto split: sum.splits prod.splits)

lemma set_emb_to_noise_update_frame:
  "set_emb_to_noise_update s = Inr s' \<Longrightarrow> HT s' = HT s \<and> cnt_iter s' = cnt_iter s"
  unfolding set_emb_to_noise_update_def
  by (auto split: option.splits dest!: set_emb_loop_frame)

lemma delayed_noise_loop_frame:
  "delayed_noise_loop ext cfg d js s = Inr s' \<Longrightarrow> HT s' = HT s \<and> cnt_iter s' = cnt_iter s"
proof (induction js arbitrary: s)
  case Nil
  then show ?case by simp
next
  case (Cons j js)
  then show ?case
    by (auto split: sum.splits dest!: delayed_noise_table_frame)
qed

lemma do_delayed_noise_update_frame:
  "do_delayed_noise_update ext cfg s = Inr s' \<Longrightarrow> HT s' = HT s \<and> cnt_iter s' = cnt_iter s"
  unfolding do_delayed_noise_update_def
  by (auto split: list.splits dest!: delayed_noise_loop_frame)

lemma scale_grad_frame:
  "scale_grad s = Inr s' \<Longrightarrow> HT s' = HT s \<and> cnt_iter s' = cnt_iter s"
  unfolding scale_grad_def
  by (auto split: if_splits option.splits sum.splits)

lemma check_skip_next_step_frame:
  "check_skip_next_step b s = (r, s') \<Longrightarrow> HT s' = HT s \<and> cnt_iter s' = cnt_iter s"
  unfolding check_skip_next_step_def
  by (auto split: list.splits if_splits)

lemma step_frame:
  assumes "step ext cfg None losses s = Inr s'"
  shows "HT s' = HT s \<and> cnt_iter s' = cnt_iter s"
proof -
  from assms obtain b where p: "pre_step ext cfg None losses s = Inr (b, s')"
    by (auto simp: step_def split: sum.splits)
  from p obtain s1 where 1: "clip_and_accumulate ext cfg losses s = Inr s1"
    by (auto simp: pre_step_def split: sum.splits)
  obtain k s2 where 2: "check_skip_next_step True s1 = (k, s2)"
    by (cases "check_skip_next_step True s1")
  have f2: "HT s2 = HT s \<and> cnt_iter s2 = cnt_iter s"
    using clip_and_accumulate_frame[OF 1] check_skip_next_step_frame[OF 2] by simp
  show ?thesis
  proof (cases k)
    case True
    then show ?thesis using p 1 2 f2 by (auto simp: pre_step_def)
  next
    case False
    from p 1 2 False obtain s3 where 3: "add_noise ext cfg s2 = Inr s3"
      by (auto simp: pre_step_def split: sum.splits)
    from p 1 2 3 False obtain s5 where
      5: "(if dpsgd_mode cfg = MODE_LAZYDP
             then (case set_emb_to_noise_update s3 of Inl e \<Rightarrow> Inl e
                   | Inr s4 \<Rightarrow> do_delayed_noise_update ext cfg s4)
             else Inr s3) = Inr s5"
      by (auto simp: pre_step_def split: sum.splits)
    have f5: "HT s5 = HT s3 \<and> cnt_iter s5 = cnt_iter s3"
      using 5 by (auto split: if_splits sum.splits
          dest!: set_emb_to_noise_update_frame do_delayed_noise_update_frame)
    from p 1 2 3 5 False obtain s6 where
      6: "(if is_debugging cfg then scale_grad s5 else Inr s5) = Inr s6"
      and s': "s' = s6\<lparr>is_last_step_skipped := False\<rparr>"
      by (auto simp: pre_step_def split: sum.splits)
    have f6: "HT s6 = HT s5 \<and> cnt_iter s6 = cnt_iter s5"
      using 6 by (auto split: if_splits dest!: scale_grad_frame)
    show ?thesis
      using f2 add_noise_frame[OF 3] f5 f6 s' by simp
  qed
qed

lemma HT_le_refl: "HT s' = HT s \<Longrightarrow> HT_le s s'"
  by (simp add: HT_le_def)

lemma HT_le_trans: "HT_le s t \<Longrightarrow> HT_le t u \<Longrightarrow> HT_le s u"
  unfolding HT_le_def by (auto; meson order_trans)

lemma HT_bounded_frame:
  "HT s' = HT s \<Longrightarrow> cnt_iter s' = cnt_iter s \<Longrightarrow> HT_bounded s \<Longrightarrow> HT_bounded s'"
  by (simp add: HT_bounded_def)

lemma call_history:
  assumes "call ext cfg c s = Inr s'" and "HT_bounded s"
  shows "HT_bounded s' \<and> HT_le s s' \<and>
     cnt_iter s' = cnt_iter s + (if c = Set_HT_increase_cnt_iter then 1 else 0)"
proof (cases c)
  case (Signal_skip_step b)
  then show ?thesis using assms by (auto simp: signal_skip_step_def HT_bounded_def HT_le_def)
next
  case (Set_lS_i arg)
  then have "HT s' = HT s \<and> cnt_iter s' = cnt_iter s"
    using assms set_lS_i_frame by auto
  then show ?thesis using assms(2) Set_lS_i by (auto intro: HT_bounded_frame HT_le_refl)
next
  case (Step losses)
  then have "HT s' = HT s \<and> cnt_iter s' = cnt_iter s"
    using assms step_frame by auto
  then show ?thesis using assms(2) Step by (auto intro: HT_bounded_frame HT_le_refl)
next
  case Set_HT_increase_cnt_iter
  then have run: "set_HT_increase_cnt_iter s = Inr s'" using assms by simp
  show ?thesis
    using set_HT_step(1,2,3,5,6)[OF run assms(2)] Set_HT_increase_cnt_iter
    by (simp add: HT_le_def)
next
  case (Zero_grad b)
  then show ?thesis using assms by (auto simp: zero_grad_def HT_bounded_def HT_le_def Let_def)
qed

text \<open>
  Along any sequence of calls that ends without an exception, the history table keeps its
  shape, none of its entries decreases, every entry stays at most \<open>cnt_iter\<close>, and
  \<open>cnt_iter\<close> has grown by the number of calls of \<^verbatim>\<open>set_HT_increase_cnt_iter\<close>.
\<close>

lemma calls_history:
  "calls ext cfg cs s = Inr s' \<Longrightarrow> HT_bounded s \<Longrightarrow>
     HT_bounded s' \<and> HT_le s s' \<and>
     cnt_iter s' = cnt_iter s + int (length (filter (\<lambda>c. c = Set_HT_increase_cnt_iter) cs))"
proof (induction cs arbitrary: s)
  case Nil
  then show ?case by (simp add: HT_le_def)
next
  case (Cons c cs)
  from Cons.prems obtain t where t: "call ext cfg c s = Inr t" and r: "calls ext cfg cs t = Inr s'"
    by (auto split: sum.splits)
  note a = call_history[OF t Cons.prems(2)]
  note b = Cons.IH[OF r a[THEN conjunct1]]
  show ?case using a b by (auto intro: HT_le_trans)
qed

text \<open>
  Two iterations from the state of iteration 9: the first batch reads the rows 3 and 1,
  the second the row 0.
\<close>

lemma calls_example:
  "calls merge_ext merge_cfg
     [Set_lS_i (Some [[3, 1, 3]]), Set_HT_increase_cnt_iter,
      Set_lS_i (Some [[0]]), Set_HT_increase_cnt_iter] lazy_example
   = Inr (lazy_example\<lparr>lS_i_nxt := Some [[0]], HT := [[10, 9, 0, 9]], cnt_iter := 11\<rparr>)"
  by (simp add: set_lS_i_def assign_lS_i_def merge_cfg_def lazy_example_def
      set_HT_increase_cnt_iter_def index_fill_def in_int32_def to_int32_def)

end
